(* ===== verification/Prelude.thy ===== *)
theory Prelude
  imports Complex_Main "HOL-Library.Sublist"
begin

text \<open>
  Shared vocabulary of the Kokoro export development. A tensor of the PyTorch code is a
  list (one axis) or a list of rows (two axes, \<open>'a matrix\<close>); a Python exception is a
  value of \<open>py_error\<close> and a fallible operation returns \<open>'a result\<close>, with \<open>Inl\<close> the
  exception. The theory holds the Python and torch primitives several components use
  (negative indexing, \<open>cumsum\<close>, \<open>zeros\<close>, batched \<open>@\<close>), the collection
  \<open>shape_simps\<close> of facts on lengths and shapes, and the generic list lemmas on
  prefix sums that the alignment and duration proofs share.
\<close>

named_theorems shape_simps "lengths and shapes of the lists that model tensors"

section \<open>Errors\<close>

datatype py_error =
    AssertionError string
  | IndexError
  | RuntimeError string
  | NameError string
  | AttributeError string
  | KeyError string
  | TypeError string
  | FileNotFoundError string
  | ValidationError string

type_synonym 'a result = "py_error + 'a"

type_synonym 'a matrix = "'a list list"

text \<open>Sequencing of fallible steps: the first exception propagates, as in Python.\<close>

definition rbind :: "'a result \<Rightarrow> ('a \<Rightarrow> 'b result) \<Rightarrow> 'b result" where
  "rbind r f = (case r of Inl e \<Rightarrow> Inl e | Inr a \<Rightarrow> f a)"


text \<open>An operation applied to every row of a batch; the first failure propagates.\<close>

primrec rmap :: "('a \<Rightarrow> 'b result) \<Rightarrow> 'a list \<Rightarrow> 'b list result" where
  "rmap f [] = Inr []"
| "rmap f (x # xs) = rbind (f x) (\<lambda>y. rbind (rmap f xs) (\<lambda>ys. Inr (y # ys)))"

section \<open>Python primitives\<close>

text \<open>\<open>xs[i]\<close> on a Python list or on the first axis of a tensor: negative indices count
  from the end, anything else out of range raises.\<close>

definition py_index :: "'a list \<Rightarrow> int \<Rightarrow> 'a result" where
  "py_index xs i =
     (if - int (length xs) \<le> i \<and> i < int (length xs)
      then Inr (xs ! nat (if i < 0 then i + int (length xs) else i))
      else Inl IndexError)"

section \<open>torch primitives\<close>

text \<open>\<open>torch.cumsum\<close> on a one-dimensional integer tensor: the running sums.\<close>

fun cumsum_from :: "nat \<Rightarrow> nat list \<Rightarrow> nat list" where
  "cumsum_from acc [] = []"
| "cumsum_from acc (x # xs) = (acc + x) # cumsum_from (acc + x) xs"

definition cumsum :: "nat list \<Rightarrow> nat list" where
  "cumsum xs = cumsum_from 0 xs"

text \<open>int64 arithmetic, with the wrap-around written out: a sum of int64 values is the
  integer sum reduced into \<open>[-2^63, 2^63)\<close>. \<open>cumsum64\<close> is \<open>torch.cumsum\<close> on an int64
  tensor, adding one element at a time.\<close>

definition wrap64 :: "int \<Rightarrow> int" where
  "wrap64 x = (x + 2 ^ 63) mod 2 ^ 64 - 2 ^ 63"

fun cumsum64_from :: "int \<Rightarrow> int list \<Rightarrow> int list" where
  "cumsum64_from acc [] = []"
| "cumsum64_from acc (x # xs) = wrap64 (acc + x) # cumsum64_from (wrap64 (acc + x)) xs"

definition cumsum64 :: "int list \<Rightarrow> int list" where
  "cumsum64 xs = cumsum64_from 0 xs"

text \<open>\<open>torch.zeros((r, c))\<close>.\<close>

definition zeros :: "nat \<Rightarrow> nat \<Rightarrow> 'a::zero matrix" where
  "zeros r c = replicate r (replicate c 0)"

definition ncols :: "'a matrix \<Rightarrow> nat" where
  "ncols M = (case M of [] \<Rightarrow> 0 | row # _ \<Rightarrow> length row)"

text \<open>A tensor is rectangular by construction; a list of rows is only when every row has
  the same length. \<open>rectangular r c M\<close> says \<open>M\<close> has shape \<open>(r, c)\<close>.\<close>

definition rectangular :: "nat \<Rightarrow> nat \<Rightarrow> 'a matrix \<Rightarrow> bool" where
  "rectangular r c M \<longleftrightarrow> length M = r \<and> list_all (\<lambda>row. length row = c) M"

text \<open>\<open>A @ B\<close> for \<open>A\<close> of shape \<open>(m, k)\<close> and \<open>B\<close> of shape \<open>(k, n)\<close> (the batch axis of
  size one is dropped); torch raises when the inner dimensions differ.\<close>

definition matmul :: "'a::{times, comm_monoid_add} matrix \<Rightarrow> 'a matrix \<Rightarrow> 'a matrix result" where
  "matmul A B =
     (if list_all (\<lambda>row. length row = length B) A \<and> list_all (\<lambda>row. length row = ncols B) B
      then Inr (map (\<lambda>row. map (\<lambda>j. \<Sum>k<length B. row ! k * B ! k ! j) [0..<ncols B]) A)
      else Inl (RuntimeError ''mat1 and mat2 shapes cannot be multiplied''))"

section \<open>Sequencing and indexing\<close>

lemma rbind_Inl [simp]: "rbind (Inl e) f = Inl e"
  by (simp add: rbind_def)

lemma rbind_Inr [simp]: "rbind (Inr a) f = f a"
  by (simp add: rbind_def)

lemma rbind_map_sum: "rbind (map_sum id g r) f = rbind r (\<lambda>a. f (g a))"
  by (cases r) simp_all

lemma map_sum_eq_Inr: "map_sum f g r = Inr b \<longleftrightarrow> (\<exists>a. r = Inr a \<and> b = g a)"
  by (cases r) auto

lemma rbind_eq_Inr: "rbind r f = Inr b \<longleftrightarrow> (\<exists>a. r = Inr a \<and> f a = Inr b)"
  by (cases r) simp_all

lemma rmap_Inr_length: "rmap f xs = Inr ys \<Longrightarrow> length ys = length xs"
  by (induction xs arbitrary: ys) (auto simp: rbind_def split: sum.splits)

lemma nat_int_minus_one [simp]: "nat (int n - 1) = n - 1"
  by (cases n) simp_all

lemma py_index_nonneg:
  "0 \<le> i \<Longrightarrow> nat i < length xs \<Longrightarrow> py_index xs i = Inr (xs ! nat i)"
  by (simp add: py_index_def)

lemma py_index_minus_one:
  "xs \<noteq> [] \<Longrightarrow> py_index xs (-1) = Inr (last xs)"
  by (cases xs rule: rev_cases) (simp_all add: py_index_def nth_append)

lemma py_index_Inr_iff:
  "(\<exists>v. py_index xs i = Inr v) \<longleftrightarrow> - int (length xs) \<le> i \<and> i < int (length xs)"
  by (auto simp: py_index_def Let_def)

lemma py_index_in_set: "py_index xs i = Inr v \<Longrightarrow> v \<in> set xs"
  by (auto simp: py_index_def split: if_splits)

section \<open>Shapes\<close>

lemma length_cumsum_from [shape_simps]: "length (cumsum_from a xs) = length xs"
  by (induction xs arbitrary: a) simp_all

lemma length_cumsum [simp, shape_simps]: "length (cumsum xs) = length xs"
  by (simp add: cumsum_def length_cumsum_from)

lemma length_zeros [simp, shape_simps]: "length (zeros r c) = r"
  by (simp add: zeros_def)

lemma zeros_nth [simp]: "i < r \<Longrightarrow> zeros r c ! i = replicate c 0"
  by (simp add: zeros_def)

lemma rectangular_zeros [shape_simps]: "rectangular r c (zeros r c)"
  by (simp add: rectangular_def zeros_def list_all_iff)

lemma rectangular_nth_length:
  "rectangular r c M \<Longrightarrow> i < r \<Longrightarrow> length (M ! i) = c"
  by (simp add: rectangular_def list_all_length)

lemma transpose_rectangular:
  assumes "rectangular r c M"
  shows "list_all (\<lambda>row. length row = r) (transpose M)"
proof -
  have rows: "\<forall>row\<in>set M. length row = c"
    using assms by (simp add: rectangular_def list_all_iff)
  then have bound: "length (transpose M) \<le> c"
    unfolding length_transpose by (induction M) auto
  have "filter (\<lambda>ys. i < length ys) M = M" if "i < length (transpose M)" for i
    using that bound rows by (intro filter_True) auto
  then show ?thesis
    using assms by (simp add: list_all_length nth_transpose rectangular_def)
qed

lemma matmul_defined:
  assumes "list_all (\<lambda>row. length row = length B) A"
    and "list_all (\<lambda>row. length row = ncols B) B"
  shows "\<exists>C. matmul A B = Inr C"
  using assms by (simp add: matmul_def)

lemma ncols_nth: "M \<noteq> [] \<Longrightarrow> ncols M = length (M ! 0)"
  by (cases M) (simp_all add: ncols_def)

lemma ncols_rectangular: "rectangular r c M \<Longrightarrow> 0 < r \<Longrightarrow> ncols M = c"
  by (cases M) (simp_all add: rectangular_def ncols_def)

lemma rectangular_eqI:
  assumes "rectangular r c M" and "rectangular r c N"
    and "\<And>i j. i < r \<Longrightarrow> j < c \<Longrightarrow> M ! i ! j = N ! i ! j"
  shows "M = N"
proof (rule nth_equalityI)
  show "length M = length N" using assms(1,2) by (simp add: rectangular_def)
next
  fix i assume "i < length M"
  with assms(1) have i: "i < r" by (simp add: rectangular_def)
  show "M ! i = N ! i"
    using assms(1,2) i by (intro nth_equalityI) (simp_all add: rectangular_nth_length assms(3))
qed

lemma matmul_Inr:
  assumes "list_all (\<lambda>row. length row = length B) A" and "rectangular (length B) n B"
    and "0 < length B"
  shows "matmul A B = Inr (map (\<lambda>row. map (\<lambda>j. \<Sum>k<length B. row ! k * B ! k ! j) [0..<n]) A)"
  using assms by (simp add: matmul_def ncols_rectangular rectangular_def)

lemma map_upt_nth: "map (\<lambda>i. g (xs ! i)) [0..<length xs] = map g xs"
  by (rule nth_equalityI) simp_all

section \<open>Prefix sums\<close>

text \<open>The boundary of token \<open>i\<close>: the frames of the tokens before it.\<close>

lemma cumsum_from_nth:
  "i < length xs \<Longrightarrow> cumsum_from a xs ! i = a + sum_list (take (Suc i) xs)"
proof (induction xs arbitrary: a i)
  case Nil
  then show ?case by simp
next
  case (Cons x xs)
  then show ?case by (cases i) simp_all
qed

lemma cumsum_nth [simp]: "i < length xs \<Longrightarrow> cumsum xs ! i = sum_list (take (Suc i) xs)"
  by (simp add: cumsum_def cumsum_from_nth)

lemma wrap64_id: "- (2 ^ 63) \<le> x \<Longrightarrow> x < 2 ^ 63 \<Longrightarrow> wrap64 x = x"
  by (simp add: wrap64_def)

lemma length_cumsum64_from [simp]: "length (cumsum64_from a xs) = length xs"
  by (induction xs arbitrary: a) simp_all

text \<open>Without overflow the int64 running sums are the running sums.\<close>

lemma cumsum64_from_fit:
  assumes "list_all (\<lambda>d. 0 \<le> d) xs" and "0 \<le> a" and "a + sum_list xs < 2 ^ 63"
  shows "cumsum64_from a xs = map int (cumsum_from (nat a) (map nat xs))"
  using assms
proof (induction xs arbitrary: a)
  case (Cons x xs)
  have "0 \<le> a + x" and "a + x < 2 ^ 63"
    using Cons.prems sum_list_nonneg [of xs] by (auto simp: list_all_iff)
  then have w: "wrap64 (a + x) = a + x"
    by (intro wrap64_id) simp_all
  have "cumsum64_from (a + x) xs = map int (cumsum_from (nat (a + x)) (map nat xs))"
    using Cons.prems \<open>0 \<le> a + x\<close> by (intro Cons.IH) simp_all
  with w Cons.prems \<open>0 \<le> a + x\<close> show ?case
    by (simp add: nat_add_distrib)
qed simp

lemma cumsum64_fit:
  "list_all (\<lambda>d. 0 \<le> d) xs \<Longrightarrow> sum_list xs < 2 ^ 63 \<Longrightarrow> cumsum64 xs = map int (cumsum (map nat xs))"
  by (simp add: cumsum64_def cumsum_def cumsum64_from_fit)

lemma cumsum_shift_nth:
  "i < length xs \<Longrightarrow> (0 # butlast (cumsum xs)) ! i = sum_list (take i xs)"
  by (cases i) (simp_all add: nth_butlast)

lemma sum_list_take_mono: "i \<le> j \<Longrightarrow> sum_list (take i (xs :: nat list)) \<le> sum_list (take j xs)"
proof -
  assume "i \<le> j"
  then have "take j xs = take i xs @ take (j - i) (drop i xs)"
    by (metis le_add_diff_inverse take_add)
  then show ?thesis by simp
qed

lemma sum_list_take_Suc:
  "i < length xs \<Longrightarrow> sum_list (take (Suc i) xs) = sum_list (take i xs) + (xs ! i :: nat)"
  by (simp add: take_Suc_conv_app_nth)

lemma sum_list_take_le: "sum_list (take i (xs :: nat list)) \<le> sum_list xs"
  by (metis nat_le_linear sum_list_take_mono take_all)

end
