(* ===== verification/Alignment.thy ===== *)
theory Alignment
  imports Prelude
begin

text \<open>
  The AlignmentExpander of \<^verbatim>\<open>src/kokoro/model.py\<close>: the token-to-frame indicator matrix
  built from the predicted durations, in the two ways the code builds it
  (\<^verbatim>\<open>KModel.forward\<close>, lines 99--102: \<^verbatim>\<open>repeat_interleave\<close> and a scatter of ones;
  \<^verbatim>\<open>KModel.inference\<close>, lines 130--134: comparison of a frame index with the cumulative
  boundaries), the spec's description of the matrix as an abstract specification, the
  refinement of both constructions to it, and the expansion of per-token features to
  per-frame features by the matrix product (lines 103, 106, 136, 139). The
  \<^verbatim>\<open>inference\<close> construction is also given at int64 (\<open>inference_alignment\<close>: the
  cumulative sum wraps, \<^verbatim>\<open>torch.arange\<close> raises on a negative end), and
  \<^verbatim>\<open>repeat_interleave\<close>'s check of negative repeats is \<open>check_repeats\<close>.
\<close>

section \<open>The code\<close>

text \<open>\<^verbatim>\<open>torch.repeat_interleave(xs, repeats)\<close> with a one-dimensional \<open>repeats\<close>: element
  \<open>xs[i]\<close> repeated \<open>repeats[i]\<close> times; the sizes must agree.\<close>

definition repeat_interleave :: "'a list \<Rightarrow> nat list \<Rightarrow> 'a list result" where
  "repeat_interleave xs repeats =
     (if length repeats \<noteq> length xs
      then Inl (RuntimeError ''repeats must have the same size as input along dim'')
      else Inr (concat (map2 (\<lambda>x n. replicate n x) xs repeats)))"

text \<open>\<^verbatim>\<open>M[rows, cols] = v\<close> with two index tensors: every pair is written, an index out of
  range raises.\<close>

fun index_put :: "'a matrix \<Rightarrow> (nat \<times> nat) list \<Rightarrow> 'a \<Rightarrow> 'a matrix result" where
  "index_put M [] v = Inr M"
| "index_put M ((i, j) # ps) v =
     (if i < length M \<and> j < length (M ! i)
      then index_put (M[i := (M ! i)[j := v]]) ps v
      else Inl IndexError)"

text \<open>\<^verbatim>\<open>KModel.forward\<close>, lines 99--101, for \<open>L = input_ids.shape[1]\<close>.\<close>

definition scatter_alignment :: "nat \<Rightarrow> nat list \<Rightarrow> 'a::zero_neq_one matrix result" where
  "scatter_alignment L pred_dur =
     (case repeat_interleave [0..<L] pred_dur of
        Inl e \<Rightarrow> Inl e
      | Inr indices \<Rightarrow>
          index_put (zeros L (length indices)) (zip indices [0..<length indices]) 1)"

text \<open>\<^verbatim>\<open>KModel.inference\<close>, lines 130--134.\<close>

definition boundary_alignment :: "nat list \<Rightarrow> 'a::zero_neq_one matrix" where
  "boundary_alignment pred_dur =
     (let indices = cumsum pred_dur;
          start_indices = 0 # butlast indices;
          idx = [0..<sum_list pred_dur];
          mask = map2 (\<lambda>s e. map (\<lambda>f. s \<le> f \<and> f < e) idx) start_indices indices
      in map (map of_bool) mask)"

text \<open>Line 99: \<^verbatim>\<open>torch.repeat_interleave\<close> first rejects a negative repeat; the int64
  durations are then the counts above.\<close>

definition check_repeats :: "int list \<Rightarrow> nat list result" where
  "check_repeats repeats =
     (if list_all (\<lambda>r. 0 \<le> r) repeats then Inr (map nat repeats)
      else Inl (RuntimeError ''repeats can not be negative''))"

text \<open>Lines 130--135 on the int64 durations of \<^verbatim>\<open>.long()\<close>: the running sums and the
  total wrap around, \<^verbatim>\<open>torch.arange\<close> of a negative total raises, and the mask compares
  the frame indices with the int64 boundaries.\<close>

definition inference_alignment :: "int list \<Rightarrow> 'a::zero_neq_one matrix result" where
  "inference_alignment pred_dur =
     (let indices = cumsum64 pred_dur;
          start_indices = 0 # butlast indices;
          total = wrap64 (sum_list pred_dur)
      in if total < 0
         then Inl (RuntimeError ''upper bound and larger bound inconsistent with step sign'')
         else Inr (map (map of_bool)
                    (map2 (\<lambda>s e. map (\<lambda>f. s \<le> int f \<and> int f < e) [0..<nat total]) start_indices indices)))"

text \<open>Durations that fit in int64: none negative and a total below \<open>2^63\<close>.\<close>

definition durations_fit :: "int list \<Rightarrow> bool" where
  "durations_fit pd \<longleftrightarrow> list_all (\<lambda>d. 0 \<le> d) pd \<and> sum_list pd < 2 ^ 63"

section \<open>The specification\<close>

text \<open>Spec, section 3: token \<open>i\<close> occupies the frames \<open>[cumsum(dur)[i-1], cumsum(dur)[i])\<close>.\<close>

definition owns :: "nat list \<Rightarrow> nat \<Rightarrow> nat \<Rightarrow> bool" where
  "owns dur i f \<longleftrightarrow> sum_list (take i dur) \<le> f \<and> f < sum_list (take (Suc i) dur)"

definition alignment_spec :: "nat list \<Rightarrow> 'a::zero_neq_one matrix" where
  "alignment_spec dur =
     map (\<lambda>i. map (\<lambda>f. of_bool (owns dur i f)) [0..<sum_list dur]) [0..<length dur]"

text \<open>The frame-to-token map the scatter writes: \<open>repeat_interleave(arange(L), dur)\<close>.\<close>

definition frame_tokens :: "nat list \<Rightarrow> nat list" where
  "frame_tokens dur = concat (map2 (\<lambda>i n. replicate n i) [0..<length dur] dur)"

text \<open>Spec, section 4.2: the per-frame features are the per-token features with column
  \<open>i\<close> repeated \<open>dur[i]\<close> times, for every row (channel) of the feature matrix.\<close>

definition expand_rows :: "'a matrix \<Rightarrow> nat list \<Rightarrow> 'a matrix" where
  "expand_rows X dur = map (\<lambda>row. concat (map2 (\<lambda>x n. replicate n x) row dur)) X"

text \<open>\<open>index_put\<close> with every index in range is the sequence of single updates.\<close>

definition put_all :: "'a matrix \<Rightarrow> (nat \<times> nat) list \<Rightarrow> 'a \<Rightarrow> 'a matrix" where
  "put_all M ps v = fold (\<lambda>(i, j) M. M[i := (M ! i)[j := v]]) ps M"

section \<open>Frames and their tokens\<close>

lemma frame_tokens_snoc:
  "frame_tokens (dur @ [n]) = frame_tokens dur @ replicate n (length dur)"
  by (simp add: frame_tokens_def)

lemma length_frame_tokens [simp, shape_simps]: "length (frame_tokens dur) = sum_list dur"
  by (induction dur rule: rev_induct) (simp_all add: frame_tokens_snoc frame_tokens_def)

lemma owns_snoc_old:
  "i < length dur \<Longrightarrow> owns (dur @ [n]) i f = owns dur i f"
  by (simp add: owns_def)

lemma owns_snoc_new: "owns (dur @ [n]) (length dur) f \<longleftrightarrow> sum_list dur \<le> f \<and> f < sum_list dur + n"
  by (simp add: owns_def)

lemma owns_bound: "owns dur i f \<Longrightarrow> f < sum_list dur"
  using sum_list_take_le [of "Suc i" dur] by (simp add: owns_def)

lemma owns_below: "owns dur i f \<Longrightarrow> i < length dur"
proof (rule ccontr)
  assume "owns dur i f" and "\<not> i < length dur"
  then have "take i dur = dur" and "take (Suc i) dur = dur" by simp_all
  with \<open>owns dur i f\<close> show False by (simp add: owns_def) linarith
qed

text \<open>The central fact: the scatter writes frame \<open>f\<close> into the row of the token that
  owns it in the sense of the specification, and only there.\<close>

lemma frame_tokens_nth_iff:
  "f < sum_list dur \<Longrightarrow> frame_tokens dur ! f = i \<longleftrightarrow> i < length dur \<and> owns dur i f"
proof (induction dur arbitrary: f rule: rev_induct)
  case Nil
  then show ?case by simp
next
  case (snoc n dur)
  show ?case
  proof (cases "f < sum_list dur")
    case True
    have "\<not> owns (dur @ [n]) (length dur) f"
      using True by (simp add: owns_snoc_new)
    with True snoc.IH show ?thesis
      by (auto simp: frame_tokens_snoc nth_append owns_snoc_old less_Suc_eq)
  next
    case False
    have old: "\<not> owns dur j f" for j
      using False owns_bound by blast
    from False snoc.prems show ?thesis
      by (auto simp: frame_tokens_snoc nth_append owns_snoc_old owns_snoc_new
          less_Suc_eq old)
  qed
qed

lemma owns_unique: "owns dur i f \<Longrightarrow> owns dur j f \<Longrightarrow> i = j"
  by (metis frame_tokens_nth_iff owns_below owns_bound)

lemma owns_exists: "f < sum_list dur \<Longrightarrow> \<exists>i < length dur. owns dur i f"
  using frame_tokens_nth_iff by blast

section \<open>Refinement: both constructions build the specified matrix\<close>

lemma rectangular_alignment_spec [shape_simps]:
  "rectangular (length dur) (sum_list dur) (alignment_spec dur)"
  by (simp add: rectangular_def alignment_spec_def list_all_iff)

lemma alignment_spec_nth [simp]:
  "i < length dur \<Longrightarrow> f < sum_list dur \<Longrightarrow> alignment_spec dur ! i ! f = of_bool (owns dur i f)"
  by (simp add: alignment_spec_def)

lemma boundary_alignment_refines: "boundary_alignment dur = alignment_spec dur"
proof -
  have len: "length (zip (0 # butlast (cumsum dur)) (cumsum dur)) = length dur"
    by (cases dur) simp_all
  then have rect: "rectangular (length dur) (sum_list dur) (boundary_alignment dur)"
    by (auto simp add: rectangular_def boundary_alignment_def Let_def list_all_iff)
  show ?thesis
  proof (rule rectangular_eqI [OF rect rectangular_alignment_spec])
    fix i f assume "i < length dur" "f < sum_list dur"
    with len show "boundary_alignment dur ! i ! f = alignment_spec dur ! i ! f"
      by (simp add: boundary_alignment_def Let_def cumsum_shift_nth owns_def)
  qed
qed

lemma put_all_Cons:
  "put_all M ((i, j) # ps) v = put_all (M[i := (M ! i)[j := v]]) ps v"
  by (simp add: put_all_def)

lemma index_put_in_range:
  "rectangular r c M \<Longrightarrow> list_all (\<lambda>(i, j). i < r \<and> j < c) ps \<Longrightarrow>
   index_put M ps v = Inr (put_all M ps v) \<and> rectangular r c (put_all M ps v)"
proof (induction ps arbitrary: M)
  case Nil
  then show ?case by (simp add: put_all_def)
next
  case (Cons p ps)
  obtain i j where p: "p = (i, j)" by fastforce
  let ?M = "M[i := (M ! i)[j := v]]"
  from Cons.prems p have ij: "i < r" "j < c" by simp_all
  with Cons.prems(1) have "rectangular r c ?M"
    by (auto simp: rectangular_def list_all_length nth_list_update)
  with Cons.prems(2) Cons.IH [of ?M] p ij Cons.prems(1)
    rectangular_nth_length [OF Cons.prems(1) ij(1)] show ?case
    by (simp add: put_all_Cons rectangular_def)
qed

lemma put_all_nth:
  "rectangular r c M \<Longrightarrow> list_all (\<lambda>(i, j). i < r \<and> j < c) ps \<Longrightarrow> i < r \<Longrightarrow> j < c \<Longrightarrow>
   put_all M ps v ! i ! j = (if (i, j) \<in> set ps then v else M ! i ! j)"
proof (induction ps arbitrary: M)
  case Nil
  then show ?case by (simp add: put_all_def)
next
  case (Cons p ps)
  obtain i' j' where p: "p = (i', j')" by fastforce
  let ?M = "M[i' := (M ! i')[j' := v]]"
  from Cons.prems p have ij: "i' < r" "j' < c" by simp_all
  with Cons.prems(1) have rect: "rectangular r c ?M"
    by (auto simp: rectangular_def list_all_length nth_list_update)
  have "?M ! i ! j = (if (i, j) = (i', j') then v else M ! i ! j)"
    using Cons.prems(1,3,4) ij by (auto simp: nth_list_update rectangular_nth_length rectangular_def)
  with Cons.IH [OF rect] Cons.prems(2-4) p show ?case
    by (auto simp: put_all_Cons)
qed

lemma repeat_interleave_arange:
  "repeat_interleave [0..<length dur] dur = Inr (frame_tokens dur)"
  by (simp add: repeat_interleave_def frame_tokens_def)

lemma frame_tokens_below: "f < sum_list dur \<Longrightarrow> frame_tokens dur ! f < length dur"
  using frame_tokens_nth_iff by blast

lemma in_zip_upt_iff:
  "(i, f) \<in> set (zip xs [0..<n]) \<longleftrightarrow> f < min (length xs) n \<and> xs ! f = i"
  by (auto simp: set_zip)

lemma scatter_alignment_refines:
  "scatter_alignment (length dur) dur = Inr (alignment_spec dur)"
proof -
  let ?idx = "frame_tokens dur"
  let ?ps = "zip ?idx [0..<sum_list dur]"
  let ?Z = "zeros (length dur) (sum_list dur) :: 'a matrix"
  have rect: "rectangular (length dur) (sum_list dur) ?Z" by (rule rectangular_zeros)
  have range: "list_all (\<lambda>(i, j). i < length dur \<and> j < sum_list dur) ?ps"
    by (auto simp: list_all_iff in_zip_upt_iff frame_tokens_below)
  note put = index_put_in_range [OF rect range, of 1]
  have "put_all ?Z ?ps 1 = alignment_spec dur"
  proof (rule rectangular_eqI [OF conjunct2 [OF put] rectangular_alignment_spec])
    fix i f assume "i < length dur" "f < sum_list dur"
    then show "put_all ?Z ?ps 1 ! i ! f = alignment_spec dur ! i ! f"
      by (simp add: put_all_nth [OF rect range] in_zip_upt_iff frame_tokens_nth_iff)
  qed
  with put show ?thesis
    by (simp add: scatter_alignment_def repeat_interleave_arange)
qed

section \<open>Expansion of per-token features\<close>

lemma owns_iff_frame_token:
  "i < length dur \<Longrightarrow> f < sum_list dur \<Longrightarrow> owns dur i f \<longleftrightarrow> frame_tokens dur ! f = i"
  by (simp add: frame_tokens_nth_iff)

lemma ncols_alignment_spec: "ncols (alignment_spec dur) = sum_list dur"
proof (cases "dur = []")
  case True
  then show ?thesis by (simp add: ncols_def alignment_spec_def)
next
  case False
  then show ?thesis using ncols_rectangular [OF rectangular_alignment_spec, of dur] by simp
qed

lemma boundary_alignment_shape:
  "length (boundary_alignment dur :: 'a::zero_neq_one matrix) = length dur \<and>
   list_all (\<lambda>row. length row = ncols (boundary_alignment dur :: 'a matrix))
     (boundary_alignment dur :: 'a matrix)"
  unfolding boundary_alignment_refines ncols_alignment_spec
  by (simp add: alignment_spec_def list_all_iff)

lemma map_frame_tokens:
  "length row = length dur \<Longrightarrow>
   map (\<lambda>t. row ! t) (frame_tokens dur) = concat (map2 (\<lambda>x n. replicate n x) row dur)"
proof -
  assume len: "length row = length dur"
  have "map2 (\<lambda>x n. replicate n x) row dur
      = map2 (\<lambda>x n. replicate n x) (map (\<lambda>i. row ! i) [0..<length dur]) dur"
    by (simp add: len [symmetric] map_nth)
  then show ?thesis
    by (simp add: frame_tokens_def map_concat zip_map1 case_prod_unfold comp_def)
qed

lemma alignment_column_select:
  fixes row :: "'a::comm_semiring_1 list"
  assumes f: "f < sum_list dur"
  shows "(\<Sum>k<length dur. row ! k * alignment_spec dur ! k ! f) = row ! (frame_tokens dur ! f)"
proof -
  have "(\<Sum>k<length dur. row ! k * alignment_spec dur ! k ! f)
      = (\<Sum>k<length dur. if k = frame_tokens dur ! f then row ! k else 0)"
    using f by (intro sum.cong) (auto simp: owns_iff_frame_token)
  also have "\<dots> = row ! (frame_tokens dur ! f)"
    using frame_tokens_below [OF f] by simp
  finally show ?thesis .
qed

lemma matmul_alignment_spec:
  fixes X :: "'a::comm_semiring_1 matrix"
  assumes "list_all (\<lambda>row. length row = length dur) X"
  shows "matmul X (alignment_spec dur) = Inr (expand_rows X dur)"
proof -
  have "map (\<lambda>f. \<Sum>k<length dur. row ! k * alignment_spec dur ! k ! f) [0..<sum_list dur]
      = concat (map2 (\<lambda>x n. replicate n x) row dur)" if "length row = length dur" for row :: "'a list"
  proof -
    have "map (\<lambda>f. \<Sum>k<length dur. row ! k * alignment_spec dur ! k ! f) [0..<sum_list dur]
        = map (\<lambda>f. row ! (frame_tokens dur ! f)) [0..<length (frame_tokens dur)]"
      by (auto simp: alignment_column_select simp del: alignment_spec_nth)
    also have "\<dots> = map (\<lambda>t. row ! t) (frame_tokens dur)"
      by (rule map_upt_nth)
    finally show ?thesis using map_frame_tokens [OF that] by simp
  qed
  moreover have "list_all (\<lambda>row. length row = ncols (alignment_spec dur)) (alignment_spec dur)"
    using rectangular_alignment_spec [of dur] unfolding rectangular_def ncols_alignment_spec by blast
  ultimately show ?thesis
    using assms by (simp add: matmul_def ncols_alignment_spec expand_rows_def list_all_iff
        rectangular_alignment_spec [THEN conjunct1 [OF iffD1 [OF rectangular_def]]])
qed

section \<open>Properties of the alignment matrix\<close>

lemma alignment_row_sum_spec:
  assumes "i < length dur"
  shows "(\<Sum>f<sum_list dur. (alignment_spec dur ! i ! f :: 'a::comm_semiring_1)) = of_nat (dur ! i)"
proof -
  let ?lo = "sum_list (take i dur)" and ?hi = "sum_list (take (Suc i) dur)"
  have frames: "{..<sum_list dur} \<inter> {f. owns dur i f} = {?lo..<?hi}"
    using sum_list_take_le [of "Suc i" dur] unfolding owns_def by auto
  have "(\<Sum>f<sum_list dur. (alignment_spec dur ! i ! f :: 'a))
      = (\<Sum>f<sum_list dur. of_bool (owns dur i f))"
    using assms by (intro sum.cong) simp_all
  also have "\<dots> = of_nat (card ({..<sum_list dur} \<inter> {f. owns dur i f}))"
    by (rule sum_of_bool_eq) simp_all
  also have "\<dots> = of_nat (dur ! i)"
    using assms by (simp only: frames card_atLeastLessThan sum_list_take_Suc) simp
  finally show ?thesis .
qed

text \<open>C1. The two constructions of the alignment matrix in the code, the scatter of ones
  of \<^verbatim>\<open>KModel.forward\<close> and the boundary comparison of \<^verbatim>\<open>KModel.inference\<close>,
  build the same matrix for every duration vector, zero durations included.\<close>

theorem alignment_constructions_agree:
  "scatter_alignment (length dur) dur = (Inr (boundary_alignment dur) :: 'a::zero_neq_one matrix result)"
  by (simp add: scatter_alignment_refines boundary_alignment_refines)

text \<open>C2. Every frame belongs to exactly one token and token \<open>i\<close> occupies exactly
  \<open>dur[i]\<close> frames: in the alignment matrix built by \<^verbatim>\<open>KModel.inference\<close>, each column
  sums to one and row \<open>i\<close> sums to the duration of token \<open>i\<close>.\<close>

theorem alignment_sums:
  assumes "f < sum_list dur" and "i < length dur"
  shows "(\<Sum>j<length dur. (boundary_alignment dur ! j ! f :: 'a::comm_semiring_1)) = 1 \<and>
         (\<Sum>g<sum_list dur. (boundary_alignment dur ! i ! g :: 'a)) = of_nat (dur ! i)"
proof
  have "(\<Sum>j<length dur. (boundary_alignment dur ! j ! f :: 'a))
      = (\<Sum>j<length dur. if j = frame_tokens dur ! f then 1 else 0)"
    using assms(1) by (intro sum.cong) (auto simp: boundary_alignment_refines owns_iff_frame_token)
  then show "(\<Sum>j<length dur. (boundary_alignment dur ! j ! f :: 'a)) = 1"
    using frame_tokens_below [OF assms(1)] by simp
  show "(\<Sum>g<sum_list dur. (boundary_alignment dur ! i ! g :: 'a)) = of_nat (dur ! i)"
    using alignment_row_sum_spec [OF assms(2)] by (simp add: boundary_alignment_refines)
qed

theorem alignment_sums_witness:
  "(2::nat) < sum_list [2, 1] \<and> (1::nat) < length [2::nat, 1] \<and>
   (\<Sum>j<length [2::nat, 1]. (boundary_alignment [2, 1] ! j ! 2 :: int)) = 1 \<and>
   (\<Sum>g<sum_list [2::nat, 1]. (boundary_alignment [2, 1] ! 1 ! g :: int)) = 1"
  using alignment_sums [of 2 "[2, 1]" 1] by simp

lemma alignment_total_sum:
  "(\<Sum>i<length dur. \<Sum>f<sum_list dur. (boundary_alignment dur ! i ! f :: 'a::comm_semiring_1))
   = of_nat (sum_list dur)"
proof -
  have "(\<Sum>i<length dur. \<Sum>f<sum_list dur. (boundary_alignment dur ! i ! f :: 'a))
      = (\<Sum>i<length dur. of_nat (dur ! i))"
    by (intro sum.cong) (simp_all add: alignment_row_sum_spec boundary_alignment_refines
        del: alignment_spec_nth)
  also have "\<dots> = of_nat (sum_list dur)"
    by (simp add: sum_list_sum_nth lessThan_atLeast0)
  finally show ?thesis .
qed

text \<open>C4. Multiplying a per-token feature matrix by the alignment matrix
  (\<^verbatim>\<open>d.transpose(-1, -2) @ pred_aln_trg\<close>, \<^verbatim>\<open>t_en @ pred_aln_trg\<close>) never fails
  when the features have one column per token, and repeats column \<open>i\<close> of every
  channel \<open>dur[i]\<close> times.\<close>

theorem alignment_expands:
  fixes X :: "'a::comm_semiring_1 matrix"
  assumes "list_all (\<lambda>row. length row = length dur) X"
  shows "matmul X (boundary_alignment dur) = Inr (expand_rows X dur)"
  using matmul_alignment_spec [OF assms] by (simp add: boundary_alignment_refines)

theorem alignment_expands_witness:
  "list_all (\<lambda>row. length row = length [2, 1::nat]) [[5, 7 :: int]] \<and>
   matmul [[5, 7 :: int]] (boundary_alignment [2, 1]) = Inr [[5, 5, 7]]"
  using alignment_expands [where X = "[[5, 7 :: int]]" and dur = "[2, 1]"]
  by (simp add: expand_rows_def numeral_2_eq_2)


section \<open>The int64 alignment\<close>

lemma sum_list_map_nat:
  "list_all (\<lambda>d. 0 \<le> d) pd \<Longrightarrow> int (sum_list (map nat pd)) = sum_list pd"
  by (induction pd) auto

lemma check_repeats_fit: "durations_fit pd \<Longrightarrow> check_repeats pd = Inr (map nat pd)"
  by (simp add: check_repeats_def durations_fit_def)

lemma map2_int_mask:
  "map2 (\<lambda>s e. map (\<lambda>f. s \<le> int f \<and> int f < e) idx) (map int xs) (map int ys) =
   map2 (\<lambda>s e. map (\<lambda>f. s \<le> f \<and> f < e) idx) xs ys"
  by (induction xs arbitrary: ys) (auto simp: zip_Cons1 split: list.split)

text \<open>C3. With durations that fit in int64, lines 130--135 computed in int64 arithmetic
  build exactly the alignment matrix analysed above (C1, C2, C4): the wrap-around of
  the running sums and the check of \<^verbatim>\<open>torch.arange\<close> never take effect.\<close>

theorem inference_alignment_fit:
  assumes "durations_fit pd"
  shows "inference_alignment pd = (Inr (boundary_alignment (map nat pd)) :: 'a::zero_neq_one matrix result)"
proof -
  have nonneg: "list_all (\<lambda>d. 0 \<le> d) pd" and small: "sum_list pd < 2 ^ 63"
    using assms by (simp_all add: durations_fit_def)
  have tot: "wrap64 (sum_list pd) = int (sum_list (map nat pd))"
    using nonneg small sum_list_nonneg [of pd] by (simp add: wrap64_id sum_list_map_nat list_all_iff)
  have cs: "cumsum64 pd = map int (cumsum (map nat pd))"
    using nonneg small by (rule cumsum64_fit)
  have "inference_alignment pd = Inr (map (map of_bool)
      (map2 (\<lambda>s e. map (\<lambda>f. s \<le> int f \<and> int f < e) [0..<sum_list (map nat pd)])
        (map int (0 # butlast (cumsum (map nat pd)))) (map int (cumsum (map nat pd)))))"
    by (simp add: inference_alignment_def Let_def tot cs map_butlast)
  also have "\<dots> = Inr (boundary_alignment (map nat pd))"
    by (simp only: map2_int_mask) (simp add: boundary_alignment_def Let_def)
  finally show ?thesis .
qed

theorem inference_alignment_fit_witness:
  "durations_fit [2, 1] \<and> inference_alignment [2, 1] = (Inr (boundary_alignment [2, 1]) :: int matrix result)"
proof -
  have h: "durations_fit [2, 1]"
    by (simp add: durations_fit_def)
  show ?thesis
    using inference_alignment_fit [OF h, where 'a = int] h by simp
qed

end
