(* ===== verification/Duration.thy ===== *)
theory Duration
  imports Prelude
begin

text \<open>
  The duration policy of the ProsodyPredictor as \<^verbatim>\<open>KModel.forward\<close> (lines 96--97) and
  \<^verbatim>\<open>KModel.inference\<close> (lines 127--129) apply it to the output of
  \<^verbatim>\<open>duration_proj\<close>: per token, the sum of the sigmoids of its duration logits divided
  by the speed, rounded by \<^verbatim>\<open>torch.round\<close> (half to even) and clamped to at least one
  frame, then cast by \<^verbatim>\<open>.long()\<close> to int64. Floats are modelled as reals. The cast
  is written out: a value of at least \<open>2^63\<close>, and the infinity or NaN a zero speed
  produces, become \<open>INT64_MIN\<close> (what the conversion does on x86). The lemmas show that
  a nonzero speed large enough for the number of logits gives one duration of at least
  one frame per token, that a higher positive speed never lengthens a token, the bound
  of a duration by the number of logits, and what a negative or zero speed does.
\<close>

section \<open>The code\<close>

definition sigmoid :: "real \<Rightarrow> real" where
  "sigmoid x = 1 / (1 + exp (- x))"

text \<open>\<^verbatim>\<open>torch.round\<close>: to the nearest integer, halves to the even neighbour.\<close>

definition torch_round :: "real \<Rightarrow> int" where
  "torch_round x =
     (let f = \<lfloor>x\<rfloor>; r = x - of_int f
      in if r < 1/2 then f else if 1/2 < r then f + 1 else if even f then f else f + 1)"

text \<open>\<^verbatim>\<open>torch.sigmoid(duration).sum(axis=-1) / speed\<close> for the logits of one token.\<close>

definition token_duration :: "real \<Rightarrow> real list \<Rightarrow> real" where
  "token_duration speed logits = sum_list (map sigmoid logits) / speed"

text \<open>The smallest int64, which \<^verbatim>\<open>.long()\<close> returns for a float out of range.\<close>

definition int64_min :: int where
  "int64_min = - (2 ^ 63)"

text \<open>\<^verbatim>\<open>torch.round(duration).clamp(min=1).long()\<close> for a finite duration: the clamped
  value is an integer of at least one, kept when it is below \<open>2^63\<close>.\<close>

definition frames_of :: "real \<Rightarrow> int" where
  "frames_of d = (let r = max 1 (torch_round d) in if r < 2 ^ 63 then r else int64_min)"

text \<open>Lines 96--97 and 127--128 for all tokens. At speed zero the division gives
  \<open>+inf\<close> for a token with logits (their sigmoids sum to a positive value) and NaN for
  one without; both pass the clamp, and \<^verbatim>\<open>.long()\<close> makes them \<open>INT64_MIN\<close>. The code
  has no check of the speed.\<close>

definition pred_dur :: "real \<Rightarrow> real list list \<Rightarrow> int list" where
  "pred_dur speed logits =
     map (\<lambda>row. if speed = 0 then int64_min else frames_of (token_duration speed row)) logits"

text \<open>A speed large enough for the logits: no token's duration can reach \<open>2^63 - 1\<close>,
  since each sigmoid is below one.\<close>

definition no_cast_overflow :: "real \<Rightarrow> real list list \<Rightarrow> bool" where
  "no_cast_overflow speed logits \<longleftrightarrow> list_all (\<lambda>row. real (length row) \<le> (2 ^ 63 - 1) * \<bar>speed\<bar>) logits"

section \<open>Rounding\<close>

lemma torch_round_dist: "\<bar>x - of_int (torch_round x)\<bar> \<le> 1/2"
proof -
  have "of_int \<lfloor>x\<rfloor> \<le> x" and "x < of_int \<lfloor>x\<rfloor> + 1"
    by (simp_all add: of_int_floor_le)
  then show ?thesis
    by (auto simp: torch_round_def Let_def)
qed

lemma torch_round_mono:
  assumes "x \<le> y"
  shows "torch_round x \<le> torch_round y"
proof (rule ccontr)
  assume "\<not> ?thesis"
  then have "torch_round y + 1 \<le> torch_round x"
    by simp
  then have lt: "of_int (torch_round y) + 1 \<le> (of_int (torch_round x) :: real)"
    by (metis of_int_1 of_int_add of_int_le_iff)
  have "x = y"
    using torch_round_dist [of x] torch_round_dist [of y] assms lt by linarith
  with \<open>\<not> ?thesis\<close> show False by simp
qed

lemma torch_round_of_int [simp]: "torch_round (of_int n) = n"
  by (simp add: torch_round_def)

lemma torch_round_of_nat [simp]: "torch_round (real n) = int n"
  using torch_round_of_int [of "int n"] by simp

lemma torch_round_nonpos: "x \<le> 0 \<Longrightarrow> torch_round x \<le> 0"
  using torch_round_mono [of x 0] torch_round_of_int [of 0] by simp

section \<open>Sigmoids and durations\<close>

lemma sigmoid_pos: "0 < sigmoid x"
  by (simp add: sigmoid_def add_pos_pos)

lemma sigmoid_less_one: "sigmoid x < 1"
  by (simp add: sigmoid_def add_pos_pos)

lemma sum_sigmoid_nonneg: "0 \<le> sum_list (map sigmoid xs)"
  by (induction xs) (simp_all add: add_nonneg_nonneg less_imp_le sigmoid_pos)

lemma sum_sigmoid_bound: "sum_list (map sigmoid xs) \<le> real (length xs)"
  by (induction xs) (simp_all add: add_mono less_imp_le sigmoid_less_one)

lemma frames_of_in_range:
  assumes "d \<le> 2 ^ 63 - 1"
  shows "frames_of d = max 1 (torch_round d)"
proof -
  have "torch_round d \<le> torch_round (of_int (2 ^ 63 - 1))"
    using assms by (intro torch_round_mono) simp
  also have "\<dots> = 2 ^ 63 - 1"
    by (rule torch_round_of_int)
  finally have "torch_round d < 2 ^ 63"
    by simp
  then show ?thesis
    by (simp add: frames_of_def Let_def)
qed

lemma frames_of_mono:
  assumes "d \<le> d'" and "d' \<le> 2 ^ 63 - 1"
  shows "frames_of d \<le> frames_of d'"
  using assms frames_of_in_range [of d'] frames_of_in_range [of d] torch_round_mono [OF assms(1)]
  by simp

lemma pred_dur_zero_speed: "pred_dur 0 logits = replicate (length logits) int64_min"
  by (simp add: pred_dur_def map_replicate_const)

lemma token_duration_antimono:
  assumes "0 < s1" and "s1 \<le> s2"
  shows "token_duration s2 row \<le> token_duration s1 row"
  unfolding token_duration_def
  using assms sum_sigmoid_nonneg [of row] by (simp add: frac_le)

lemma token_duration_bound:
  assumes "0 < speed"
  shows "token_duration speed row \<le> real (length row) / speed"
  unfolding token_duration_def
  using assms sum_sigmoid_bound [of row] by (simp add: divide_right_mono)

lemma token_duration_nonpos:
  assumes "speed < 0"
  shows "token_duration speed row \<le> 0"
  using assms sum_sigmoid_nonneg [of row] by (simp add: token_duration_def divide_nonneg_neg)

text \<open>Without overflow the duration of a token is its clamped rounding.\<close>

lemma token_duration_in_range:
  assumes "speed \<noteq> 0" and "real (length row) \<le> (2 ^ 63 - 1) * \<bar>speed\<bar>"
  shows "token_duration speed row \<le> 2 ^ 63 - 1"
proof (cases "0 < speed")
  case True
  have "token_duration speed row \<le> real (length row) / speed"
    using True by (rule token_duration_bound)
  also have "\<dots> \<le> 2 ^ 63 - 1"
    using True assms(2) by (simp add: divide_le_eq mult.commute)
  finally show ?thesis .
next
  case False
  with assms(1) have "token_duration speed row \<le> 0"
    by (intro token_duration_nonpos) simp
  then show ?thesis
    by simp
qed

text \<open>At a speed of magnitude at least one a token gets between one frame and one per
  logit.\<close>

lemma frames_of_unit_speed:
  assumes "1 \<le> \<bar>speed\<bar>" and "length row < 2 ^ 63"
  shows "1 \<le> frames_of (token_duration speed row) \<and> frames_of (token_duration speed row) \<le> max 1 (int (length row))"
proof (cases "0 < speed")
  case True
  with assms(1) have sp: "1 \<le> speed"
    by simp
  have "token_duration speed row \<le> real (length row) / speed"
    using True by (rule token_duration_bound)
  also have "\<dots> \<le> real (length row)"
    using sp by (simp add: divide_le_eq mult_le_cancel_left1)
  finally have td: "token_duration speed row \<le> real (length row)" .
  have "length row \<le> 2 ^ 63 - 1"
    using assms(2) by simp
  then have "real (length row) \<le> real (2 ^ 63 - 1 :: nat)"
    by (simp only: of_nat_le_iff)
  then have "real (length row) \<le> 2 ^ 63 - 1"
    by simp
  with td have "frames_of (token_duration speed row) = max 1 (torch_round (token_duration speed row))"
    by (intro frames_of_in_range) simp
  moreover have "torch_round (token_duration speed row) \<le> torch_round (real (length row))"
    using td by (rule torch_round_mono)
  ultimately show ?thesis
    by simp
next
  case False
  with assms(1) have "speed < 0"
    by simp
  then have td: "token_duration speed row \<le> 0"
    by (rule token_duration_nonpos)
  then have "frames_of (token_duration speed row) = max 1 (torch_round (token_duration speed row))"
    by (intro frames_of_in_range) simp
  with torch_round_nonpos [OF td] show ?thesis
    by simp
qed

lemma pred_dur_nonzero:
  "speed \<noteq> 0 \<Longrightarrow> pred_dur speed logits = map (\<lambda>row. frames_of (token_duration speed row)) logits"
  by (simp add: pred_dur_def)

lemma pred_dur_in_range:
  assumes "speed \<noteq> 0" and "no_cast_overflow speed logits"
  shows "pred_dur speed logits = map (\<lambda>row. max 1 (torch_round (token_duration speed row))) logits"
  using assms token_duration_in_range [OF assms(1)] frames_of_in_range
  by (auto simp: pred_dur_def no_cast_overflow_def list_all_iff)

lemma sigmoid_zero [simp]: "sigmoid 0 = 1/2"
  by (simp add: sigmoid_def)

section \<open>Properties of the duration policy\<close>

text \<open>C5. For a nonzero speed large enough for the logits (so that no duration reaches
  \<open>2^63\<close>: every speed of magnitude at least one, for fewer than \<open>2^63\<close> logits per
  token) the policy returns one duration per token and every duration is at least one
  frame, whatever the logits.\<close>

theorem pred_dur_min_one:
  assumes "speed \<noteq> 0" and "no_cast_overflow speed logits"
  shows "length (pred_dur speed logits) = length logits \<and> list_all (\<lambda>d. 1 \<le> d) (pred_dur speed logits)"
  using pred_dur_in_range [OF assms] by (simp add: list_all_iff)

theorem pred_dur_min_one_witness:
  "(1::real) \<noteq> 0 \<and> no_cast_overflow 1 [[-5, 3], []] \<and>
   length (pred_dur 1 [[-5, 3], []]) = length [[-5, 3::real], []] \<and>
   list_all (\<lambda>d. 1 \<le> d) (pred_dur 1 [[-5, 3], []])"
proof -
  have h: "no_cast_overflow 1 [[-5, 3], []]"
    by (simp add: no_cast_overflow_def)
  show ?thesis
    using pred_dur_min_one [OF _ h] h by simp
qed

text \<open>C6. Speed monotonicity: for the same logits and a positive speed large enough for
  them, a larger speed never gives a token more frames.\<close>

theorem pred_dur_speed_mono:
  assumes "0 < s1" and "s1 \<le> s2" and "no_cast_overflow s1 logits"
  shows "list_all2 (\<lambda>a b. b \<le> a) (pred_dur s1 logits) (pred_dur s2 logits)"
proof -
  have "frames_of (token_duration s2 row) \<le> frames_of (token_duration s1 row)"
    if "real (length row) \<le> (2 ^ 63 - 1) * \<bar>s1\<bar>" for row
    using assms(1,2) token_duration_in_range [OF _ that]
    by (intro frames_of_mono token_duration_antimono) simp_all
  with assms show ?thesis
    by (auto simp: pred_dur_def list_all2_conv_all_nth no_cast_overflow_def list_all_length)
qed

theorem pred_dur_speed_mono_witness:
  "(0::real) < 1 \<and> (1::real) \<le> 2 \<and> no_cast_overflow 1 [[0, 0, 0, 0]] \<and>
   pred_dur 1 [[0, 0, 0, 0]] = [2] \<and> pred_dur 2 [[0, 0, 0, 0]] = [1] \<and>
   list_all2 (\<lambda>a b. b \<le> a) (pred_dur 1 [[0, 0, 0, 0]]) (pred_dur 2 [[0, 0, 0, 0]])"
proof -
  have h: "no_cast_overflow 1 [[0, 0, 0, 0]]"
    by (simp add: no_cast_overflow_def)
  have d1: "pred_dur 1 [[0, 0, 0, 0]] = [2]"
    by (simp add: pred_dur_def token_duration_def frames_of_def torch_round_def)
  have d2: "pred_dur 2 [[0, 0, 0, 0]] = [1]"
    by (simp add: pred_dur_def token_duration_def frames_of_def torch_round_def)
  show ?thesis
    using pred_dur_speed_mono [OF _ _ h, of 2] h d1 d2 by simp
qed

text \<open>C7. Bound: at a speed of at least one (every speed of the exported graph, whose
  \<^verbatim>\<open>speed\<close> input is a positive integer) no token gets more frames than it has
  duration logits (\<^verbatim>\<open>max_dur\<close>), and never fewer than one, for rows of fewer than
  \<open>2^63\<close> logits (every tensor dimension is).\<close>

theorem pred_dur_bound:
  assumes "1 \<le> speed" and "list_all (\<lambda>row. length row < 2 ^ 63) logits"
  shows "list_all2 (\<lambda>d row. 1 \<le> d \<and> d \<le> max 1 (int (length row))) (pred_dur speed logits) logits"
proof -
  have "1 \<le> \<bar>speed\<bar>"
    using assms(1) by simp
  with assms(2) frames_of_unit_speed show ?thesis
    using assms(1) by (auto simp: pred_dur_nonzero list_all2_conv_all_nth list_all_length)
qed

theorem pred_dur_bound_witness:
  "(1::real) \<le> 1 \<and> list_all (\<lambda>row. length row < 2 ^ 63) [[0, 0, 0, 0::real]] \<and>
   pred_dur 1 [[0, 0, 0, 0]] = [2] \<and>
   list_all2 (\<lambda>d row. 1 \<le> d \<and> d \<le> max 1 (int (length row))) (pred_dur 1 [[0, 0, 0, 0]]) [[0, 0, 0, 0::real]]"
proof -
  have h: "list_all (\<lambda>row. length row < 2 ^ 63) [[0, 0, 0, 0::real]]"
    by simp
  have d: "pred_dur 1 [[0, 0, 0, 0]] = [2]"
    by (simp add: pred_dur_def token_duration_def frames_of_def torch_round_def)
  show ?thesis
    using pred_dur_bound [OF _ h, of 1] h d by simp
qed

text \<open>C8. The code does not check the sign of the speed: a negative speed is accepted and
  turns every duration into the minimum of one frame.\<close>

theorem pred_dur_negative_speed:
  assumes "speed < 0"
  shows "pred_dur speed logits = replicate (length logits) 1"
proof -
  have "frames_of (token_duration speed row) = 1" for row
  proof -
    have "token_duration speed row \<le> 0"
      using assms by (rule token_duration_nonpos)
    then have "torch_round (token_duration speed row) \<le> 0"
      by (rule torch_round_nonpos)
    then show ?thesis by (simp add: frames_of_def)
  qed
  with assms show ?thesis
    by (simp add: pred_dur_def map_replicate_const [symmetric] del: map_replicate_const)
qed

theorem pred_dur_negative_speed_witness:
  "(-1::real) < 0 \<and> pred_dur (-1) [[3, 7], [1]] = [1, 1]"
  using pred_dur_negative_speed [of "-1" "[[3, 7], [1]]"] by (simp add: numeral_2_eq_2)

end
