(* ===== verification/Tokens.thy ===== *)
theory Tokens
  imports Prelude
begin

text \<open>
  The TokenEncoder and the voice-pack lookup. \<^verbatim>\<open>KModel.forward\<close> (src/kokoro/model.py,
  lines 82--85) maps each phoneme symbol through the vocabulary, drops the misses, asserts
  that the ids and the two boundary markers fit the context, and wraps the ids in zeros.
  The export script's \<^verbatim>\<open>load_input_ids\<close> (src/export.py, lines 58--73) picks the
  phonemes of the G2P front end, truncates them to 510 symbols and does the same mapping
  and wrapping without the assertion; \<^verbatim>\<open>load_voice\<close> (lines 75--77) indexes the voice pack
  by the phoneme count. The G2P front end (\<^verbatim>\<open>pipeline.g2p\<close>, \<^verbatim>\<open>en_tokenize\<close>) is
  external: its output is an argument here. A phoneme string is a list of symbols, one
  \<open>char\<close> each; the vocabulary is the dictionary from one-symbol strings to ids.
\<close>

type_synonym vocab = "string \<rightharpoonup> int"

section \<open>The code\<close>

text \<open>\<^verbatim>\<open>list(filter(lambda i: i is not None, map(lambda p: vocab.get(p), phonemes)))\<close>\<close>

definition vocab_ids :: "vocab \<Rightarrow> string \<Rightarrow> int list" where
  "vocab_ids vocab phonemes = map the (filter (\<lambda>i. i \<noteq> None) (map (\<lambda>p. vocab [p]) phonemes))"

text \<open>\<^verbatim>\<open>[0, *input_ids, 0]\<close>\<close>

definition wrap_ids :: "int list \<Rightarrow> int list" where
  "wrap_ids input_ids = 0 # input_ids @ [0]"

text \<open>\<^verbatim>\<open>KModel.forward\<close>, lines 82--85.\<close>

definition encode_phonemes :: "vocab \<Rightarrow> nat \<Rightarrow> string \<Rightarrow> int list result" where
  "encode_phonemes vocab context_length phonemes =
     (let input_ids = vocab_ids vocab phonemes
      in if length input_ids + 2 \<le> context_length then Inr (wrap_ids input_ids)
         else Inl (AssertionError ''(len(input_ids)+2, self.context_length)''))"

text \<open>The loop of \<^verbatim>\<open>load_input_ids\<close>, lines 61--63: \<^verbatim>\<open>ps\<close> is the loop variable, and the
  \<^verbatim>\<open>continue\<close> is the last statement of the body; \<open>None\<close> is a \<^verbatim>\<open>ps\<close> never bound.\<close>

fun chunk_loop :: "string option \<Rightarrow> (string \<times> string \<times> 'tk) list \<Rightarrow> string option" where
  "chunk_loop ps [] = ps"
| "chunk_loop ps ((gs, ps', tks) # chunks) =
     (if ps' = [] then chunk_loop (Some ps') chunks else chunk_loop (Some ps') chunks)"

text \<open>Lines 67--68.\<close>

definition truncate_phonemes :: "string \<Rightarrow> string" where
  "truncate_phonemes ps = (if 510 < length ps then take 510 ps else ps)"

text \<open>\<^verbatim>\<open>load_input_ids\<close>, lines 58--73: \<open>en_chunks\<close> is what \<^verbatim>\<open>en_tokenize\<close> yields for the
  English pipelines (\<^verbatim>\<open>lang_code in 'ab'\<close>, a substring test), \<open>other_ps\<close> the G2P output
  of the others.\<close>

definition load_input_ids ::
  "vocab \<Rightarrow> string \<Rightarrow> (string \<times> string \<times> 'tk) list \<Rightarrow> string \<Rightarrow> (string \<times> int list) result" where
  "load_input_ids vocab lang_code en_chunks other_ps =
     (let ps = (if sublist lang_code ''ab'' then chunk_loop None en_chunks else Some other_ps)
      in case ps of
           None \<Rightarrow> Inl (NameError ''ps'')
         | Some ps \<Rightarrow>
             let ps = truncate_phonemes ps
             in Inr (ps, wrap_ids (vocab_ids vocab ps)))"

text \<open>\<^verbatim>\<open>load_voice\<close>, lines 75--77: \<^verbatim>\<open>pack[len(phonemes) - 1]\<close>.\<close>

definition load_voice :: "'s list \<Rightarrow> string \<Rightarrow> 's result" where
  "load_voice pack phonemes = py_index pack (int (length phonemes) - 1)"

text \<open>src/ids.py, lines 20--31: the same loop and truncation as \<^verbatim>\<open>load_input_ids\<close> for
  the English pipeline, printing the ids without the boundary markers.\<close>

definition ids_script :: "vocab \<Rightarrow> (string \<times> string \<times> 'tk) list \<Rightarrow> int list result" where
  "ids_script vocab en_chunks =
     (case chunk_loop None en_chunks of
        None \<Rightarrow> Inl (NameError ''ps'')
      | Some ps \<Rightarrow> Inr (vocab_ids vocab (truncate_phonemes ps)))"

section \<open>Lemmas\<close>

lemma vocab_ids_Nil [simp]: "vocab_ids vocab [] = []"
  by (simp add: vocab_ids_def)

lemma vocab_ids_Cons:
  "vocab_ids vocab (p # ps) =
     (case vocab [p] of None \<Rightarrow> vocab_ids vocab ps | Some i \<Rightarrow> i # vocab_ids vocab ps)"
  by (simp add: vocab_ids_def split: option.split)

lemma vocab_ids_append: "vocab_ids vocab (xs @ ys) = vocab_ids vocab xs @ vocab_ids vocab ys"
  by (simp add: vocab_ids_def)

lemma length_vocab_ids [shape_simps]: "length (vocab_ids vocab ps) \<le> length ps"
  by (simp add: vocab_ids_def)

lemma length_wrap_ids [simp, shape_simps]: "length (wrap_ids ids) = length ids + 2"
  by (simp add: wrap_ids_def)

lemma wrap_ids_nth_first [simp]: "wrap_ids ids ! 0 = 0"
  by (simp add: wrap_ids_def)

lemma wrap_ids_nth_last [simp]: "wrap_ids ids ! (length ids + 1) = 0"
  by (simp add: wrap_ids_def nth_append)

lemma wrap_ids_inner: "take (length ids) (drop 1 (wrap_ids ids)) = ids"
  by (simp add: wrap_ids_def)

lemma chunk_loop_last:
  "chunk_loop ps chunks = (if chunks = [] then ps else Some (fst (snd (last chunks))))"
proof (induction ps chunks rule: chunk_loop.induct)
  case (2 ps gs ps' tks chunks)
  then show ?case by (cases "ps' = []") auto
qed simp

lemma length_truncate_phonemes [shape_simps]: "length (truncate_phonemes ps) \<le> 510"
  by (simp add: truncate_phonemes_def)

lemma truncate_phonemes_take: "truncate_phonemes ps = take 510 ps"
  by (simp add: truncate_phonemes_def)

lemma vocab_miss_dropped:
  "vocab [p] = None \<Longrightarrow> vocab_ids vocab (xs @ p # ys) = vocab_ids vocab (xs @ ys)"
  by (simp add: vocab_ids_append vocab_ids_Cons)

section \<open>Properties of the token encoder\<close>

text \<open>C9. Spec, section 8: when the ids fit the context, \<^verbatim>\<open>KModel.forward\<close> encodes the
  phonemes as \<open>L + 2\<close> ids, zero at positions \<open>0\<close> and \<open>L + 1\<close>, the vocabulary ids in
  between.\<close>

theorem encode_phonemes_wraps:
  assumes "length (vocab_ids vocab ps) + 2 \<le> context_length"
  shows "\<exists>ids. encode_phonemes vocab context_length ps = Inr ids \<and>
           length ids = length (vocab_ids vocab ps) + 2 \<and> ids ! 0 = 0 \<and>
           ids ! (length (vocab_ids vocab ps) + 1) = 0 \<and>
           take (length (vocab_ids vocab ps)) (drop 1 ids) = vocab_ids vocab ps"
  using assms wrap_ids_inner [of "vocab_ids vocab ps"] wrap_ids_nth_last [of "vocab_ids vocab ps"]
  by (simp add: encode_phonemes_def del: wrap_ids_nth_last)

theorem encode_phonemes_wraps_witness:
  "length (vocab_ids [[CHR ''a''] \<mapsto> 5] ''ab'') + 2 \<le> 512 \<and>
   (\<exists>ids. encode_phonemes [[CHR ''a''] \<mapsto> 5] 512 ''ab'' = Inr ids \<and>
      length ids = length (vocab_ids [[CHR ''a''] \<mapsto> 5] ''ab'') + 2 \<and> ids ! 0 = 0 \<and>
      ids ! (length (vocab_ids [[CHR ''a''] \<mapsto> 5] ''ab'') + 1) = 0 \<and>
      take (length (vocab_ids [[CHR ''a''] \<mapsto> 5] ''ab'')) (drop 1 ids)
        = vocab_ids [[CHR ''a''] \<mapsto> 5] ''ab'')"
proof -
  have h: "length (vocab_ids [[CHR ''a''] \<mapsto> 5] ''ab'') + 2 \<le> 512"
    by (simp add: vocab_ids_def)
  show ?thesis using encode_phonemes_wraps [OF h] h by blast
qed

text \<open>C10. The truncation of the export path keeps it within the reference context of 512
  positions: what \<^verbatim>\<open>load_input_ids\<close> returns is what \<^verbatim>\<open>KModel.forward\<close> would encode for
  the truncated phonemes, whose assertion therefore never fails there.\<close>

theorem load_input_ids_fits_context:
  assumes "load_input_ids vocab lang_code en_chunks other_ps = Inr (ps, ids)"
  shows "length ps \<le> 510 \<and> encode_phonemes vocab 512 ps = Inr ids"
proof -
  from assms have ps: "length ps \<le> 510" and ids: "ids = wrap_ids (vocab_ids vocab ps)"
    using length_truncate_phonemes
    by (auto simp: load_input_ids_def Let_def split: if_splits option.splits)
  have "length (vocab_ids vocab ps) + 2 \<le> 512"
    using ps length_vocab_ids [of vocab ps] by simp
  with ps ids show ?thesis
    by (simp add: encode_phonemes_def)
qed

theorem load_input_ids_fits_context_witness:
  "load_input_ids [[CHR ''a''] \<mapsto> 5] ''a'' [(''x'', ''ab'', ())] [] = Inr (''ab'', [0, 5, 0]) \<and>
   length ''ab'' \<le> 510 \<and> encode_phonemes [[CHR ''a''] \<mapsto> 5] 512 ''ab'' = Inr [0, 5, 0]"
proof -
  have h: "load_input_ids [[CHR ''a''] \<mapsto> 5] ''a'' [(''x'', ''ab'', ())] [] = Inr (''ab'', [0, 5, 0])"
    by (simp add: load_input_ids_def sublist_Cons_right truncate_phonemes_def vocab_ids_def wrap_ids_def)
  show ?thesis using load_input_ids_fits_context [OF h] h by simp
qed

text \<open>C11. In the English branch of \<^verbatim>\<open>load_input_ids\<close> the loop over the chunks of
  \<^verbatim>\<open>en_tokenize\<close> only keeps the phonemes of the last chunk (the \<^verbatim>\<open>continue\<close> skips
  nothing), and no chunk at all leaves \<^verbatim>\<open>ps\<close> unbound.\<close>

theorem load_input_ids_last_chunk:
  assumes "sublist lang_code ''ab''"
  shows "load_input_ids vocab lang_code en_chunks other_ps =
           (if en_chunks = [] then Inl (NameError ''ps'')
            else let ps = take 510 (fst (snd (last en_chunks))) in Inr (ps, wrap_ids (vocab_ids vocab ps)))"
  using assms by (simp add: load_input_ids_def chunk_loop_last truncate_phonemes_take)

theorem load_input_ids_last_chunk_witness:
  "sublist ''a'' ''ab'' \<and>
   load_input_ids [[CHR ''a''] \<mapsto> 5, [CHR ''b''] \<mapsto> 6] ''a'' [(''x'', ''a'', ()), (''y'', ''b'', ())] []
     = Inr (''b'', [0, 6, 0])"
proof -
  have h: "sublist ''a'' ''ab''" by (simp add: sublist_Cons_right)
  show ?thesis
    using load_input_ids_last_chunk [OF h, of "[[CHR ''a''] \<mapsto> 5, [CHR ''b''] \<mapsto> 6]"
        "[(''x'', ''a'', ()), (''y'', ''b'', ())]" "[]"] h
    by (simp add: vocab_ids_def wrap_ids_def)
qed

text \<open>C12. For a non-empty voice pack, \<^verbatim>\<open>load_voice\<close> succeeds for every phoneme string no
  longer than the pack and selects the row of its length; an empty phoneme string
  selects the last row (Python's index \<open>-1\<close>), which an empty pack does not have.\<close>

theorem load_voice_in_range:
  assumes "length ps \<le> length pack" and "pack \<noteq> []"
  shows "load_voice pack ps = Inr (if ps = [] then last pack else pack ! (length ps - 1))"
proof (cases "ps = []")
  case True
  with assms show ?thesis by (simp add: load_voice_def py_index_minus_one)
next
  case False
  then have "0 < length ps" by simp
  with assms(1) have "length ps - 1 < length pack" by linarith
  with \<open>0 < length ps\<close> have "0 \<le> int (length ps) - 1" and "nat (int (length ps) - 1) < length pack"
    by simp_all
  with False show ?thesis
    by (simp add: load_voice_def py_index_nonneg nat_diff_distrib)
qed

theorem load_voice_in_range_witness:
  "length ([] :: string) \<le> length [10, 20, 30::int] \<and> [10, 20, 30::int] \<noteq> [] \<and>
   load_voice [10, 20, 30::int] [] = Inr 30"
  using load_voice_in_range [of "[]" "[10, 20, 30::int]"] by simp

text \<open>The loop of src/ids.py prints the ids \<^verbatim>\<open>load_input_ids\<close> builds for the English
  pipeline, without the two zero markers, and fails with the same unbound \<^verbatim>\<open>ps\<close>.\<close>

lemma ids_script_matches_export:
  "map_sum id wrap_ids (ids_script vocab en_chunks)
   = map_sum id snd (load_input_ids vocab ''a'' en_chunks other_ps)"
proof -
  have "sublist ''a'' ''ab''"
    by (simp add: sublist_Cons_right)
  then show ?thesis
    by (simp add: ids_script_def load_input_ids_def Let_def split: option.split)
qed

end
