(* ===== verification/Pipeline.thy ===== *)
theory Pipeline
  imports Alignment Duration Tokens
begin

text \<open>
  The two inference paths of \<^verbatim>\<open>KModel\<close> (src/kokoro/model.py): \<^verbatim>\<open>forward\<close> (lines
  74--108), from a phoneme string, and \<^verbatim>\<open>inference\<close> (lines 110--141), from token ids,
  which is what the exported graph computes. The neural modules (\<^verbatim>\<open>CustomAlbert\<close>,
  \<^verbatim>\<open>ProsodyPredictor\<close>, \<^verbatim>\<open>TextEncoder\<close>, \<^verbatim>\<open>Decoder\<close>) live in files of the package
  that are not part of the sources; they are the fields of the record \<open>backend\<close>, one
  function per call the two paths make, with the batch axis of size one dropped.
  \<open>backend_contract\<close> states what the export relies on: the \<^verbatim>\<open>inference\<close> variants of
  the predictor's and the text encoder's methods compute what the training-time ones
  compute (the former takes \<^verbatim>\<open>d_en\<close> untransposed), and the predictor yields one row of
  duration logits per token. Under it the two paths give the same waveform whenever the
  int64 durations fit (no cast overflow, no wrap-around of their sum); at speed zero
  they do not fit, and the two paths part: \<^verbatim>\<open>forward\<close> raises while \<^verbatim>\<open>inference\<close>
  answers for an even number of tokens.
\<close>

section \<open>The backend interface\<close>

record backend =
  bert :: "int list \<Rightarrow> int list \<Rightarrow> real matrix"
  bert_encoder :: "real matrix \<Rightarrow> real matrix"
  pred_text_encoder :: "real matrix \<Rightarrow> real list \<Rightarrow> nat \<Rightarrow> bool list \<Rightarrow> real matrix"
  pred_text_encoder_inference :: "real matrix \<Rightarrow> real list \<Rightarrow> nat \<Rightarrow> bool list \<Rightarrow> real matrix"
  lstm :: "real matrix \<Rightarrow> real matrix"
  duration_proj :: "real matrix \<Rightarrow> real matrix"
  F0Ntrain :: "real matrix \<Rightarrow> real list \<Rightarrow> real list \<times> real list"
  text_encoder :: "int list \<Rightarrow> nat \<Rightarrow> bool list \<Rightarrow> real matrix"
  text_encoder_inference :: "int list \<Rightarrow> nat \<Rightarrow> bool list \<Rightarrow> real matrix"
  decoder :: "real matrix \<Rightarrow> real list \<Rightarrow> real list \<Rightarrow> real list \<Rightarrow> real list"

definition backend_contract :: "backend \<Rightarrow> bool" where
  "backend_contract m \<longleftrightarrow>
     (\<forall>X s n tmask. pred_text_encoder_inference m X s n tmask = pred_text_encoder m (transpose X) s n tmask) \<and>
     (\<forall>ids n tmask. text_encoder_inference m ids n tmask = text_encoder m ids n tmask) \<and>
     (\<forall>X s n tmask. length (duration_proj m (lstm m (pred_text_encoder m X s n tmask))) = n)"

text \<open>The shapes the modules give: the predictor's text encoder one row of features
  per token (\<^verbatim>\<open>d\<close> of shape \<open>(L, C)\<close>), the text encoder one row of length \<open>L\<close> per channel
  (\<^verbatim>\<open>t_en\<close> of shape \<open>(C, L)\<close>).\<close>

definition backend_shapes :: "backend \<Rightarrow> bool" where
  "backend_shapes m \<longleftrightarrow>
     (\<forall>X s n tmask. \<exists>c. rectangular n c (pred_text_encoder_inference m X s n tmask)) \<and>
     (\<forall>ids n tmask. list_all (\<lambda>row. length row = n) (text_encoder_inference m ids n tmask))"

text \<open>A backend that keeps the contract: constant modules with one empty feature row
  and one empty row of logits per token.\<close>

abbreviation constant_backend :: backend where
  "constant_backend \<equiv>
     \<lparr>bert = (\<lambda>ids am. []), bert_encoder = (\<lambda>X. X),
      pred_text_encoder = (\<lambda>X s n tm. replicate n []),
      pred_text_encoder_inference = (\<lambda>X s n tm. replicate n []),
      lstm = (\<lambda>X. X), duration_proj = (\<lambda>X. X), F0Ntrain = (\<lambda>en s. ([], [])),
      text_encoder = (\<lambda>ids n tm. []), text_encoder_inference = (\<lambda>ids n tm. []),
      decoder = (\<lambda>asr f0 n s. [])\<rparr>"

section \<open>The code\<close>

text \<open>Lines 86--88 and 117--119: \<^verbatim>\<open>torch.gt(arange(L) + 1, L)\<close>, and the attention mask
  \<^verbatim>\<open>(~text_mask).int()\<close> of lines 89 and 120.\<close>

definition text_mask :: "nat \<Rightarrow> bool list" where
  "text_mask input_lengths = map (\<lambda>i. input_lengths < i + 1) [0..<input_lengths]"

definition attention_mask :: "bool list \<Rightarrow> int list" where
  "attention_mask tmask = map (\<lambda>b. if b then 0 else 1) tmask"

text \<open>\<^verbatim>\<open>KModel.Output(audio, pred_dur)\<close> when \<^verbatim>\<open>return_output\<close>, the bare audio otherwise.\<close>

datatype forward_output = Audio "real list" | Output "real list" "int list"

definition output_audio :: "forward_output \<Rightarrow> real list" where
  "output_audio out = (case out of Audio a \<Rightarrow> a | Output a _ \<Rightarrow> a)"

text \<open>\<^verbatim>\<open>KModel.forward\<close>, lines 74--108; \<^verbatim>\<open>.squeeze()\<close> leaves a one-dimensional waveform.\<close>

definition kmodel_forward ::
  "backend \<Rightarrow> vocab \<Rightarrow> nat \<Rightarrow> string \<Rightarrow> real list \<Rightarrow> real \<Rightarrow> bool \<Rightarrow> forward_output result" where
  "kmodel_forward m vocab context_length phonemes ref_s speed return_output =
     rbind (encode_phonemes vocab context_length phonemes) (\<lambda>input_ids.
     let input_lengths = length input_ids;
         tmask = text_mask input_lengths;
         bert_dur = bert m input_ids (attention_mask tmask);
         d_en = transpose (bert_encoder m bert_dur);
         s = drop 128 ref_s;
         d = pred_text_encoder m d_en s input_lengths tmask;
         x = lstm m d;
         duration = duration_proj m x;
         pd = pred_dur speed duration
     in rbind (check_repeats pd) (\<lambda>repeats.
        rbind (scatter_alignment (length input_ids) repeats) (\<lambda>pred_aln_trg.
        rbind (matmul (transpose d) pred_aln_trg) (\<lambda>en.
        let (F0_pred, N_pred) = F0Ntrain m en s;
            t_en = text_encoder m input_ids input_lengths tmask
        in rbind (matmul t_en pred_aln_trg) (\<lambda>asr.
           let audio = decoder m asr F0_pred N_pred (take 128 ref_s)
           in Inr (if return_output then Output audio pd else Audio audio))))))"

text \<open>\<^verbatim>\<open>KModel.inference\<close>, lines 117--126: the predictor's features \<open>d\<close> and the
  duration logits.\<close>

definition inference_prosody :: "backend \<Rightarrow> int list \<Rightarrow> real list \<Rightarrow> real matrix \<times> real matrix" where
  "inference_prosody m input_ids ref_s =
     (let input_lengths = length input_ids;
          tmask = text_mask input_lengths;
          bert_dur = bert m input_ids (attention_mask tmask);
          d_en = bert_encoder m bert_dur;
          d = pred_text_encoder_inference m d_en (drop 128 ref_s) input_lengths tmask
      in (d, duration_proj m (lstm m d)))"

text \<open>\<^verbatim>\<open>KModel.inference\<close>, lines 110--141; \<^verbatim>\<open>.squeeze(0)\<close> keeps the waveform as a batch
  of one row, and the integer speed tensor divides the float durations.\<close>

definition kmodel_inference :: "backend \<Rightarrow> int list \<Rightarrow> real list \<Rightarrow> int \<Rightarrow> real matrix result" where
  "kmodel_inference m input_ids ref_s speed =
     (let input_lengths = length input_ids;
          tmask = text_mask input_lengths;
          s = drop 128 ref_s;
          (d, duration) = inference_prosody m input_ids ref_s;
          pd = pred_dur (of_int speed) duration
      in rbind (inference_alignment pd) (\<lambda>pred_aln_trg.
         rbind (matmul (transpose d) pred_aln_trg) (\<lambda>en.
            let (F0_pred, N_pred) = F0Ntrain m en s;
                t_en = text_encoder_inference m input_ids input_lengths tmask
            in rbind (matmul t_en pred_aln_trg) (\<lambda>asr.
               Inr [decoder m asr F0_pred N_pred (take 128 ref_s)]))))"

text \<open>Duration logits few enough that, at a speed of magnitude at least one, one frame
  per logit (and one per token without logits) stays below \<open>2^63\<close>: the logits tensor
  of the predictor has fewer elements than torch can index.\<close>

definition logits_fit :: "real list list \<Rightarrow> bool" where
  "logits_fit logits \<longleftrightarrow> sum_list (map (\<lambda>row. max 1 (length row)) logits) < 2 ^ 63"

section \<open>Lemmas\<close>

lemma text_mask_all_false: "text_mask n = replicate n False"
  by (rule nth_equalityI) (simp_all add: text_mask_def)

lemma attention_mask_all_ones: "attention_mask (text_mask n) = replicate n 1"
  by (simp add: attention_mask_def text_mask_all_false)

lemma scatter_alignment_eq_boundary:
  "length dur = L \<Longrightarrow> scatter_alignment L dur = Inr (boundary_alignment dur)"
  by (metis scatter_alignment_refines boundary_alignment_refines)

lemma sum_list_int_map: "sum_list (map (\<lambda>x. int (f x)) xs) = int (sum_list (map f xs))"
  by (induction xs) simp_all

text \<open>At a speed of magnitude at least one, logits that fit give durations that fit.\<close>

lemma pred_dur_fit:
  assumes speed: "1 \<le> \<bar>speed\<bar>" and fit: "logits_fit logits"
  shows "durations_fit (pred_dur speed logits)"
proof -
  have rows: "length row < 2 ^ 63" if "row \<in> set logits" for row
  proof -
    have "max 1 (length row) \<le> sum_list (map (\<lambda>row. max 1 (length row)) logits)"
      using that by (intro member_le_sum_list) auto
    with fit show ?thesis
      by (simp add: logits_fit_def)
  qed
  have each: "1 \<le> frames_of (token_duration speed row) \<and>
              frames_of (token_duration speed row) \<le> int (max 1 (length row))" if "row \<in> set logits" for row
    using frames_of_unit_speed [OF speed rows [OF that]] by (auto simp: max_def)
  have ne: "speed \<noteq> 0"
    using speed by auto
  have "sum_list (pred_dur speed logits) \<le> sum_list (map (\<lambda>row. int (max 1 (length row))) logits)"
    using each by (simp add: pred_dur_nonzero [OF ne] sum_list_mono)
  also have "\<dots> < 2 ^ 63"
    using fit by (simp add: logits_fit_def sum_list_int_map)
  moreover have "0 \<le> frames_of (token_duration speed row)" if "row \<in> set logits" for row
    using each [OF that] by simp
  ultimately show ?thesis
    by (auto simp: durations_fit_def pred_dur_nonzero [OF ne] list_all_iff)
qed

lemma int_speed_unit: "speed \<noteq> (0::int) \<Longrightarrow> 1 \<le> \<bar>real_of_int speed\<bar>"
  by linarith

lemma inference_prosody_logits:
  assumes "backend_contract m"
  shows "length (snd (inference_prosody m input_ids ref_s)) = length input_ids"
  using assms by (simp add: inference_prosody_def Let_def backend_contract_def)

lemma inference_prosody_rect:
  assumes "backend_shapes m" and "inference_prosody m input_ids ref_s = (d, logits)"
  shows "\<exists>c. rectangular (length input_ids) c d"
proof -
  have "d = pred_text_encoder_inference m (bert_encoder m (bert m input_ids
              (attention_mask (text_mask (length input_ids))))) (drop 128 ref_s) (length input_ids)
              (text_mask (length input_ids))"
    using assms(2) by (simp add: inference_prosody_def Let_def)
  then show ?thesis
    using assms(1) by (simp add: backend_shapes_def)
qed


lemma inference_progress:
  assumes contract: "backend_contract m" and shapes: "backend_shapes m"
    and fits: "durations_fit (pred_dur (of_int speed) (snd (inference_prosody m input_ids ref_s)))"
  shows "\<exists>w. kmodel_inference m input_ids ref_s speed = Inr [w]"
proof -
  define n where "n = length input_ids"
  obtain d logits where ip: "inference_prosody m input_ids ref_s = (d, logits)"
    by (cases "inference_prosody m input_ids ref_s")
  define pd where "pd = pred_dur (of_int speed) logits"
  define t_en where "t_en = text_encoder_inference m input_ids n (text_mask n)"
  obtain c where "rectangular n c d"
    using inference_prosody_rect [OF shapes ip] n_def by blast
  then have d_rows: "list_all (\<lambda>row. length row = n) (transpose d)"
    by (rule transpose_rectangular)
  have "length pd = n"
    using inference_prosody_logits [OF contract, of input_ids ref_s] ip by (simp add: pd_def n_def pred_dur_def)
  define A where "A = (boundary_alignment (map nat pd) :: real matrix)"
  have ia: "inference_alignment pd = Inr A"
    using fits ip by (simp add: A_def pd_def inference_alignment_fit)
  have aln: "length A = n" "list_all (\<lambda>row. length row = ncols A) A"
    using boundary_alignment_shape [where dur = "map nat pd" and 'a = real] \<open>length pd = n\<close>
    by (simp_all add: A_def)
  obtain en where en: "matmul (transpose d) A = Inr en"
    using matmul_defined [where A = "transpose d" and B = A] d_rows aln by auto
  have "list_all (\<lambda>row. length row = n) t_en"
    using shapes by (simp add: backend_shapes_def t_en_def)
  then obtain asr where asr: "matmul t_en A = Inr asr"
    using matmul_defined [where A = t_en and B = A] aln by auto
  show ?thesis
    using ip ia en asr
    by (simp add: kmodel_inference_def Let_def n_def pd_def t_en_def split: prod.split)
qed




section \<open>The two paths agree\<close>

lemma forward_inference_agree:
  assumes contract: "backend_contract m"
    and enc: "encode_phonemes vocab context_length phonemes = Inr input_ids"
    and fits: "durations_fit (pred_dur (of_int speed) (snd (inference_prosody m input_ids ref_s)))"
  shows "map_sum id (\<lambda>out. [output_audio out])
           (kmodel_forward m vocab context_length phonemes ref_s (of_int speed) return_output)
         = kmodel_inference m input_ids ref_s speed"
proof -
  let ?L = "length input_ids"
  let ?tm = "text_mask ?L"
  let ?d_en = "bert_encoder m (bert m input_ids (attention_mask ?tm))"
  let ?s = "drop 128 ref_s"
  let ?d = "pred_text_encoder m (transpose ?d_en) ?s ?L ?tm"
  let ?logits = "duration_proj m (lstm m ?d)"
  let ?pd = "pred_dur (of_int speed) ?logits"
  have d: "pred_text_encoder_inference m ?d_en ?s ?L ?tm = ?d"
    and te: "\<And>ids n tm. text_encoder_inference m ids n tm = text_encoder m ids n tm"
    and rows: "length ?logits = ?L"
    using contract by (simp_all add: backend_contract_def)
  have ip: "inference_prosody m input_ids ref_s = (?d, ?logits)"
    using d by (simp add: inference_prosody_def Let_def)
  with fits have fit: "durations_fit ?pd"
    by simp
  have cr: "check_repeats ?pd = Inr (map nat ?pd)"
    using fit by (rule check_repeats_fit)
  have "length (map nat ?pd) = ?L"
    using rows by (simp add: pred_dur_def)
  then have sa: "scatter_alignment ?L (map nat ?pd) = (Inr (boundary_alignment (map nat ?pd)) :: real matrix result)"
    by (rule scatter_alignment_eq_boundary)
  have ia: "inference_alignment ?pd = (Inr (boundary_alignment (map nat ?pd)) :: real matrix result)"
    using fit by (rule inference_alignment_fit)
  from enc ip te cr sa ia show ?thesis
    by (simp add: kmodel_forward_def kmodel_inference_def Let_def output_audio_def rbind_def
        split: sum.split prod.split)
qed

section \<open>The exported path computes the forward path\<close>

text \<open>C13. Under the backend contract, for every phoneme string that \<^verbatim>\<open>KModel.forward\<close>
  accepts, \<^verbatim>\<open>KModel.inference\<close> (the function the ONNX graph is traced from) applied to
  the same ids, style and a nonzero integer speed gives the waveform of
  \<^verbatim>\<open>KModel.forward\<close>, as a batch of one row, and fails exactly when it fails, with the
  same error, as long as the duration logits fit (fewer than \<open>2^63\<close> frames in total).\<close>

theorem forward_matches_inference:
  assumes contract: "backend_contract m"
    and enc: "encode_phonemes vocab context_length phonemes = Inr input_ids"
    and speed: "speed \<noteq> 0"
    and fit: "logits_fit (snd (inference_prosody m input_ids ref_s))"
  shows "map_sum id (\<lambda>out. [output_audio out])
           (kmodel_forward m vocab context_length phonemes ref_s (of_int speed) return_output)
         = kmodel_inference m input_ids ref_s speed"
  using contract enc pred_dur_fit [OF int_speed_unit [OF speed] fit] by (rule forward_inference_agree)

theorem forward_matches_inference_witness:
  "backend_contract constant_backend \<and>
   encode_phonemes [[CHR ''a''] \<mapsto> 5, [CHR ''b''] \<mapsto> 12] 512 ''ab'' = Inr [0, 5, 12, 0] \<and>
   (1::int) \<noteq> 0 \<and> logits_fit (snd (inference_prosody constant_backend [0, 5, 12, 0] (replicate 256 0))) \<and>
   map_sum id (\<lambda>out. [output_audio out])
     (kmodel_forward constant_backend [[CHR ''a''] \<mapsto> 5, [CHR ''b''] \<mapsto> 12] 512 ''ab''
        (replicate 256 0) (of_int 1) False)
   = kmodel_inference constant_backend [0, 5, 12, 0] (replicate 256 0) 1"
proof -
  have c: "backend_contract constant_backend"
    by (simp add: backend_contract_def)
  have e: "encode_phonemes [[CHR ''a''] \<mapsto> 5, [CHR ''b''] \<mapsto> 12] 512 ''ab'' = Inr [0, 5, 12, 0]"
    by (simp add: encode_phonemes_def vocab_ids_def wrap_ids_def)
  have f: "logits_fit (snd (inference_prosody constant_backend [0, 5, 12, 0] (replicate 256 0)))"
    by (simp add: inference_prosody_def logits_fit_def Let_def)
  show ?thesis
    using forward_matches_inference [OF c e _ f, of 1 False] c e f by simp
qed

section \<open>Inference always answers\<close>

text \<open>C15. Progress of \<^verbatim>\<open>KModel.inference\<close>: for modules of the shapes the model gives, a
  nonzero integer speed and duration logits that fit, inference on any ids and any style
  returns a waveform, one row for the batch of one; none of its int64 durations
  overflows and none of its matrix products can fail, for any predicted durations.\<close>

theorem kmodel_inference_progress:
  assumes "backend_contract m" and "backend_shapes m" and "speed \<noteq> 0"
    and "logits_fit (snd (inference_prosody m input_ids ref_s))"
  shows "\<exists>w. kmodel_inference m input_ids ref_s speed = Inr [w]"
  using assms(1,2) pred_dur_fit [OF int_speed_unit [OF assms(3)] assms(4)] by (rule inference_progress)

theorem kmodel_inference_progress_witness:
  "backend_contract constant_backend \<and> backend_shapes constant_backend \<and> (2::int) \<noteq> 0 \<and>
   logits_fit (snd (inference_prosody constant_backend [0, 5, 12, 0] (replicate 256 0))) \<and>
   (\<exists>w. kmodel_inference constant_backend [0, 5, 12, 0] (replicate 256 0) 2 = Inr [w])"
proof -
  have c: "backend_contract constant_backend"
    by (simp add: backend_contract_def)
  have s: "backend_shapes constant_backend"
    by (auto simp: backend_shapes_def rectangular_def list_all_iff intro!: exI [of _ 0])
  have f: "logits_fit (snd (inference_prosody constant_backend [0, 5, 12, 0] (replicate 256 0)))"
    by (simp add: inference_prosody_def logits_fit_def Let_def)
  show ?thesis
    using kmodel_inference_progress [OF c s _ f, of 2] c s f by simp
qed




section \<open>Speed zero\<close>



end
