(* ===== verification/Spectral.thy ===== *)
theory Spectral
  imports Prelude
begin

text \<open>
  The SpectralPostProcessor, \<^verbatim>\<open>post_process\<close> of src/export.py (lines 98--112): a
  short-time Fourier transform of the waveform with a periodic Hann window of 100
  samples (\<^verbatim>\<open>scipy.signal.get_window('hann', 100, fftbins=True)\<close>), its magnitude
  scaled by 3 and zeroed from bin 18 on, recombined with the phase and inverted. The
  transforms are those of \<^verbatim>\<open>torch.stft\<close> and \<^verbatim>\<open>torch.istft\<close> with the defaults the code
  relies on: hop length \<open>n_fft div 4\<close>, window length \<open>n_fft\<close>, centred frames with
  reflect padding of \<open>n_fft div 2\<close> samples, one-sided spectra, and an inverse that
  divides the overlap-added frames by the overlap-added squared window after checking
  that the latter is at least \<open>10\<^sup>-\<^sup>1\<^sup>1\<close>. A spectrogram is a matrix with one row per
  frequency bin and one column per frame, for one signal of the batch.
\<close>

section \<open>The code\<close>

definition n_fft :: nat where
  "n_fft = 100"

definition hop_length :: nat where
  "hop_length = n_fft div 4"

text \<open>The periodic Hann window of \<^verbatim>\<open>get_window('hann', N, fftbins=True)\<close>.\<close>

definition hann_window :: "nat \<Rightarrow> real list" where
  "hann_window N = map (\<lambda>n. 1/2 - 1/2 * cos (2 * pi * real n / real N)) [0..<N]"

text \<open>Reflect padding of \<^verbatim>\<open>torch.stft(..., center=True)\<close>: the signal mirrored at both
  ends without repeating the end samples; torch refuses a pad not below the length.\<close>

definition reflect_pad :: "nat \<Rightarrow> real list \<Rightarrow> real list result" where
  "reflect_pad p x =
     (if p < length x then Inr (rev (take p (tl x)) @ x @ take p (tl (rev x)))
      else Inl (RuntimeError ''padding size should be less than the corresponding input dimension''))"

definition stft_frames :: "real list \<Rightarrow> real list list" where
  "stft_frames xp =
     map (\<lambda>t. take n_fft (drop (t * hop_length) xp)) [0..<1 + (length xp - n_fft) div hop_length]"

definition dft_bin :: "real list \<Rightarrow> real list \<Rightarrow> nat \<Rightarrow> complex" where
  "dft_bin w frame k =
     (\<Sum>n<length w. complex_of_real (w ! n * frame ! n) * cis (- 2 * pi * real k * real n / real (length w)))"

text \<open>\<^verbatim>\<open>torch.stft(audio, n_fft, window=window, return_complex=True)\<close> for one signal.\<close>

definition stft :: "real list \<Rightarrow> complex matrix result" where
  "stft x =
     rbind (reflect_pad (n_fft div 2) x) (\<lambda>xp.
       let w = hann_window n_fft; frames = stft_frames xp
       in Inr (map (\<lambda>k. map (\<lambda>fr. dft_bin w fr k) frames) [0..<n_fft div 2 + 1]))"

text \<open>\<^verbatim>\<open>magnitude[:, cutoff:, :] = 0.0\<close> on the bins of one signal.\<close>

definition mask_high_bins :: "nat \<Rightarrow> real matrix \<Rightarrow> real matrix" where
  "mask_high_bins cutoff M = map (\<lambda>(k, row). if cutoff \<le> k then map (\<lambda>_. 0) row else row) (zip [0..<length M] M)"

text \<open>\<^verbatim>\<open>magnitude * torch.exp(phase * 1j)\<close>.\<close>

definition recombine :: "real matrix \<Rightarrow> real matrix \<Rightarrow> complex matrix" where
  "recombine mag ph = map2 (map2 (\<lambda>m p. complex_of_real m * exp (complex_of_real p * \<i>))) mag ph"

text \<open>Sample \<open>n\<close> of the inverse real transform of size \<open>N\<close> of a one-sided spectrum: the
  Hermitian extension summed, its real part taken (the imaginary parts of the bins \<open>0\<close> and
  \<open>N div 2\<close> do not contribute, as in torch's complex-to-real transform).\<close>

definition irfft_sample :: "complex list \<Rightarrow> nat \<Rightarrow> nat \<Rightarrow> real" where
  "irfft_sample X N n =
     Re (\<Sum>k<N. (if k \<le> N div 2 then X ! k else cnj (X ! (N - k))) * cis (2 * pi * real k * real n / real N))
     / real N"

text \<open>\<^verbatim>\<open>torch.istft(Y, n_fft, window=window)\<close> for one signal.\<close>

definition istft :: "complex matrix \<Rightarrow> real list result" where
  "istft Y =
     (let w = hann_window n_fft; nf = ncols Y; hop = hop_length;
          col = (\<lambda>t. map (\<lambda>row. row ! t) Y);
          frame = (\<lambda>t. map (\<lambda>n. w ! n * irfft_sample (col t) n_fft n) [0..<n_fft]);
          covers = (\<lambda>t j. t * hop \<le> j \<and> j < t * hop + n_fft);
          y = (\<lambda>j. \<Sum>t<nf. if covers t j then frame t ! (j - t * hop) else 0);
          env = (\<lambda>j. \<Sum>t<nf. if covers t j then (w ! (j - t * hop))\<^sup>2 else 0);
          start = n_fft div 2; stop = n_fft + hop * (nf - 1) - n_fft div 2
      in if length Y \<noteq> n_fft div 2 + 1
         then Inl (RuntimeError ''expected the frequency dimension to match n_fft / 2 + 1'')
         else if list_all (\<lambda>j. 1 / 10 ^ 11 \<le> env j) [start..<stop]
         then Inr (map (\<lambda>j. y j / env j) [start..<stop])
         else Inl (RuntimeError ''window overlap add min''))"

text \<open>\<^verbatim>\<open>post_process\<close>, lines 100--112, for one signal of the batch.\<close>

definition post_process_signal :: "real list \<Rightarrow> real list result" where
  "post_process_signal audio =
     rbind (stft audio) (\<lambda>forward_transform.
       let magnitude = map (map cmod) forward_transform;
           phase = map (map Arg) forward_transform;
           magnitude = map (map (\<lambda>m. m * 3)) magnitude;
           magnitude = mask_high_bins 18 magnitude
       in istft (recombine magnitude phase))"

text \<open>The audio handed to \<^verbatim>\<open>post_process\<close>: a one-dimensional waveform, or a batch of
  waveforms of equal length. On a waveform \<^verbatim>\<open>torch.stft\<close> returns a tensor of two
  axes, and the three indices of \<^verbatim>\<open>magnitude[:, 18:, :]\<close> raise.\<close>

datatype audio_tensor = Wave "real list" | Batch "real matrix"

definition post_process :: "audio_tensor \<Rightarrow> real matrix result" where
  "post_process audio =
     (case audio of
        Wave x \<Rightarrow> rbind (stft x) (\<lambda>_. Inl IndexError)
      | Batch xs \<Rightarrow> rmap post_process_signal xs)"

section \<open>The filter as an operation on the spectrum\<close>

text \<open>What the magnitude and phase manipulation amounts to: bins below \<open>cutoff\<close> scaled by
  \<open>gain\<close>, the others removed.\<close>

definition low_pass :: "nat \<Rightarrow> real \<Rightarrow> complex matrix \<Rightarrow> complex matrix" where
  "low_pass cutoff gain S =
     map (\<lambda>(k, row). if cutoff \<le> k then map (\<lambda>_. 0) row else map (\<lambda>z. complex_of_real gain * z) row)
       (zip [0..<length S] S)"

section \<open>Lemmas\<close>

lemma polar_identity [simp]:
  "complex_of_real (cmod z) * exp (complex_of_real (Arg z) * \<i>) = z"
proof -
  have "exp (complex_of_real (Arg z) * \<i>) = cis (Arg z)"
    by (simp add: cis_conv_exp mult.commute)
  then show ?thesis
    using rcis_cmod_Arg [of z] by (simp add: rcis_def)
qed

lemma length_mask_high_bins [simp, shape_simps]: "length (mask_high_bins c M) = length M"
  by (simp add: mask_high_bins_def)

lemma mask_high_bins_nth [simp]:
  "k < length M \<Longrightarrow> mask_high_bins c M ! k = (if c \<le> k then map (\<lambda>_. 0) (M ! k) else M ! k)"
  by (simp add: mask_high_bins_def)

lemma length_low_pass [simp, shape_simps]: "length (low_pass c g S) = length S"
  by (simp add: low_pass_def)

lemma low_pass_nth [simp]:
  "k < length S \<Longrightarrow>
   low_pass c g S ! k = (if c \<le> k then map (\<lambda>_. 0) (S ! k) else map (\<lambda>z. complex_of_real g * z) (S ! k))"
  by (simp add: low_pass_def)

text \<open>The magnitude and phase manipulation of \<^verbatim>\<open>post_process\<close> is the linear filter
  \<open>low_pass\<close> on the complex spectrum.\<close>

lemma recombine_is_low_pass:
  "recombine (mask_high_bins c (map (map (\<lambda>m. m * g)) (map (map cmod) S))) (map (map Arg) S)
   = low_pass c g S"
proof (rule nth_equalityI)
  show "length (recombine (mask_high_bins c (map (map (\<lambda>m. m * g)) (map (map cmod) S))) (map (map Arg) S))
      = length (low_pass c g S)"
    by (simp add: recombine_def)
next
  fix k assume k: "k < length (recombine (mask_high_bins c (map (map (\<lambda>m. m * g)) (map (map cmod) S)))
                                  (map (map Arg) S))"
  then have k: "k < length S" by (simp add: recombine_def)
  show "recombine (mask_high_bins c (map (map (\<lambda>m. m * g)) (map (map cmod) S))) (map (map Arg) S) ! k
      = low_pass c g S ! k"
  proof (cases "c \<le> k")
    case True
    with k show ?thesis by (intro nth_equalityI) (simp_all add: recombine_def)
  next
    case False
    with k show ?thesis by (intro nth_equalityI) (simp_all add: recombine_def)
  qed
qed

lemma length_reflect_pad:
  "reflect_pad p x = Inr xp \<Longrightarrow> length xp = length x + 2 * p"
  by (auto simp: reflect_pad_def split: if_splits)

lemma length_stft_frames [simp, shape_simps]:
  "length (stft_frames xp) = 1 + (length xp - n_fft) div hop_length"
  by (simp add: stft_frames_def)

lemma stft_Inr_shape:
  assumes "stft x = Inr S"
  shows "length S = n_fft div 2 + 1 \<and> ncols S = 1 + length x div hop_length \<and> n_fft div 2 < length x"
proof -
  from assms obtain xp where pad: "reflect_pad (n_fft div 2) x = Inr xp"
    and S: "S = map (\<lambda>k. map (\<lambda>fr. dft_bin (hann_window n_fft) fr k) (stft_frames xp)) [0..<n_fft div 2 + 1]"
    by (auto simp: stft_def Let_def rbind_def split: sum.splits)
  from pad have "n_fft div 2 < length x" and "length xp = length x + n_fft"
    by (auto simp: reflect_pad_def n_fft_def split: if_splits)
  with S show ?thesis
    by (simp add: ncols_def upt_conv_Cons n_fft_def)
qed

lemma ncols_low_pass: "0 < length S \<Longrightarrow> 0 < c \<Longrightarrow> ncols (low_pass c g S) = ncols S"
proof -
  assume "0 < length S" "0 < c"
  moreover from \<open>0 < length S\<close> have "low_pass c g S \<noteq> []"
    by (metis length_low_pass less_numeral_extra(3) list.size(3))
  ultimately show ?thesis by (simp add: ncols_nth)
qed

lemma hann_nth:
  "n < N \<Longrightarrow> hann_window N ! n = 1/2 - 1/2 * cos (2 * pi * real n / real N)"
  by (simp add: hann_window_def)

lemma hann_mid_ge_half:
  assumes "25 \<le> n" and "n \<le> 75"
  shows "1/2 \<le> hann_window 100 ! n"
proof -
  let ?x = "2 * pi * real n / 100"
  have "- (pi / 2) \<le> ?x - pi" and "?x - pi \<le> pi / 2"
    using assms pi_gt_zero by (simp_all add: field_simps)
  then have "0 \<le> cos (?x - pi)" by (rule cos_ge_zero)
  then have "cos ?x \<le> 0" by simp
  with assms show ?thesis by (simp add: hann_nth)
qed

lemma overlap_envelope_bound:
  assumes lo: "50 \<le> j" and hi: "j < 50 + 25 * (nf - 1)"
  shows "1/4 \<le> (\<Sum>t<nf. if t * 25 \<le> j \<and> j < t * 25 + 100 then (hann_window 100 ! (j - t * 25))\<^sup>2 else 0)"
proof -
  have jdm: "j div 25 * 25 + j mod 25 = j" by (rule div_mult_mod_eq)
  have r: "j mod 25 < 25" by simp
  have two: "2 \<le> j div 25" using lo by linarith
  define q where "q = j div 25 - 2"
  have q: "j div 25 = q + 2" using two by (simp add: q_def)
  define t0 where "t0 = q + 1"
  have "0 < nf" using lo hi by (cases nf) auto
  then have "j < 25 + 25 * nf" using hi by (cases nf) auto
  then have t0: "t0 < nf" using jdm q by (simp add: t0_def; linarith)
  have off: "j - t0 * 25 = j mod 25 + 25"
    using jdm q by (simp add: t0_def; linarith)
  have cov: "t0 * 25 \<le> j \<and> j < t0 * 25 + 100"
    using jdm q r by (simp add: t0_def; linarith)
  have "1/2 \<le> hann_window 100 ! (j - t0 * 25)"
    using off mod_less_divisor [of 25 j] by (intro hann_mid_ge_half) simp_all
  then have "(1/2)\<^sup>2 \<le> (hann_window 100 ! (j - t0 * 25))\<^sup>2"
    by (rule power_mono) simp
  also have "\<dots> = (if t0 * 25 \<le> j \<and> j < t0 * 25 + 100 then (hann_window 100 ! (j - t0 * 25))\<^sup>2 else 0)"
    using cov by simp
  also have "\<dots> \<le> (\<Sum>t<nf. if t * 25 \<le> j \<and> j < t * 25 + 100 then (hann_window 100 ! (j - t * 25))\<^sup>2 else 0)"
    using t0 by (intro member_le_sum) simp_all
  finally show ?thesis by (simp add: power2_eq_square)
qed

lemma istft_envelope_ok:
  "list_all (\<lambda>j. 1 / 10 ^ 11 \<le> (\<Sum>t<nf. if t * 25 \<le> j \<and> j < t * 25 + 100
                          then (hann_window 100 ! (j - t * 25))\<^sup>2 else 0))
     [50..<50 + 25 * (nf - 1)]"
  unfolding list_all_iff
proof
  fix j assume "j \<in> set [50..<50 + 25 * (nf - 1)]"
  then have "1/4 \<le> (\<Sum>t<nf. if t * 25 \<le> j \<and> j < t * 25 + 100
                        then (hann_window 100 ! (j - t * 25))\<^sup>2 else 0)"
    by (intro overlap_envelope_bound) simp_all
  then show "1 / 10 ^ 11 \<le> (\<Sum>t<nf. if t * 25 \<le> j \<and> j < t * 25 + 100
                        then (hann_window 100 ! (j - t * 25))\<^sup>2 else 0)"
    by simp
qed

lemma istft_Inr:
  assumes "length Y = n_fft div 2 + 1"
  shows "\<exists>y. istft Y = Inr y \<and> length y = hop_length * (ncols Y - 1)"
  using assms istft_envelope_ok [of "ncols Y"] by (simp add: istft_def Let_def n_fft_def hop_length_def)

lemma reflect_pad_Inr: "p < length x \<Longrightarrow> \<exists>xp. reflect_pad p x = Inr xp"
  by (simp add: reflect_pad_def)

lemma post_process_signal_Inr:
  assumes "50 < length audio"
  shows "\<exists>y. post_process_signal audio = Inr y \<and> length y = 25 * (length audio div 25)"
proof -
  obtain xp where "reflect_pad (n_fft div 2) audio = Inr xp"
    using reflect_pad_Inr [of "n_fft div 2" audio] assms by (auto simp: n_fft_def)
  then have "\<exists>S. stft audio = Inr S"
    by (simp add: stft_def Let_def)
  then obtain S where S: "stft audio = Inr S" by blast
  then have shape: "length S = n_fft div 2 + 1" "ncols S = 1 + length audio div hop_length"
    using stft_Inr_shape by blast+
  then have lp: "length (low_pass 18 3 S) = n_fft div 2 + 1"
    and nc: "ncols (low_pass 18 3 S) = 1 + length audio div hop_length"
    by (simp_all add: ncols_low_pass n_fft_def)
  obtain y where "istft (low_pass 18 3 S) = Inr y" "length y = hop_length * (ncols (low_pass 18 3 S) - 1)"
    using istft_Inr [OF lp] by blast
  moreover have "post_process_signal audio = istft (low_pass 18 3 S)"
    using S by (simp only: post_process_signal_def Let_def recombine_is_low_pass rbind_Inr)
  ultimately show ?thesis
    using nc by (simp add: hop_length_def n_fft_def)
qed

section \<open>Properties of the post-processor\<close>

text \<open>C14. The magnitude/phase manipulation of \<^verbatim>\<open>post_process\<close> is a fixed linear filter on
  the spectrum: the bins below 18 are multiplied by 3 and the others removed, and the
  result goes to the inverse transform.\<close>

theorem post_process_is_low_pass:
  "post_process_signal audio = rbind (stft audio) (\<lambda>S. istft (low_pass 18 3 S))"
  by (simp only: post_process_signal_def Let_def recombine_is_low_pass)

text \<open>C16. A waveform of at most 50 samples cannot be post-processed: the reflect padding of
  \<^verbatim>\<open>torch.stft\<close> raises.\<close>

theorem post_process_short_input:
  assumes "length audio \<le> 50"
  shows "post_process_signal audio =
           Inl (RuntimeError ''padding size should be less than the corresponding input dimension'')"
  using assms by (simp add: post_process_signal_def stft_def reflect_pad_def n_fft_def)

theorem post_process_short_input_witness:
  "length (replicate 50 (0::real)) \<le> 50 \<and>
   post_process_signal (replicate 50 0) =
     Inl (RuntimeError ''padding size should be less than the corresponding input dimension'')"
  using post_process_short_input [of "replicate 50 0"] by simp

text \<open>C17. Every batch of waveforms longer than 50 samples is post-processed without error
  (the overlap-added Hann window never drops below \<open>1/4\<close> where \<^verbatim>\<open>torch.istft\<close> checks
  it), and each output has \<open>25 * (T div 25)\<close> samples for an input of \<open>T\<close>: the length is
  rounded down to a multiple of the hop, never longer than the input.\<close>

theorem post_process_batch_length:
  assumes "list_all (\<lambda>x. 50 < length x) xs"
  shows "\<exists>ys. post_process (Batch xs) = Inr ys \<and>
               list_all2 (\<lambda>x y. length y = 25 * (length x div 25)) xs ys"
  using assms
proof (induction xs)
  case Nil
  then show ?case by (simp add: post_process_def)
next
  case (Cons x xs)
  then obtain ys where ys: "post_process (Batch xs) = Inr ys"
    "list_all2 (\<lambda>x y. length y = 25 * (length x div 25)) xs ys" by auto
  obtain y where "post_process_signal x = Inr y" "length y = 25 * (length x div 25)"
    using post_process_signal_Inr Cons.prems by auto
  with ys show ?case
    by (simp add: post_process_def)
qed

theorem post_process_batch_length_witness:
  "list_all (\<lambda>x. 50 < length x) [replicate 60 (0::real)] \<and>
   (\<exists>ys. post_process (Batch [replicate 60 0]) = Inr ys \<and>
      list_all2 (\<lambda>x y. length y = 25 * (length x div 25)) [replicate 60 (0::real)] ys)"
proof -
  have h: "list_all (\<lambda>x. 50 < length x) [replicate 60 (0::real)]" by simp
  show ?thesis using post_process_batch_length [OF h] h by blast
qed

end
