(* ===== verification/Fourier.thy ===== *)
theory Fourier
  imports Spectral
begin

text \<open>
  The transforms of the SpectralPostProcessor are inverse to each other: on every signal
  of more than 50 samples, \<open>istft\<close> applied to \<open>stft\<close> gives back the signal, cut to the
  \<open>25 * (T div 25)\<close> samples the framing covers. This is the property of
  \<^verbatim>\<open>torch.stft\<close>/\<^verbatim>\<open>torch.istft\<close> that \<^verbatim>\<open>post_process\<close> relies on, so that its output
  differs from its input only by the spectral mask and gain. The proof goes through the
  discrete Fourier transform: orthogonality of the roots of unity, inversion, the
  Hermitian symmetry that lets the one-sided spectrum stand for the full one, and the
  overlap-add of the squared Hann window, which the envelope bound of Spectral keeps
  away from zero.
\<close>

section \<open>Discrete Fourier transform\<close>

lemma cis_root_ne_one:
  assumes "0 < N" and "m < N" and "n < N" and "m \<noteq> n"
  shows "cis (2 * pi * (real m - real n) / real N) \<noteq> 1"
proof
  assume "cis (2 * pi * (real m - real n) / real N) = 1"
  then have "cos (2 * pi * (real m - real n) / real N) = 1"
    by (metis cis.sel(1) one_complex.sel(1))
  then obtain i :: int where i: "2 * pi * (real m - real n) / real N = of_int i * 2 * pi"
    by (auto simp: cos_one_2pi_int)
  have N0: "real N \<noteq> 0"
    using assms(1) by simp
  from i have "2 * pi * (real m - real n) = of_int i * 2 * pi * real N"
    using N0 by (simp add: divide_eq_eq)
  then have "(real m - real n) * (2 * pi) = (of_int i * real N) * (2 * pi)"
    by (simp add: algebra_simps)
  then have "real m - real n = of_int i * real N"
    by (simp add: pi_neq_zero)
  then have eq: "int m - int n = i * int N"
    by (metis of_int_eq_iff of_int_diff of_int_mult of_int_of_nat_eq)
  show False
  proof (cases "i = 0")
    case True
    with eq assms(4) show False by simp
  next
    case False
    then have "1 \<le> \<bar>i\<bar>"
      by linarith
    then have "int N \<le> \<bar>i\<bar> * int N"
      by (simp add: mult_le_cancel_right1)
    then have "int N \<le> \<bar>i * int N\<bar>"
      by (simp add: abs_mult)
    with eq assms(2,3) show False by linarith
  qed
qed

lemma cis_root_orth:
  assumes "0 < N" and "m < N" and "n < N"
  shows "(\<Sum>k<N. cis (2 * pi * real k * (real m - real n) / real N)) = (if m = n then of_nat N else 0)"
proof (cases "m = n")
  case True
  then show ?thesis by simp
next
  case False
  let ?z = "cis (2 * pi * (real m - real n) / real N)"
  have pow: "cis (2 * pi * real k * (real m - real n) / real N) = ?z ^ k" for k
    by (simp add: DeMoivre field_simps)
  have N0: "real N \<noteq> 0"
    using assms(1) by simp
  have "?z ^ N = cis (real N * (2 * pi * (real m - real n) / real N))"
    by (rule DeMoivre)
  also have "\<dots> = cis (2 * pi * (real m - real n))"
    using N0 by simp
  also have "\<dots> = 1"
  proof -
    have "real m - real n = of_int (int m - int n)" by simp
    then show ?thesis by (metis Ints_of_int cis_multiple_2pi)
  qed
  finally have zN: "?z ^ N = 1" .
  have "(\<Sum>k<N. ?z ^ k) = 0"
    using geometric_sum [OF cis_root_ne_one [OF assms False]] zN by simp
  with False show ?thesis
    by (simp add: pow)
qed

lemma cis_dft_product:
  "cis (- 2 * pi * real k * real n / real N) * cis (2 * pi * real k * real m / real N)
   = cis (2 * pi * real k * (real m - real n) / real N)"
proof -
  have "- 2 * pi * real k * real n / real N + 2 * pi * real k * real m / real N
        = (2 * pi * real k * real m - 2 * pi * real k * real n) / real N"
    by (simp add: diff_divide_distrib)
  also have "\<dots> = 2 * pi * real k * (real m - real n) / real N"
    by (simp add: right_diff_distrib)
  finally show ?thesis
    by (simp only: cis_mult)
qed

lemma idft_dft:
  assumes "0 < N" and "m < N"
  shows "(\<Sum>k<N. (\<Sum>n<N. complex_of_real (g n) * cis (- 2 * pi * real k * real n / real N))
                   * cis (2 * pi * real k * real m / real N))
         = of_nat N * complex_of_real (g m)"
proof -
  have pt: "complex_of_real (g n) * cis (- 2 * pi * real k * real n / real N) * cis (2 * pi * real k * real m / real N)
      = complex_of_real (g n) * cis (2 * pi * real k * (real m - real n) / real N)" for k n
    by (simp only: mult.assoc [of "complex_of_real (g n)"] cis_dft_product)
  have "(\<Sum>k<N. (\<Sum>n<N. complex_of_real (g n) * cis (- 2 * pi * real k * real n / real N))
                   * cis (2 * pi * real k * real m / real N))
        = (\<Sum>k<N. \<Sum>n<N. complex_of_real (g n) * cis (2 * pi * real k * (real m - real n) / real N))"
    by (simp only: sum_distrib_right pt)
  also have "\<dots> = (\<Sum>n<N. complex_of_real (g n) * (\<Sum>k<N. cis (2 * pi * real k * (real m - real n) / real N)))"
    by (simp only: sum_distrib_left) (rule sum.swap)
  also have "\<dots> = (\<Sum>n<N. complex_of_real (g n) * (if m = n then of_nat N else 0))"
    using assms by (intro sum.cong refl) (simp add: cis_root_orth)
  also have "\<dots> = of_nat N * complex_of_real (g m)"
    using assms(2) by (simp add: if_distrib sum.delta' mult.commute cong: if_cong)
  finally show ?thesis .
qed

lemma dft_conj_sym:
  assumes "k \<le> N"
  shows "cnj (\<Sum>n<N. complex_of_real (g n) * cis (- 2 * pi * real (N - k) * real n / real N))
         = (\<Sum>n<N. complex_of_real (g n) * cis (- 2 * pi * real k * real n / real N))"
proof -
  have "cis (2 * pi * real (N - k) * real n / real N) = cis (- 2 * pi * real k * real n / real N)"
    if "n < N" for n
  proof -
    have N0: "real N \<noteq> 0"
      using that by simp
    have "2 * pi * real (N - k) * real n / real N = 2 * pi * real n + - 2 * pi * real k * real n / real N"
      using assms N0 by (simp add: of_nat_diff field_simps)
    then have "cis (2 * pi * real (N - k) * real n / real N)
               = cis (2 * pi * real n) * cis (- 2 * pi * real k * real n / real N)"
      by (simp only: cis_mult)
    also have "\<dots> = cis (- 2 * pi * real k * real n / real N)"
      by (simp add: cis_multiple_2pi)
    finally show ?thesis .
  qed
  then show ?thesis
    by (simp add: cis_cnj)
qed

lemma dft_bin_conj_sym:
  assumes "k \<le> length w"
  shows "cnj (dft_bin w frame (length w - k)) = dft_bin w frame k"
  using dft_conj_sym [OF assms, of "\<lambda>n. w ! n * frame ! n"] by (simp add: dft_bin_def)

text \<open>The inverse real transform of the one-sided transform of a windowed frame gives
  the windowed frame back.\<close>

lemma irfft_sample_dft:
  assumes "0 < length w" and "m < length w"
  shows "irfft_sample (map (dft_bin w frame) [0..<length w div 2 + 1]) (length w) m = w ! m * frame ! m"
proof -
  let ?N = "length w"
  let ?X = "map (dft_bin w frame) [0..<?N div 2 + 1]"
  have herm: "(if k \<le> ?N div 2 then ?X ! k else cnj (?X ! (?N - k))) = dft_bin w frame k"
    if "k < ?N" for k
  proof (cases "k \<le> ?N div 2")
    case True
    then show ?thesis by (simp del: upt_Suc)
  next
    case False
    then have "?N - k < ?N div 2 + 1" by linarith
    then have "?X ! (?N - k) = dft_bin w frame (?N - k)"
      by (simp del: upt_Suc)
    with False that show ?thesis
      by (simp add: dft_bin_conj_sym)
  qed
  have "(\<Sum>k<?N. (if k \<le> ?N div 2 then ?X ! k else cnj (?X ! (?N - k))) * cis (2 * pi * real k * real m / real ?N))
        = (\<Sum>k<?N. dft_bin w frame k * cis (2 * pi * real k * real m / real ?N))"
    by (intro sum.cong refl) (simp add: herm)
  also have "\<dots> = of_nat ?N * complex_of_real (w ! m * frame ! m)"
    unfolding dft_bin_def by (rule idft_dft [OF assms])
  finally have sum_eq: "(\<Sum>k<?N. (if k \<le> ?N div 2 then ?X ! k else cnj (?X ! (?N - k)))
                          * cis (2 * pi * real k * real m / real ?N))
                     = of_nat ?N * complex_of_real (w ! m * frame ! m)" .
  have "irfft_sample ?X ?N m = Re (of_nat ?N * complex_of_real (w ! m * frame ! m)) / real ?N"
    unfolding irfft_sample_def by (simp only: sum_eq)
  also have "\<dots> = w ! m * frame ! m"
    using assms(1) by simp
  finally show ?thesis .
qed

section \<open>The short-time transform and its inverse\<close>

lemma length_hann_window [simp]: "length (hann_window N) = N"
  by (simp add: hann_window_def)

lemma reflect_pad_nth:
  assumes "reflect_pad p x = Inr xp" and "i < length x"
  shows "xp ! (p + i) = x ! i"
proof -
  from assms(1) have p: "p < length x" and xp: "xp = rev (take p (tl x)) @ x @ take p (tl (rev x))"
    by (auto simp: reflect_pad_def split: if_splits)
  have "length (rev (take p (tl x))) = p"
    using p by simp
  with xp assms(2) show ?thesis
    by (simp add: nth_append)
qed

lemma stft_frames_nth:
  assumes "n_fft \<le> length xp" and "t < length (stft_frames xp)" and "n < n_fft"
  shows "stft_frames xp ! t ! n = xp ! (t * hop_length + n)"
proof -
  have "t \<le> (length xp - n_fft) div hop_length"
    using assms(2) by simp
  then have "t * hop_length \<le> length xp - n_fft"
    by (simp add: hop_length_def n_fft_def; linarith)
  then have "t * hop_length + n < length xp"
    using assms(1,3) by linarith
  moreover have "stft_frames xp ! t = take n_fft (drop (t * hop_length) xp)"
    using assms(2) by (simp add: stft_frames_def del: upt_Suc)
  ultimately show ?thesis
    using assms(3) by simp
qed

lemma istft_explicit:
  assumes "length Y = n_fft div 2 + 1"
  shows "istft Y = Inr (map (\<lambda>j.
           (\<Sum>t<ncols Y. if t * 25 \<le> j \<and> j < t * 25 + 100
              then hann_window 100 ! (j - t * 25) * irfft_sample (map (\<lambda>row. row ! t) Y) 100 (j - t * 25)
              else 0)
           / (\<Sum>t<ncols Y. if t * 25 \<le> j \<and> j < t * 25 + 100 then (hann_window 100 ! (j - t * 25))\<^sup>2 else 0))
         [50..<50 + 25 * (ncols Y - 1)])"
proof -
  have frame: "(if t * 25 \<le> j \<and> j < t * 25 + 100
        then map (\<lambda>n. hann_window 100 ! n * irfft_sample (map (\<lambda>row. row ! t) Y) 100 n) [0..<100] ! (j - t * 25)
        else 0)
      = (if t * 25 \<le> j \<and> j < t * 25 + 100
        then hann_window 100 ! (j - t * 25) * irfft_sample (map (\<lambda>row. row ! t) Y) 100 (j - t * 25)
        else 0)" for t j
  proof (cases "t * 25 \<le> j \<and> j < t * 25 + 100")
    case True
    then have "j - t * 25 < 100" by linarith
    then show ?thesis by simp
  next
    case False
    then show ?thesis by (simp only: if_False simp_thms)
  qed
  show ?thesis
    using assms istft_envelope_ok [of "ncols Y"]
    by (simp add: istft_def Let_def n_fft_def hop_length_def frame del: nth_map_upt)
qed

text \<open>The output of \<^verbatim>\<open>istft\<close> at a sample is the overlap-added windowed frames over the
  envelope; on the frames of a transformed signal every frame contributes the padded
  signal's sample times the squared window.\<close>

lemma overlap_add_stft:
  assumes frames: "\<And>t n. t < nf \<Longrightarrow> n < 100 \<Longrightarrow>
                    irfft_sample (col t) 100 n = hann_window 100 ! n * xp ! (t * 25 + n)"
  shows "(\<Sum>t<nf. if t * 25 \<le> j \<and> j < t * 25 + 100
            then hann_window 100 ! (j - t * 25) * irfft_sample (col t) 100 (j - t * 25) else 0)
         = xp ! j * (\<Sum>t<nf. if t * 25 \<le> j \<and> j < t * 25 + 100 then (hann_window 100 ! (j - t * 25))\<^sup>2 else 0)"
  unfolding sum_distrib_left
proof (intro sum.cong refl)
  fix t assume "t \<in> {..<nf}"
  then have t: "t < nf" by simp
  show "(if t * 25 \<le> j \<and> j < t * 25 + 100
          then hann_window 100 ! (j - t * 25) * irfft_sample (col t) 100 (j - t * 25) else 0)
        = xp ! j * (if t * 25 \<le> j \<and> j < t * 25 + 100 then (hann_window 100 ! (j - t * 25))\<^sup>2 else 0)"
  proof (cases "t * 25 \<le> j \<and> j < t * 25 + 100")
    case True
    then have "j - t * 25 < 100" and "t * 25 + (j - t * 25) = j" by linarith+
    with frames [OF t] True show ?thesis
      by (simp add: power2_eq_square)
  next
    case False
    then show ?thesis by (simp only: if_False simp_thms mult_zero_right)
  qed
qed

section \<open>Round trip\<close>

text \<open>C32. For every signal longer than 50 samples the inverse transform of its
  transform succeeds and returns the signal's first \<open>25 * (T div 25)\<close> samples exactly.\<close>

theorem stft_istft_roundtrip:
  assumes "50 < length x"
  shows "rbind (stft x) istft = Inr (take (25 * (length x div 25)) x)"
proof -
  obtain xp where pad: "reflect_pad 50 x = Inr xp"
    using reflect_pad_Inr [of 50 x] assms by auto
  have lxp: "length xp = length x + 100"
    using length_reflect_pad [OF pad] by simp
  define w where "w = hann_window 100"
  define frames where "frames = stft_frames xp"
  define S where "S = map (\<lambda>k. map (\<lambda>fr. dft_bin w fr k) frames) [0..<51]"
  have stft: "stft x = Inr S"
    using pad by (simp add: stft_def Let_def n_fft_def S_def w_def frames_def)
  have nf: "length frames = 1 + length x div 25"
    by (simp add: frames_def lxp n_fft_def hop_length_def)
  have lenS: "length S = n_fft div 2 + 1"
    by (simp add: S_def n_fft_def)
  have ncS: "ncols S = length frames"
    by (simp add: ncols_nth S_def)
  have irf: "irfft_sample (map (\<lambda>row. row ! t) S) 100 n = w ! n * xp ! (t * 25 + n)"
    if "t < length frames" and "n < 100" for t n
  proof -
    have "map (\<lambda>row. row ! t) S = map (dft_bin w (frames ! t)) [0..<length w div 2 + 1]"
      using that(1) by (simp add: S_def w_def)
    moreover have "frames ! t ! n = xp ! (t * 25 + n)"
      using stft_frames_nth [of xp t n] that lxp by (simp add: frames_def n_fft_def hop_length_def)
    ultimately show ?thesis
      using irfft_sample_dft [of w n "frames ! t"] that(2) by (simp add: w_def)
  qed
  let ?E = "\<lambda>j. \<Sum>t<length frames. if t * 25 \<le> j \<and> j < t * 25 + 100 then (hann_window 100 ! (j - t * 25))\<^sup>2 else 0"
  have "istft S = Inr (map (\<lambda>j. xp ! j * ?E j / ?E j) [50..<50 + 25 * (length frames - 1)])"
    using istft_explicit [OF lenS] overlap_add_stft [of "length frames" "\<lambda>t. map (\<lambda>row. row ! t) S" xp]
      irf by (simp add: ncS w_def)
  also have "\<dots> = Inr (map (\<lambda>j. xp ! j) [50..<50 + 25 * (length frames - 1)])"
  proof -
    have "xp ! j * ?E j / ?E j = xp ! j" if "j \<in> set [50..<50 + 25 * (length frames - 1)]" for j
    proof -
      have "1/4 \<le> ?E j"
        using that by (intro overlap_envelope_bound) simp_all
      then show ?thesis by simp
    qed
    then show ?thesis by simp
  qed
  also have "map (\<lambda>j. xp ! j) [50..<50 + 25 * (length frames - 1)] = take (25 * (length x div 25)) x"
  proof (rule nth_equalityI)
    show "length (map (\<lambda>j. xp ! j) [50..<50 + 25 * (length frames - 1)]) = length (take (25 * (length x div 25)) x)"
      using nf by simp
  next
    fix i assume "i < length (map (\<lambda>j. xp ! j) [50..<50 + 25 * (length frames - 1)])"
    then have i: "i < 25 * (length x div 25)" using nf by simp
    moreover have "25 * (length x div 25) \<le> length x" by simp
    ultimately show "map (\<lambda>j. xp ! j) [50..<50 + 25 * (length frames - 1)] ! i = take (25 * (length x div 25)) x ! i"
      using reflect_pad_nth [OF pad, of i] nf by simp
  qed
  finally show ?thesis
    using stft by simp
qed

theorem stft_istft_roundtrip_witness:
  "50 < length (replicate 60 (0::real)) \<and>
   rbind (stft (replicate 60 0)) istft = Inr (replicate 50 0)"
  using stft_istft_roundtrip [of "replicate 60 0"] by simp

end
