(* ===== verification/Weights.thy ===== *)
theory Weights
  imports Prelude "HOL-Library.AList"
begin

text \<open>
  Weight loading in \<^verbatim>\<open>KModel.__init__\<close> (src/kokoro/model.py, lines 55--63). The
  checkpoint maps an attribute name of the model (\<^verbatim>\<open>bert\<close>, \<^verbatim>\<open>predictor\<close>, ...) to the
  state dict of that submodule. For each entry the code asserts that the attribute
  exists, tries a strict \<^verbatim>\<open>load_state_dict\<close>, and if that raises anything, strips the
  first seven characters of every key (the \<^verbatim>\<open>module.\<close> prefix a \<^verbatim>\<open>DataParallel\<close> wrapper
  adds) and loads again with \<open>strict=False\<close>.

  A tensor is its shape and its flattened data; a submodule is the ordered list of its
  parameters and buffers (its \<^verbatim>\<open>state_dict()\<close>). \<open>load_state_dict\<close> follows
  \<^verbatim>\<open>torch.nn.Module.load_state_dict\<close>: it first copies every entry whose key names a
  parameter of the same shape, then raises if a shape differed or, when strict, if a key
  is missing or unexpected; the copies made before the exception stay in the module,
  which is why the result is the new module together with the outcome. The model's
  attributes are a map from names to submodules or to values that are not modules
  (\<^verbatim>\<open>vocab\<close>, \<^verbatim>\<open>context_length\<close>, methods), which have no \<^verbatim>\<open>load_state_dict\<close>.
\<close>

section \<open>Modules and state dicts\<close>

type_synonym tensor = "nat list \<times> real list"

type_synonym state_dict = "(string \<times> tensor) list"

record nn_module =
  params :: state_dict

datatype attribute = Module nn_module | Value

type_synonym kmodel_attrs = "string \<rightharpoonup> attribute"

definition param_keys :: "nn_module \<Rightarrow> string list" where
  "param_keys m = map fst (params m)"

text \<open>The copies \<^verbatim>\<open>_load_from_state_dict\<close> makes: \<^verbatim>\<open>param.copy_(input_param)\<close> for every
  parameter the dict names with the same shape; a differing shape is reported and the
  parameter kept.\<close>

definition copy_params :: "nn_module \<Rightarrow> state_dict \<Rightarrow> nn_module" where
  "copy_params m sd =
     m\<lparr>params := map (\<lambda>(k, t). (k, case map_of sd k of
                                     None \<Rightarrow> t
                                   | Some t' \<Rightarrow> if fst t' = fst t then t' else t)) (params m)\<rparr>"

text \<open>The keys reported in the error messages: size mismatches always, unexpected and
  missing keys only when strict.\<close>

definition load_errors :: "nn_module \<Rightarrow> state_dict \<Rightarrow> bool \<Rightarrow> string list" where
  "load_errors m sd strict =
     (let mismatched = map fst [(k, t) \<leftarrow> params m.
                                  case map_of sd k of None \<Rightarrow> False | Some t' \<Rightarrow> fst t' \<noteq> fst t];
          unexpected = [k \<leftarrow> map fst sd. k \<notin> set (param_keys m)];
          missing = [k \<leftarrow> param_keys m. k \<notin> set (map fst sd)]
      in (if strict then missing @ unexpected else []) @ mismatched)"

definition load_state_dict :: "nn_module \<Rightarrow> state_dict \<Rightarrow> bool \<Rightarrow> nn_module \<times> unit result" where
  "load_state_dict m sd strict =
     (copy_params m sd,
      if load_errors m sd strict = [] then Inr ()
      else Inl (RuntimeError ''Error(s) in loading state_dict''))"

text \<open>Line 62: \<^verbatim>\<open>{k[7:]: v for k, v in state_dict.items()}\<close>. A key shorter than seven
  characters becomes the empty string; keys that collide keep the first one's position
  and the last one's value, as a dict comprehension does.\<close>

definition strip_prefix :: "state_dict \<Rightarrow> state_dict" where
  "strip_prefix sd = fold (\<lambda>(k, v) acc. AList.update (drop 7 k) v acc) sd []"

text \<open>The key a \<^verbatim>\<open>DataParallel\<close> wrapper gives a parameter.\<close>

definition add_prefix :: "state_dict \<Rightarrow> state_dict" where
  "add_prefix sd = map (\<lambda>(k, v). (''module.'' @ k, v)) sd"

section \<open>The loading loop\<close>

text \<open>Lines 57--63 for one checkpoint entry. If the fallback load raises too, the
  exception leaves \<^verbatim>\<open>__init__\<close>.\<close>

definition load_entry :: "kmodel_attrs \<Rightarrow> string \<times> state_dict \<Rightarrow> kmodel_attrs result" where
  "load_entry km entry =
     (case entry of (key, sd) \<Rightarrow>
       (case km key of
          None \<Rightarrow> Inl (AssertionError key)
        | Some Value \<Rightarrow> Inl (AttributeError ''load_state_dict'')
        | Some (Module m) \<Rightarrow>
            (case load_state_dict m sd True of
               (m1, Inr _) \<Rightarrow> Inr (km(key \<mapsto> Module m1))
             | (m1, Inl _) \<Rightarrow>
                 (case load_state_dict m1 (strip_prefix sd) False of
                    (m2, Inr _) \<Rightarrow> Inr (km(key \<mapsto> Module m2))
                  | (_, Inl e) \<Rightarrow> Inl e))))"

text \<open>Line 56: the entries of \<^verbatim>\<open>torch.load(model)\<close> in order.\<close>

fun load_checkpoint :: "kmodel_attrs \<Rightarrow> (string \<times> state_dict) list \<Rightarrow> kmodel_attrs result" where
  "load_checkpoint km [] = Inr km"
| "load_checkpoint km (e # es) = rbind (load_entry km e) (\<lambda>km'. load_checkpoint km' es)"

text \<open>The attributes \<^verbatim>\<open>__init__\<close> sets before loading (lines 38--53): the five
  submodules, and the vocabulary and context length, which are not modules.\<close>

definition kmodel_attrs_init ::
  "nn_module \<Rightarrow> nn_module \<Rightarrow> nn_module \<Rightarrow> nn_module \<Rightarrow> nn_module \<Rightarrow> kmodel_attrs" where
  "kmodel_attrs_init bert_m bert_encoder_m predictor_m text_encoder_m decoder_m =
     [''vocab'' \<mapsto> Value, ''bert'' \<mapsto> Module bert_m, ''bert_encoder'' \<mapsto> Module bert_encoder_m,
      ''context_length'' \<mapsto> Value, ''predictor'' \<mapsto> Module predictor_m,
      ''text_encoder'' \<mapsto> Module text_encoder_m, ''decoder'' \<mapsto> Module decoder_m]"

text \<open>The shape of an attribute: the keys and shapes of a module's parameters.\<close>

definition attr_shape :: "attribute \<Rightarrow> (string \<times> nat list) list option" where
  "attr_shape a = (case a of Module m \<Rightarrow> Some (map (\<lambda>(k, t). (k, fst t)) (params m)) | Value \<Rightarrow> None)"

text \<open>A submodule with a weight vector of two entries and a scalar bias, for the examples.\<close>

abbreviation toy_module :: nn_module where
  "toy_module \<equiv> \<lparr>params = [(''weight'', ([2], [0, 0])), (''bias'', ([], [0]))]\<rparr>"

section \<open>Copying\<close>

lemma copy_params_keys [simp]: "param_keys (copy_params m sd) = param_keys m"
  by (simp add: copy_params_def param_keys_def case_prod_beta)

lemma copy_params_shape [simp]:
  "map (\<lambda>(k, t). (k, fst t)) (params (copy_params m sd)) = map (\<lambda>(k, t). (k, fst t)) (params m)"
  by (auto simp: copy_params_def split: option.split)

lemma copy_params_unmatched:
  assumes "\<forall>k\<in>set (map fst sd). k \<notin> set (param_keys m)"
  shows "copy_params m sd = m"
proof -
  have none: "map_of sd k = None" if "(k, t) \<in> set (params m)" for k t
    using assms that by (force simp: map_of_eq_None_iff param_keys_def)
  have "map (\<lambda>(k, t). (k, case map_of sd k of None \<Rightarrow> t
             | Some t' \<Rightarrow> if fst t' = fst t then t' else t)) (params m) = params m"
    by (rule map_idI) (auto dest: none)
  then show ?thesis
    by (simp add: copy_params_def)
qed

lemma load_errors_unmatched:
  assumes "\<forall>k\<in>set (map fst sd). k \<notin> set (param_keys m)"
  shows "load_errors m sd False = []"
proof -
  have "\<not> (case map_of sd k of None \<Rightarrow> False | Some t' \<Rightarrow> fst t' \<noteq> fst t)"
    if "(k, t) \<in> set (params m)" for k t
  proof -
    have "map_of sd k = None"
      using assms that by (force simp: map_of_eq_None_iff param_keys_def)
    then show ?thesis by simp
  qed
  then show ?thesis
    by (auto simp: load_errors_def filter_empty_conv)
qed

lemma load_errors_strict_nil:
  "load_errors m sd True = [] \<Longrightarrow> load_errors m sd False = []"
  by (simp add: load_errors_def Let_def)

lemma load_state_dict_fst [simp]: "fst (load_state_dict m sd strict) = copy_params m sd"
  by (simp add: load_state_dict_def)

section \<open>Stripping and adding the prefix\<close>

lemma update_fresh:
  "k \<notin> fst ` set al \<Longrightarrow> AList.update k v al = al @ [(k, v)]"
  by (induction al) auto

lemma update_values: "snd ` set (AList.update k v al) \<subseteq> insert v (snd ` set al)"
  by (induction al) auto

lemma strip_prefix_fold_keys:
  "fst ` set (fold (\<lambda>(k, v) acc. AList.update (drop 7 k) v acc) sd acc)
     = fst ` set acc \<union> drop 7 ` fst ` set sd"
proof (induction sd arbitrary: acc)
  case (Cons p sd)
  then show ?case
    by (cases p) (simp add: dom_update insert_commute)
qed simp

lemma strip_prefix_keys [simp]: "fst ` set (strip_prefix sd) = drop 7 ` fst ` set sd"
  by (simp add: strip_prefix_def strip_prefix_fold_keys)

lemma strip_prefix_fold_values:
  "snd ` set (fold (\<lambda>(k, v) acc. AList.update (drop 7 k) v acc) sd acc)
     \<subseteq> snd ` set acc \<union> snd ` set sd"
proof (induction sd arbitrary: acc)
  case (Cons p sd)
  obtain a b where p: "p = (a, b)"
    by (cases p)
  let ?acc = "AList.update (drop 7 a) b acc"
  have "snd ` set (fold (\<lambda>(k, v) acc. AList.update (drop 7 k) v acc) sd ?acc)
          \<subseteq> snd ` set ?acc \<union> snd ` set sd"
    by (rule Cons.IH)
  also have "\<dots> \<subseteq> insert b (snd ` set acc) \<union> snd ` set sd"
    by (rule Un_mono [OF update_values order_refl])
  finally show ?case
    by (auto simp: p)
qed simp

lemma strip_prefix_values: "snd ` set (strip_prefix sd) \<subseteq> snd ` set sd"
  using strip_prefix_fold_values [of sd "[]"] by (simp add: strip_prefix_def)

lemma strip_add_prefix_fold:
  "distinct (map fst (acc @ sd)) \<Longrightarrow>
   fold (\<lambda>(k, v) acc. AList.update (drop 7 k) v acc) (add_prefix sd) acc = acc @ sd"
proof (induction sd arbitrary: acc)
  case (Cons p sd)
  then have "AList.update (fst p) (snd p) acc = acc @ [p]"
    by (simp add: update_fresh)
  with Cons.IH [of "acc @ [p]"] Cons.prems show ?case
    by (cases p) (simp add: add_prefix_def)
qed (simp add: add_prefix_def)

lemma add_prefix_keys: "set (map fst (add_prefix sd)) = (\<lambda>k. ''module.'' @ k) ` set (map fst sd)"
  by (force simp: add_prefix_def)

section \<open>One checkpoint entry\<close>

lemma load_entry_strict:
  assumes "km key = Some (Module m)" and "load_errors m sd True = []"
  shows "load_entry km (key, sd) = Inr (km(key \<mapsto> Module (copy_params m sd)))"
  using assms by (simp add: load_entry_def load_state_dict_def)

lemmas loading_eval = load_entry_def load_state_dict_def load_errors_def copy_params_def
  param_keys_def kmodel_attrs_init_def strip_prefix_def add_prefix_def attr_shape_def

lemma load_entry_Inr:
  assumes "load_entry km (key, sd) = Inr km'"
  obtains m sd' where "km key = Some (Module m)"
    and "km' = km(key \<mapsto> Module (copy_params (copy_params m sd) sd'))"
    and "snd ` set sd' \<subseteq> snd ` set sd"
proof -
  obtain m where km: "km key = Some (Module m)"
    using assms by (auto simp: load_entry_def split: option.splits attribute.splits)
  show ?thesis
  proof (cases "load_errors m sd True = []")
    case True
    then have "km' = km(key \<mapsto> Module (copy_params (copy_params m sd) []))"
      using assms km by (simp add: load_entry_def load_state_dict_def copy_params_unmatched)
    then show ?thesis
      by (rule that [OF km]) simp
  next
    case False
    then have "km' = km(key \<mapsto> Module (copy_params (copy_params m sd) (strip_prefix sd)))"
      using assms km by (simp add: load_entry_def load_state_dict_def split: if_splits)
    then show ?thesis
      by (rule that [OF km]) (rule strip_prefix_values)
  qed
qed

lemma load_entry_other:
  "load_entry km (key, sd) = Inr km' \<Longrightarrow> k \<noteq> key \<Longrightarrow> km' k = km k"
  by (erule load_entry_Inr) simp

lemma load_entry_keeps_module:
  "load_entry km (key, sd) = Inr km' \<Longrightarrow> \<exists>m. km key = Some (Module m)"
  by (erule load_entry_Inr) simp

lemma load_entry_shape:
  "load_entry km (key, sd) = Inr km' \<Longrightarrow> map_option attr_shape (km' k) = map_option attr_shape (km k)"
  by (erule load_entry_Inr) (simp add: attr_shape_def)

lemma load_errors_add_prefix:
  assumes "sd \<noteq> []" and "\<forall>k\<in>set (param_keys m). take 7 k \<noteq> ''module.''"
  shows "load_errors m (add_prefix sd) True \<noteq> []"
proof -
  obtain k v where "(k, v) \<in> set sd"
    using assms(1) by (cases sd) auto
  then have "''module.'' @ k \<in> set (map fst (add_prefix sd))"
    by (force simp: add_prefix_def)
  moreover have "''module.'' @ k \<notin> set (param_keys m)"
    using assms(2) by force
  ultimately have "[k \<leftarrow> map fst (add_prefix sd). k \<notin> set (param_keys m)] \<noteq> []"
    by (simp only: filter_empty_conv) blast
  then show ?thesis
    by (simp add: load_errors_def Let_def)
qed

lemma add_prefix_unmatched:
  assumes "\<forall>k\<in>set (param_keys m). take 7 k \<noteq> ''module.''"
  shows "\<forall>k\<in>set (map fst (add_prefix sd)). k \<notin> set (param_keys m)"
  using assms by (force simp: add_prefix_def)

lemma load_checkpoint_attr_shape:
  "load_checkpoint km ck = Inr km' \<Longrightarrow> map_option attr_shape (km' k) = map_option attr_shape (km k)"
proof (induction ck arbitrary: km)
  case (Cons e es)
  then obtain km1 where e: "load_entry km e = Inr km1" and es: "load_checkpoint km1 es = Inr km'"
    by (auto simp: rbind_eq_Inr)
  from e have "map_option attr_shape (km1 k) = map_option attr_shape (km k)"
    by (cases e) (simp add: load_entry_shape)
  with Cons.IH [OF es] show ?case by simp
qed simp

section \<open>Properties of weight loading\<close>

text \<open>C19. Loading a checkpoint never changes which attributes are submodules, nor the
  keys and shapes of any submodule's parameters.\<close>

theorem load_checkpoint_preserves_shapes:
  "load_checkpoint km ck = Inr km' \<Longrightarrow> map_option attr_shape (km' k) = map_option attr_shape (km k)"
  by (rule load_checkpoint_attr_shape)

theorem load_checkpoint_preserves_shapes_witness:
  "load_checkpoint (kmodel_attrs_init toy_module toy_module toy_module toy_module toy_module)
     [(''bert'', [(''bias'', ([], [1])), (''weight'', ([2], [3, 4]))])]
   = Inr ((kmodel_attrs_init toy_module toy_module toy_module toy_module toy_module)
            (''bert'' \<mapsto> Module \<lparr>params = [(''weight'', ([2], [3, 4])), (''bias'', ([], [1]))]\<rparr>)) \<and>
   map_option attr_shape (Some (Module \<lparr>params = [(''weight'', ([2], [3, 4])), (''bias'', ([], [1]))]\<rparr>))
   = map_option attr_shape (kmodel_attrs_init toy_module toy_module toy_module toy_module toy_module ''bert'')"
proof -
  have ld: "load_checkpoint (kmodel_attrs_init toy_module toy_module toy_module toy_module toy_module)
     [(''bert'', [(''bias'', ([], [1])), (''weight'', ([2], [3, 4]))])]
   = Inr ((kmodel_attrs_init toy_module toy_module toy_module toy_module toy_module)
            (''bert'' \<mapsto> Module \<lparr>params = [(''weight'', ([2], [3, 4])), (''bias'', ([], [1]))]\<rparr>))"
    by (simp add: loading_eval)
  show ?thesis
    using load_checkpoint_preserves_shapes [OF ld, of "''bert''"] ld by simp
qed

text \<open>C20. A state dict that names exactly the submodule's parameters, each with its
  shape, is loaded by the strict attempt: every parameter takes the dict's value.\<close>

theorem load_entry_exact:
  assumes "km key = Some (Module m)" and "set (map fst sd) = set (param_keys m)"
    and "\<forall>(k, t)\<in>set (params m). map_option fst (map_of sd k) = Some (fst t)"
  shows "load_entry km (key, sd)
         = Inr (km(key \<mapsto> Module (m\<lparr>params := map (\<lambda>(k, t). (k, the (map_of sd k))) (params m)\<rparr>)))"
proof -
  have "load_errors m sd True = []"
    using assms(2,3) by (force simp: load_errors_def Let_def filter_empty_conv param_keys_def split: option.split)
  moreover have "copy_params m sd = m\<lparr>params := map (\<lambda>(k, t). (k, the (map_of sd k))) (params m)\<rparr>"
    unfolding copy_params_def
  proof (intro arg_cong [where f = "\<lambda>ps. m\<lparr>params := ps\<rparr>"] map_cong refl)
    fix p assume "p \<in> set (params m)"
    with assms(3) show "(case p of (k, t) \<Rightarrow> (k, case map_of sd k of None \<Rightarrow> t
                           | Some t' \<Rightarrow> if fst t' = fst t then t' else t))
                     = (case p of (k, t) \<Rightarrow> (k, the (map_of sd k)))"
      by (cases p) (auto split: option.split)
  qed
  ultimately show ?thesis
    using load_entry_strict [of km key m sd] assms(1) by simp
qed

theorem load_entry_exact_witness:
  "kmodel_attrs_init toy_module toy_module toy_module toy_module toy_module ''bert'' = Some (Module toy_module) \<and>
   set (map fst [(''bias'', ([], [1])), (''weight'', ([2], [3, 4::real]))]) = set (param_keys toy_module) \<and>
   load_entry (kmodel_attrs_init toy_module toy_module toy_module toy_module toy_module)
     (''bert'', [(''bias'', ([], [1])), (''weight'', ([2], [3, 4]))])
   = Inr ((kmodel_attrs_init toy_module toy_module toy_module toy_module toy_module)
            (''bert'' \<mapsto> Module \<lparr>params = [(''weight'', ([2], [3, 4])), (''bias'', ([], [1]))]\<rparr>))"
proof -
  have km: "kmodel_attrs_init toy_module toy_module toy_module toy_module toy_module ''bert'' = Some (Module toy_module)"
    by (simp add: loading_eval)
  have keys: "set (map fst [(''bias'', ([], [1])), (''weight'', ([2], [3, 4::real]))]) = set (param_keys toy_module)"
    by (auto simp: loading_eval)
  have shapes: "\<forall>(k, t)\<in>set (params toy_module).
      map_option fst (map_of [(''bias'', ([], [1])), (''weight'', ([2], [3, 4::real]))] k) = Some (fst t)"
    by simp
  show ?thesis
    using load_entry_exact [of "kmodel_attrs_init toy_module toy_module toy_module toy_module toy_module" "''bert''" toy_module "[(''bias'', ([], [1])), (''weight'', ([2], [3, 4]))]"]
      km keys shapes by simp
qed

text \<open>C21. The bare \<^verbatim>\<open>except\<close> swallows every failure of the strict attempt: whenever
  no key with its first seven characters dropped names a parameter, loading a submodule
  succeeds, whatever keys are missing or unexpected and whatever shapes differ, and
  amounts to copying just the entries of matching key and shape; everything else is
  dropped without an error.\<close>

theorem load_entry_swallows_errors:
  assumes "km key = Some (Module m)"
    and "\<forall>k\<in>set (map fst sd). drop 7 k \<notin> set (param_keys m)"
  shows "load_entry km (key, sd) = Inr (km(key \<mapsto> Module (copy_params m sd)))"
proof -
  from assms(2) have "\<forall>k\<in>drop 7 ` fst ` set sd. k \<notin> set (param_keys m)"
    by auto
  then have unm: "\<forall>k\<in>set (map fst (strip_prefix sd)). k \<notin> set (param_keys (copy_params m sd))"
    by simp
  show ?thesis
    using assms(1) copy_params_unmatched [OF unm] load_errors_unmatched [OF unm]
    by (simp add: load_entry_def load_state_dict_def)
qed


theorem load_entry_swallows_errors_witness:
  "kmodel_attrs_init toy_module toy_module toy_module toy_module toy_module ''bert'' = Some (Module toy_module) \<and>
   load_entry (kmodel_attrs_init toy_module toy_module toy_module toy_module toy_module)
     (''bert'', [(''weight'', ([3], [1, 2, 3])), (''extra'', ([], [5]))])
   = Inr (kmodel_attrs_init toy_module toy_module toy_module toy_module toy_module)"
proof -
  have km: "kmodel_attrs_init toy_module toy_module toy_module toy_module toy_module ''bert'' = Some (Module toy_module)"
    by (simp add: loading_eval)
  have keys: "\<forall>k\<in>set (map fst [(''weight'', ([3], [1, 2, 3])), (''extra'', ([], [5::real]))]).
      drop 7 k \<notin> set (param_keys toy_module)"
    by (simp add: loading_eval)
  have cp: "copy_params toy_module [(''weight'', ([3], [1, 2, 3])), (''extra'', ([], [5]))] = toy_module"
    by (simp add: loading_eval)
  have "(kmodel_attrs_init toy_module toy_module toy_module toy_module toy_module)(''bert'' \<mapsto> Module toy_module)
        = kmodel_attrs_init toy_module toy_module toy_module toy_module toy_module"
    using km by (rule map_upd_triv)
  then show ?thesis
    using load_entry_swallows_errors [of "kmodel_attrs_init toy_module toy_module toy_module toy_module toy_module" "''bert''" toy_module
        "[(''weight'', ([3], [1, 2, 3])), (''extra'', ([], [5]))]"] km keys cp by simp
qed

text \<open>C22. Stripping the first seven characters of every key undoes the \<^verbatim>\<open>module.\<close>
  prefix of a \<^verbatim>\<open>DataParallel\<close> state dict, order and values included.\<close>

theorem strip_prefix_add_prefix:
  "distinct (map fst sd) \<Longrightarrow> strip_prefix (add_prefix sd) = sd"
  using strip_add_prefix_fold [of "[]" sd] by (simp add: strip_prefix_def)

theorem strip_prefix_add_prefix_witness:
  "distinct (map fst [(''weight'', ([2], [3, 4])), (''bias'', ([], [1::real]))]) \<and>
   strip_prefix (add_prefix [(''weight'', ([2], [3, 4])), (''bias'', ([], [1]))])
   = [(''weight'', ([2], [3, 4])), (''bias'', ([], [1]))]"
  using strip_prefix_add_prefix [of "[(''weight'', ([2], [3, 4])), (''bias'', ([], [1]))]"] by simp

text \<open>C23. A checkpoint saved from a \<^verbatim>\<open>DataParallel\<close>-wrapped submodule loads as the
  unwrapped one: for a state dict the strict load accepts, prefixing its keys with
  \<^verbatim>\<open>module.\<close> changes nothing, provided no parameter name itself starts with it.\<close>

theorem load_entry_data_parallel:
  assumes km: "km key = Some (Module m)" and dist: "distinct (map fst sd)"
    and names: "\<forall>k\<in>set (param_keys m). take 7 k \<noteq> ''module.''"
    and ok: "load_errors m sd True = []"
  shows "load_entry km (key, add_prefix sd) = load_entry km (key, sd)"
proof (cases "sd = []")
  case True
  then show ?thesis by (simp add: add_prefix_def)
next
  case False
  have strip: "strip_prefix (add_prefix sd) = sd"
    using strip_add_prefix_fold [of "[]" sd] dist by (simp add: strip_prefix_def)
  have "copy_params m (add_prefix sd) = m"
    by (rule copy_params_unmatched [OF add_prefix_unmatched [OF names]])
  with km strip load_errors_add_prefix [OF False names] load_errors_strict_nil [OF ok]
  have "load_entry km (key, add_prefix sd) = Inr (km(key \<mapsto> Module (copy_params m sd)))"
    by (simp add: load_entry_def load_state_dict_def)
  with load_entry_strict [of km key m sd] km ok show ?thesis
    by simp
qed

theorem load_entry_data_parallel_witness:
  "kmodel_attrs_init toy_module toy_module toy_module toy_module toy_module ''decoder'' = Some (Module toy_module) \<and>
   distinct (map fst [(''bias'', ([], [1::real])), (''weight'', ([2], [3, 4]))]) \<and>
   load_errors toy_module [(''bias'', ([], [1])), (''weight'', ([2], [3, 4]))] True = [] \<and>
   load_entry (kmodel_attrs_init toy_module toy_module toy_module toy_module toy_module)
     (''decoder'', add_prefix [(''bias'', ([], [1])), (''weight'', ([2], [3, 4]))])
   = load_entry (kmodel_attrs_init toy_module toy_module toy_module toy_module toy_module)
     (''decoder'', [(''bias'', ([], [1])), (''weight'', ([2], [3, 4]))])"
proof -
  have km: "kmodel_attrs_init toy_module toy_module toy_module toy_module toy_module ''decoder'' = Some (Module toy_module)"
    by (simp add: loading_eval)
  have d: "distinct (map fst [(''bias'', ([], [1::real])), (''weight'', ([2], [3, 4]))])"
    by simp
  have n: "\<forall>k\<in>set (param_keys toy_module). take 7 k \<noteq> ''module.''"
    by (simp add: loading_eval)
  have ok: "load_errors toy_module [(''bias'', ([], [1])), (''weight'', ([2], [3, 4]))] True = []"
    by (simp add: loading_eval)
  show ?thesis
    using load_entry_data_parallel [of "kmodel_attrs_init toy_module toy_module toy_module toy_module toy_module" "''decoder''" toy_module
        "[(''bias'', ([], [1])), (''weight'', ([2], [3, 4]))]"] km d n ok by simp
qed

text \<open>C24. The code checks that every key of the checkpoint is an attribute, but not that
  every submodule is in the checkpoint. A checkpoint with one entry per named submodule,
  each a state dict that loads strictly into it, loads without an error whichever
  submodules it leaves out: the named submodules get the copied weights, and every
  submodule the checkpoint leaves out keeps its freshly initialised weights.\<close>

theorem load_checkpoint_missing_submodule:
  assumes "distinct (map fst ck)"
    and "\<forall>(k, sd)\<in>set ck. \<exists>m. km k = Some (Module m) \<and> load_errors m sd True = []"
  shows "\<exists>km'. load_checkpoint km ck = Inr km' \<and>
           (\<forall>key. key \<notin> fst ` set ck \<longrightarrow> km' key = km key) \<and>
           (\<forall>(k, sd)\<in>set ck. \<exists>m. km k = Some (Module m) \<and> km' k = Some (Module (copy_params m sd)))"
  using assms
proof (induction ck arbitrary: km)
  case Nil
  then show ?case by simp
next
  case (Cons e es)
  obtain k sd where ek: "e = (k, sd)"
    by (cases e)
  obtain m where m: "km k = Some (Module m)" and ok: "load_errors m sd True = []"
    using Cons.prems(2) ek by auto
  let ?km1 = "km(k \<mapsto> Module (copy_params m sd))"
  have k_es: "k \<notin> fst ` set es"
    using Cons.prems(1) ek by auto
  have "\<forall>(k', sd')\<in>set es. \<exists>m'. ?km1 k' = Some (Module m') \<and> load_errors m' sd' True = []"
  proof (intro ballI, clarify)
    fix k' sd'
    assume in_es: "(k', sd') \<in> set es"
    then have "k' \<noteq> k"
      using k_es by force
    with in_es show "\<exists>m'. ?km1 k' = Some (Module m') \<and> load_errors m' sd' True = []"
      using Cons.prems(2) by auto
  qed
  moreover have "distinct (map fst es)"
    using Cons.prems(1) by simp
  ultimately obtain km' where es: "load_checkpoint ?km1 es = Inr km'"
    and keep: "\<forall>key. key \<notin> fst ` set es \<longrightarrow> km' key = ?km1 key"
    and named: "\<forall>(k', sd')\<in>set es. \<exists>m'. ?km1 k' = Some (Module m') \<and> km' k' = Some (Module (copy_params m' sd'))"
    using Cons.IH [of ?km1] by blast
  have named': "\<exists>m'. km k' = Some (Module m') \<and> km' k' = Some (Module (copy_params m' sd'))"
    if "(k', sd') \<in> set es" for k' sd'
  proof -
    have "k' \<noteq> k"
      using that k_es by force
    then show ?thesis
      using named that by fastforce
  qed
  have "load_checkpoint km (e # es) = Inr km'"
    using ek m ok es by (simp add: load_entry_strict)
  moreover have "km' k = Some (Module (copy_params m sd))"
    using keep k_es by simp
  ultimately show ?case
    using keep named' ek m by auto
qed

theorem load_checkpoint_missing_submodule_witness:
  "distinct (map fst [(''bert'', [(''bias'', ([], [1])), (''weight'', ([2::nat], [3, 4::real]))])]) \<and>
   load_errors toy_module [(''bias'', ([], [1])), (''weight'', ([2], [3, 4]))] True = [] \<and>
   load_checkpoint (kmodel_attrs_init toy_module toy_module toy_module toy_module toy_module)
     [(''bert'', [(''bias'', ([], [1])), (''weight'', ([2], [3, 4]))])]
   = Inr ((kmodel_attrs_init toy_module toy_module toy_module toy_module toy_module)
       (''bert'' \<mapsto> Module (copy_params toy_module [(''bias'', ([], [1])), (''weight'', ([2], [3, 4]))]))) \<and>
   ((kmodel_attrs_init toy_module toy_module toy_module toy_module toy_module)
       (''bert'' \<mapsto> Module (copy_params toy_module [(''bias'', ([], [1])), (''weight'', ([2], [3, 4]))]))) ''decoder''
   = kmodel_attrs_init toy_module toy_module toy_module toy_module toy_module ''decoder''"
proof -
  let ?km = "kmodel_attrs_init toy_module toy_module toy_module toy_module toy_module"
  let ?sd = "[(''bias'', ([], [1])), (''weight'', ([2::nat], [3, 4::real]))]"
  have d: "distinct (map fst [(''bert'', ?sd)])"
    by simp
  have ok: "load_errors toy_module ?sd True = []"
    by (simp add: loading_eval)
  have h: "\<forall>(k, sd)\<in>set [(''bert'', ?sd)]. \<exists>m. ?km k = Some (Module m) \<and> load_errors m sd True = []"
    using ok by (simp add: kmodel_attrs_init_def)
  obtain km' where ld: "load_checkpoint ?km [(''bert'', ?sd)] = Inr km'"
    and keep: "\<forall>key. key \<notin> fst ` set [(''bert'', ?sd)] \<longrightarrow> km' key = ?km key"
    and named: "\<forall>(k, sd)\<in>set [(''bert'', ?sd)]. \<exists>m. ?km k = Some (Module m) \<and> km' k = Some (Module (copy_params m sd))"
    using load_checkpoint_missing_submodule [OF d h] by blast
  have "km' = ?km(''bert'' \<mapsto> Module (copy_params toy_module ?sd))"
  proof
    fix key
    show "km' key = (?km(''bert'' \<mapsto> Module (copy_params toy_module ?sd))) key"
      using keep named by (cases "key = ''bert''") (auto simp: kmodel_attrs_init_def)
  qed
  then show ?thesis
    using d ok ld keep by simp
qed

text \<open>C25. A checkpoint loads only if each of its keys names a submodule of the model: a
  key that is no attribute fails the assertion, and one that names a value other than a
  module (\<^verbatim>\<open>vocab\<close>, say) raises \<^verbatim>\<open>AttributeError\<close> in the fallback.\<close>

theorem load_checkpoint_keys_are_modules:
  "load_checkpoint km ck = Inr km' \<Longrightarrow> list_all (\<lambda>(k, _). \<exists>m. km k = Some (Module m)) ck"
proof (induction ck arbitrary: km)
  case (Cons e es)
  then obtain km1 where e: "load_entry km e = Inr km1" and es: "load_checkpoint km1 es = Inr km'"
    by (auto simp: rbind_eq_Inr)
  obtain key sd where ek: "e = (key, sd)"
    by (cases e)
  have head: "\<exists>m. km key = Some (Module m)"
    using e ek by (simp add: load_entry_keeps_module)
  have "\<exists>m. km k = Some (Module m)" if "\<exists>m. km1 k = Some (Module m)" for k
    using that head e ek by (cases "k = key") (auto dest: load_entry_other)
  with Cons.IH [OF es] head ek show ?case
    by (auto simp: list_all_iff)
qed simp

theorem load_checkpoint_keys_are_modules_witness:
  "load_checkpoint (kmodel_attrs_init toy_module toy_module toy_module toy_module toy_module) [(''predictor'', [(''bias'', ([], [1])), (''weight'', ([2], [3, 4]))])]
   = Inr ((kmodel_attrs_init toy_module toy_module toy_module toy_module toy_module)(''predictor'' \<mapsto> Module \<lparr>params = [(''weight'', ([2], [3, 4])), (''bias'', ([], [1]))]\<rparr>)) \<and>
   list_all (\<lambda>(k, _). \<exists>m. kmodel_attrs_init toy_module toy_module toy_module toy_module toy_module k = Some (Module m))
     [(''predictor'', [(''bias'', ([], [1])), (''weight'', ([2], [3, 4::real]))])] \<and>
   load_checkpoint (kmodel_attrs_init toy_module toy_module toy_module toy_module toy_module) [(''vocab'', [])] = Inl (AttributeError ''load_state_dict'') \<and>
   load_checkpoint (kmodel_attrs_init toy_module toy_module toy_module toy_module toy_module) [(''speaker'', [])] = Inl (AssertionError ''speaker'')"
proof -
  have ld: "load_checkpoint (kmodel_attrs_init toy_module toy_module toy_module toy_module toy_module) [(''predictor'', [(''bias'', ([], [1])), (''weight'', ([2], [3, 4]))])]
   = Inr ((kmodel_attrs_init toy_module toy_module toy_module toy_module toy_module)(''predictor'' \<mapsto> Module \<lparr>params = [(''weight'', ([2], [3, 4])), (''bias'', ([], [1]))]\<rparr>))"
    by (simp add: loading_eval)
  have "load_checkpoint (kmodel_attrs_init toy_module toy_module toy_module toy_module toy_module) [(''vocab'', [])] = Inl (AttributeError ''load_state_dict'')"
    and "load_checkpoint (kmodel_attrs_init toy_module toy_module toy_module toy_module toy_module) [(''speaker'', [])] = Inl (AssertionError ''speaker'')"
    by (simp_all add: loading_eval)
  then show ?thesis
    using load_checkpoint_keys_are_modules [OF ld] ld by simp
qed


end
