(* ===== verification/Export.thy ===== *)
theory Export
  imports Pipeline Spectral
begin

text \<open>
  The export script src/export.py around the model: the wrapper \<^verbatim>\<open>Model\<close> (lines
  10--26) whose \<^verbatim>\<open>forward\<close> is \<^verbatim>\<open>KModel.inference\<close>; \<^verbatim>\<open>export_onnx\<close> (lines 28--56),
  which traces it on example inputs and fixes every axis of the graph's inputs except
  the ones named in \<^verbatim>\<open>dynamic_axes\<close>; \<^verbatim>\<open>load_sample\<close> (lines 79--96), which builds real
  inputs from a phoneme sequence and a voice pack; and the two checks \<^verbatim>\<open>check_model\<close>
  (lines 136--147), which runs the PyTorch model, and \<^verbatim>\<open>inference_onnx\<close> (lines
  114--134), which runs the exported graph in onnxruntime; both post-process the batch
  and play its first row. The command line (lines 174--179) selects one of the three.

  The exported graph is a function of the three inputs; onnxruntime first checks the
  names, element types and fixed dimensions of the feeds against the graph's inputs and
  raises \<^verbatim>\<open>INVALID_ARGUMENT\<close> otherwise. A voice pack entry is a one-row tensor of
  shape (1, 256), written as its row. The playback through \<^verbatim>\<open>sounddevice\<close> is not
  modelled: the checks return the waveform they would play.
\<close>

section \<open>Signatures of the exported graph\<close>

datatype dtype = Int64 | Int32 | Float32

datatype dim = Fixed nat | Dynamic string

type_synonym signature = "(string \<times> dtype \<times> dim list) list"

text \<open>The \<^verbatim>\<open>dynamic_axes\<close> argument of line 45.\<close>

definition dynamic_axes :: "string \<rightharpoonup> (nat \<rightharpoonup> string)" where
  "dynamic_axes = [''input_ids'' \<mapsto> [1 \<mapsto> ''input_ids_len''], ''audio'' \<mapsto> [1 \<mapsto> ''num_samples'']]"

text \<open>The dimensions \<^verbatim>\<open>torch.onnx.export\<close> records for an input traced at an example of
  the given shape: the example's size on every axis that is not dynamic.\<close>

definition traced_dims :: "string \<Rightarrow> nat list \<Rightarrow> dim list" where
  "traced_dims name shape =
     map (\<lambda>(ax, n). case dynamic_axes name of
                     None \<Rightarrow> Fixed n
                   | Some axes \<Rightarrow> (case axes ax of None \<Rightarrow> Fixed n | Some s \<Rightarrow> Dynamic s))
       (zip [0..<length shape] shape)"

text \<open>Lines 31--50: the inputs of the graph traced at \<^verbatim>\<open>[[0, *input_ids, 0]]\<close> for the
  random ids \<open>example_ids\<close>, a \<^verbatim>\<open>randn(1, 256)\<close> style and an \<^verbatim>\<open>int\<close> speed of shape (1).\<close>

definition export_signature :: "int list \<Rightarrow> signature" where
  "export_signature example_ids =
     [(''input_ids'', Int64, traced_dims ''input_ids'' [1, length (wrap_ids example_ids)]),
      (''style'', Float32, traced_dims ''style'' [1, 256]),
      (''speed'', Int32, traced_dims ''speed'' [1])]"

section \<open>The onnxruntime session\<close>

definition dims_match :: "dim list \<Rightarrow> nat list \<Rightarrow> bool" where
  "dims_match dims shape \<longleftrightarrow>
     list_all2 (\<lambda>d n. case d of Fixed m \<Rightarrow> m = n | Dynamic _ \<Rightarrow> True) dims shape"

text \<open>The validation of \<^verbatim>\<open>InferenceSession.run\<close>: every feed names an input, and every
  input is fed with its element type, its rank and its fixed dimensions.\<close>

definition ort_accepts :: "signature \<Rightarrow> (string \<times> dtype \<times> nat list) list \<Rightarrow> bool" where
  "ort_accepts sig feeds \<longleftrightarrow>
     list_all (\<lambda>(name, _). name \<in> set (map fst sig)) feeds \<and>
     list_all (\<lambda>(name, dt, dims). case map_of feeds name of
                                   None \<Rightarrow> False
                                 | Some (dt', shape) \<Rightarrow> dt' = dt \<and> dims_match dims shape) sig"

type_synonym onnx_graph = "int list \<Rightarrow> real list \<Rightarrow> int \<Rightarrow> real matrix result"

definition ort_run :: "signature \<Rightarrow> onnx_graph \<Rightarrow> (string \<times> dtype \<times> nat list) list \<Rightarrow>
    int list \<Rightarrow> real list \<Rightarrow> int \<Rightarrow> real matrix result" where
  "ort_run sig graph feeds input_ids style speed =
     (if ort_accepts sig feeds then graph input_ids style speed
      else Inl (RuntimeError ''INVALID_ARGUMENT''))"

text \<open>Lines 120--124: the feeds built from the sample. Their dtypes are those of the
  tensors \<^verbatim>\<open>load_sample\<close> builds: \<^verbatim>\<open>input_ids\<close> a \<^verbatim>\<open>torch.LongTensor\<close> batch of one row
  (line 72), the style a row of the float32 voice pack (line 77) and the speed
  \<^verbatim>\<open>torch.IntTensor([1])\<close> (line 94); \<^verbatim>\<open>.numpy()\<close> keeps the dtype.\<close>

definition feeds_of :: "int list \<Rightarrow> real list \<Rightarrow> (string \<times> dtype \<times> nat list) list" where
  "feeds_of input_ids style =
     [(''input_ids'', Int64, [1, length input_ids]), (''style'', Float32, [1, length style]),
      (''speed'', Int32, [1])]"

section \<open>The script\<close>

text \<open>\<^verbatim>\<open>Model.forward\<close>, lines 19--26.\<close>

definition model_forward :: "backend \<Rightarrow> int list \<Rightarrow> real list \<Rightarrow> int \<Rightarrow> real matrix result" where
  "model_forward m input_ids style speed = kmodel_inference m input_ids style speed"

text \<open>\<^verbatim>\<open>load_sample\<close>, lines 79--96, for the English pipeline \<^verbatim>\<open>lang_code='a'\<close>: the
  chunks are what its tokenizer yields for the sample text, the pack is the voice.\<close>

definition load_sample ::
  "vocab \<Rightarrow> (string \<times> string \<times> 'tk) list \<Rightarrow> real list list \<Rightarrow> (int list \<times> real list \<times> int) result" where
  "load_sample vocab en_chunks pack =
     rbind (load_input_ids vocab ''a'' en_chunks []) (\<lambda>(phonemes, input_ids).
     rbind (load_voice pack phonemes) (\<lambda>style.
     Inr (input_ids, style, 1)))"

text \<open>\<^verbatim>\<open>check_model\<close>, lines 136--147: the waveform \<^verbatim>\<open>output[0]\<close> it plays.\<close>

definition check_model ::
  "backend \<Rightarrow> vocab \<Rightarrow> (string \<times> string \<times> 'tk) list \<Rightarrow> real list list \<Rightarrow> real list result" where
  "check_model m vocab en_chunks pack =
     rbind (load_sample vocab en_chunks pack) (\<lambda>(input_ids, style, speed).
     rbind (model_forward m input_ids style speed) (\<lambda>output.
     rbind (post_process (Batch output)) (\<lambda>output.
     py_index output 0)))"

text \<open>\<^verbatim>\<open>inference_onnx\<close>, lines 114--134, with the session of the graph exported with
  signature \<open>sig\<close>.\<close>

definition inference_onnx ::
  "signature \<Rightarrow> onnx_graph \<Rightarrow> vocab \<Rightarrow> (string \<times> string \<times> 'tk) list \<Rightarrow> real list list \<Rightarrow> real list result" where
  "inference_onnx sig graph vocab en_chunks pack =
     rbind (load_sample vocab en_chunks pack) (\<lambda>(input_ids, style, speed).
     rbind (ort_run sig graph (feeds_of input_ids style) input_ids style speed) (\<lambda>outputs.
     rbind (post_process (Batch outputs)) (\<lambda>output.
     py_index output 0)))"

text \<open>Lines 174--179: \<^verbatim>\<open>--inference\<close> takes precedence over \<^verbatim>\<open>--check\<close>, and without
  either the model is exported.\<close>

datatype cli_action = RunOnnx | CheckModel | ExportOnnx

definition cli_dispatch :: "bool \<Rightarrow> bool \<Rightarrow> cli_action" where
  "cli_dispatch inference check = (if inference then RunOnnx else if check then CheckModel else ExportOnnx)"

section \<open>Lemmas\<close>

lemma export_signature_eq:
  "export_signature e =
     [(''input_ids'', Int64, [Fixed 1, Dynamic ''input_ids_len'']), (''style'', Float32, [Fixed 1, Fixed 256]),
      (''speed'', Int32, [Fixed 1])]"
  by (simp add: export_signature_def traced_dims_def dynamic_axes_def upt_rec)

lemma load_input_ids_Inr:
  "load_input_ids vocab lang_code en_chunks other_ps = Inr (ps, ids) \<Longrightarrow>
   length ps \<le> 510 \<and> ids = wrap_ids (vocab_ids vocab ps)"
  using length_truncate_phonemes
  by (auto simp: load_input_ids_def Let_def split: if_splits option.splits)

lemma load_sample_Inr:
  assumes "load_sample vocab en_chunks pack = Inr (input_ids, style, speed)"
  obtains ps where "load_input_ids vocab ''a'' en_chunks [] = Inr (ps, input_ids)"
    and "load_voice pack ps = Inr style" and "speed = 1"
  using assms by (auto simp: load_sample_def rbind_eq_Inr)

lemma load_sample_style_in_pack:
  "load_sample vocab en_chunks pack = Inr (input_ids, style, speed) \<Longrightarrow> style \<in> set pack"
  by (erule load_sample_Inr) (auto simp: load_voice_def dest: py_index_in_set)

lemma kmodel_inference_single:
  "kmodel_inference m input_ids style speed = Inr out \<Longrightarrow> \<exists>w. out = [w]"
  by (auto simp: kmodel_inference_def Let_def rbind_def split: sum.splits prod.splits)

lemma onnx_check_agree:
  assumes "list_all (\<lambda>r. length r = 256) pack"
  shows "inference_onnx (export_signature example_ids) (model_forward m) vocab en_chunks pack
         = check_model m vocab en_chunks pack"
proof (cases "load_sample vocab en_chunks pack")
  case (Inl e)
  then show ?thesis
    by (simp add: inference_onnx_def check_model_def)
next
  case (Inr sample)
  then obtain input_ids style speed where s: "load_sample vocab en_chunks pack = Inr (input_ids, style, speed)"
    by (cases sample) auto
  then have "length style = 256"
    using assms load_sample_style_in_pack [OF s] by (simp add: list_all_iff)
  then have "ort_accepts (export_signature example_ids) (feeds_of input_ids style)"
    by (simp add: export_signature_eq ort_accepts_def feeds_of_def dims_match_def)
  with s show ?thesis
    by (simp add: inference_onnx_def check_model_def ort_run_def)
qed

section \<open>Properties of the export script\<close>

text \<open>C26. The graph \<^verbatim>\<open>export_onnx\<close> writes takes token-id sequences of every length but
  only a (1, 256) style and a one-element speed, with the element types of the example
  inputs, whatever random ids it was traced with.\<close>

theorem export_signature_inputs:
  "ort_accepts (export_signature example_ids)
     [(''input_ids'', dt1, shape1), (''style'', dt2, shape2), (''speed'', dt3, shape3)] \<longleftrightarrow>
   dt1 = Int64 \<and> dt2 = Float32 \<and> dt3 = Int32 \<and> (\<exists>n. shape1 = [1, n]) \<and> shape2 = [1, 256] \<and> shape3 = [1]"
  by (auto simp: export_signature_eq ort_accepts_def dims_match_def list_all2_Cons1)

text \<open>C27. With a voice pack of 510 entries, as the packs the pipeline loads have,
  \<^verbatim>\<open>load_sample\<close> never fails once the phonemes are loaded: the truncation to 510
  phonemes keeps \<^verbatim>\<open>pack[len(phonemes) - 1]\<close> in range.\<close>

theorem load_sample_total:
  assumes "length pack = 510"
    and "load_input_ids vocab ''a'' en_chunks [] = Inr (ps, input_ids)"
  shows "\<exists>style. load_sample vocab en_chunks pack = Inr (input_ids, style, 1) \<and> style \<in> set pack"
proof -
  have "length ps \<le> 510"
    using load_input_ids_Inr [OF assms(2)] by simp
  with assms(1) have "- int (length pack) \<le> int (length ps) - 1 \<and> int (length ps) - 1 < int (length pack)"
    by simp
  then obtain style where st: "load_voice pack ps = Inr style"
    using py_index_Inr_iff [of pack "int (length ps) - 1"] by (auto simp: load_voice_def)
  then have "style \<in> set pack"
    by (auto simp: load_voice_def dest: py_index_in_set)
  with assms(2) st show ?thesis
    by (simp add: load_sample_def)
qed

theorem load_sample_total_witness:
  "length (replicate 510 (replicate 256 (0::real))) = 510 \<and>
   load_input_ids [[CHR ''a''] \<mapsto> 5] ''a'' [(''x'', ''a'', ())] [] = Inr (''a'', [0, 5, 0]) \<and>
   (\<exists>style. load_sample [[CHR ''a''] \<mapsto> 5] [(''x'', ''a'', ())] (replicate 510 (replicate 256 0))
      = Inr ([0, 5, 0], style, 1) \<and> style \<in> set (replicate 510 (replicate 256 0)))"
proof -
  have l: "length (replicate 510 (replicate 256 (0::real))) = 510"
    by simp
  have h: "load_input_ids [[CHR ''a''] \<mapsto> 5] ''a'' [(''x'', ''a'', ())] [] = Inr (''a'', [0, 5, 0])"
    by (simp add: load_input_ids_def sublist_Cons_right truncate_phonemes_def vocab_ids_def wrap_ids_def)
  show ?thesis
    using load_sample_total [OF l h] l h by blast
qed

text \<open>C28. Run on the graph traced from \<^verbatim>\<open>Model\<close>, \<^verbatim>\<open>inference_onnx\<close> plays exactly what
  \<^verbatim>\<open>check_model\<close> plays, and fails exactly when it fails, for every voice pack of
  256-wide styles: onnxruntime's input check never rejects a sample of the script.\<close>

theorem inference_onnx_matches_check_model:
  assumes "list_all (\<lambda>r. length r = 256) pack"
  shows "inference_onnx (export_signature example_ids) (model_forward m) vocab en_chunks pack
         = check_model m vocab en_chunks pack"
  using assms by (rule onnx_check_agree)

theorem inference_onnx_matches_check_model_witness:
  "list_all (\<lambda>r. length r = 256) [replicate 256 (0::real)] \<and>
   inference_onnx (export_signature (replicate 48 1)) (model_forward constant_backend)
     [[CHR ''a''] \<mapsto> 5] [(''x'', ''a'', ())] [replicate 256 0]
   = check_model constant_backend [[CHR ''a''] \<mapsto> 5] [(''x'', ''a'', ())] [replicate 256 0]"
  using inference_onnx_matches_check_model [of "[replicate 256 0]" "replicate 48 1" constant_backend
      "[[CHR ''a''] \<mapsto> 5]" "[(''x'', ''a'', ())]"] by simp

text \<open>C29. \<^verbatim>\<open>check_model\<close> plays a waveform whenever the model returns one longer than
  50 samples: \<^verbatim>\<open>KModel.inference\<close> yields a batch of one waveform, which
  \<^verbatim>\<open>post_process\<close> filters into one of \<open>25 * (T div 25)\<close> samples, and \<^verbatim>\<open>output[0]\<close> is it.\<close>

theorem check_model_audio_length:
  assumes s: "load_sample vocab en_chunks pack = Inr (input_ids, style, speed)"
    and k: "kmodel_inference m input_ids style speed = Inr out"
    and long: "list_all (\<lambda>w. 50 < length w) out"
  shows "\<exists>a. check_model m vocab en_chunks pack = Inr a \<and> length a = 25 * (length (hd out) div 25)"
proof -
  obtain w where w: "out = [w]"
    using kmodel_inference_single [OF k] by blast
  then obtain y where y: "post_process_signal w = Inr y" and len: "length y = 25 * (length w div 25)"
    using post_process_signal_Inr [of w] long by auto
  have "check_model m vocab en_chunks pack = Inr y"
    using s k w y by (simp add: check_model_def model_forward_def post_process_def py_index_def)
  with len w show ?thesis
    by simp
qed

theorem check_model_audio_length_witness:
  "load_sample [[CHR ''a''] \<mapsto> 5] [(''x'', ''a'', ())] [replicate 256 0] = Inr ([0, 5, 0], replicate 256 0, 1) \<and>
   kmodel_inference (constant_backend\<lparr>decoder := \<lambda>asr f0 n s. replicate 60 0\<rparr>) [0, 5, 0] (replicate 256 0) 1
     = Inr [replicate 60 0] \<and>
   list_all (\<lambda>w. 50 < length w) [replicate 60 (0::real)] \<and>
   (\<exists>a. check_model (constant_backend\<lparr>decoder := \<lambda>asr f0 n s. replicate 60 0\<rparr>)
          [[CHR ''a''] \<mapsto> 5] [(''x'', ''a'', ())] [replicate 256 0] = Inr a \<and> length a = 50)"
proof -
  have s: "load_sample [[CHR ''a''] \<mapsto> 5] [(''x'', ''a'', ())] [replicate 256 0] = Inr ([0, 5, 0], replicate 256 0, 1)"
    by (simp add: load_sample_def load_input_ids_def sublist_Cons_right truncate_phonemes_def
        vocab_ids_def wrap_ids_def load_voice_def py_index_def)
  have k: "kmodel_inference (constant_backend\<lparr>decoder := \<lambda>asr f0 n s. replicate 60 0\<rparr>) [0, 5, 0] (replicate 256 0) 1
     = Inr [replicate 60 0]"
    by (simp add: kmodel_inference_def inference_prosody_def pred_dur_def token_duration_def
        frames_of_def matmul_def inference_alignment_def cumsum64_def wrap64_def torch_round_def
        ncols_def Let_def)
  have l: "list_all (\<lambda>w. 50 < length w) [replicate 60 (0::real)]"
    by simp
  show ?thesis
    using check_model_audio_length [OF s k l] s k l by simp
qed

end
