(* ===== verification/Config.thy ===== *)
theory Config
  imports Weights Tokens
begin

text \<open>
  Construction of a \<^verbatim>\<open>KModel\<close> (src/kokoro/model.py, \<^verbatim>\<open>__init__\<close>, lines 29--63). The
  configuration is a dict given directly or the JSON of a file, downloaded when no path
  is given; the constructor reads its keys in the order of lines 38--53, builds the
  submodules from them, and loads the checkpoint into them (theory Weights). Parsed JSON
  is a value of \<open>json\<close>, objects as association lists in file order. The files, and
  what \<^verbatim>\<open>hf_hub_download\<close> returns, are an \<open>environment\<close>. \<^verbatim>\<open>torch.nn.Linear\<close> is
  modelled with its parameters; the other submodules (\<^verbatim>\<open>CustomAlbert\<close>,
  \<^verbatim>\<open>ProsodyPredictor\<close>, \<^verbatim>\<open>TextEncoder\<close>, \<^verbatim>\<open>Decoder\<close>) live outside the sources and are
  the fields of \<open>module_builders\<close>, which may fail.
\<close>

section \<open>JSON values and the environment\<close>

datatype json =
    JObject "(string \<times> json) list"
  | JArray "json list"
  | JInt int
  | JFloat real
  | JString string
  | JBool bool
  | JNull

text \<open>\<^verbatim>\<open>config[key]\<close>: a missing key raises \<^verbatim>\<open>KeyError\<close>, indexing what is not an object
  by a string raises \<^verbatim>\<open>TypeError\<close>.\<close>

definition json_get :: "json \<Rightarrow> string \<Rightarrow> json result" where
  "json_get j k =
     (case j of
        JObject kvs \<Rightarrow> (case map_of kvs k of Some v \<Rightarrow> Inr v | None \<Rightarrow> Inl (KeyError k))
      | _ \<Rightarrow> Inl (TypeError ''indices must be integers''))"

text \<open>The keyword arguments \<^verbatim>\<open>**d\<close> of a call.\<close>

definition json_kwargs :: "json \<Rightarrow> (string \<times> json) list result" where
  "json_kwargs j =
     (case j of JObject kvs \<Rightarrow> Inr kvs | _ \<Rightarrow> Inl (TypeError ''argument after ** must be a mapping''))"

text \<open>A tensor dimension passed to \<^verbatim>\<open>torch.nn.Linear\<close>.\<close>

definition json_dim :: "json \<Rightarrow> nat result" where
  "json_dim j =
     (case j of
        JInt i \<Rightarrow> if 0 \<le> i then Inr (nat i)
                  else Inl (RuntimeError ''Trying to create tensor with negative dimension'')
      | _ \<Rightarrow> Inl (TypeError ''empty(): argument size must be tuple of ints''))"

text \<open>Line 26: the Hugging Face repository the defaults are downloaded from.\<close>

definition repo_id :: string where
  "repo_id = ''hexgrad/Kokoro-82M''"

text \<open>\<^verbatim>\<open>hf_hub_download(repo_id, filename)\<close> gives the local path of a file of a
  repository; the files are their parsed contents.\<close>

record environment =
  download :: "string \<Rightarrow> string \<Rightarrow> string"
  json_files :: "string \<rightharpoonup> json"
  torch_files :: "string \<rightharpoonup> (string \<times> state_dict) list"

definition read_json :: "environment \<Rightarrow> string \<Rightarrow> json result" where
  "read_json env path = (case json_files env path of Some j \<Rightarrow> Inr j | None \<Rightarrow> Inl (FileNotFoundError path))"

definition torch_load :: "environment \<Rightarrow> string \<Rightarrow> (string \<times> state_dict) list result" where
  "torch_load env path = (case torch_files env path of Some ck \<Rightarrow> Inr ck | None \<Rightarrow> Inl (FileNotFoundError path))"

section \<open>The configuration\<close>

text \<open>The \<^verbatim>\<open>config\<close> argument: a dict, a path, or \<^verbatim>\<open>None\<close>.\<close>

datatype config_arg = ConfigDict "(string \<times> json) list" | ConfigPath string | NoConfig

text \<open>Lines 31--37: a dict is used as it is; otherwise an empty or absent path is
  replaced by the downloaded \<^verbatim>\<open>config.json\<close>, and the file is parsed.\<close>

definition resolve_config :: "environment \<Rightarrow> config_arg \<Rightarrow> json result" where
  "resolve_config env config =
     (case config of
        ConfigDict kvs \<Rightarrow> Inr (JObject kvs)
      | ConfigPath path \<Rightarrow> read_json env (if path = [] then download env repo_id ''config.json'' else path)
      | NoConfig \<Rightarrow> read_json env (download env repo_id ''config.json''))"

text \<open>Lines 54--55: the checkpoint path, downloaded when empty or absent.\<close>

definition resolve_model :: "environment \<Rightarrow> string option \<Rightarrow> string" where
  "resolve_model env model =
     (case model of
        None \<Rightarrow> download env repo_id ''kokoro-v1_0.pth''
      | Some path \<Rightarrow> if path = [] then download env repo_id ''kokoro-v1_0.pth'' else path)"

text \<open>\<^verbatim>\<open>AlbertConfig(vocab_size=config['n_token'], **config['plbert'])\<close> (line 39): the
  keyword arguments it is built from; a \<^verbatim>\<open>vocab_size\<close> inside \<open>plbert\<close> is a second value
  for that keyword.\<close>

definition albert_config :: "json \<Rightarrow> json \<Rightarrow> (string \<times> json) list result" where
  "albert_config n_token plbert =
     rbind (json_kwargs plbert) (\<lambda>kw.
       if ''vocab_size'' \<in> set (map fst kw)
       then Inl (TypeError ''__init__() got multiple values for keyword argument vocab_size'')
       else Inr ((''vocab_size'', n_token) # kw))"

text \<open>An attribute of the \<^verbatim>\<open>AlbertConfig\<close>: the keyword argument, or the library's
  default (\<^verbatim>\<open>hidden_size\<close> 4096, \<^verbatim>\<open>max_position_embeddings\<close> 512).\<close>

definition config_attr :: "(string \<times> json) list \<Rightarrow> string \<Rightarrow> json \<Rightarrow> json" where
  "config_attr kw k fallback = (case map_of kw k of Some v \<Rightarrow> v | None \<Rightarrow> fallback)"

section \<open>Submodules\<close>

text \<open>\<^verbatim>\<open>torch.nn.Linear(in_features, out_features)\<close>: a weight of shape
  \<open>[out, in]\<close> then a bias of shape \<open>[out]\<close>, filled by the initialiser.\<close>

definition linear :: "(nat list \<Rightarrow> real list) \<Rightarrow> json \<Rightarrow> json \<Rightarrow> nn_module result" where
  "linear init in_features out_features =
     rbind (json_dim in_features) (\<lambda>n_in.
     rbind (json_dim out_features) (\<lambda>n_out.
     Inr \<lparr>params = [(''weight'', ([n_out, n_in], init [n_out, n_in])), (''bias'', ([n_out], init [n_out]))]\<rparr>))"

record module_builders =
  custom_albert :: "(string \<times> json) list \<Rightarrow> nn_module result"
  prosody_predictor :: "json \<Rightarrow> json \<Rightarrow> json \<Rightarrow> json \<Rightarrow> json \<Rightarrow> nn_module result"
  text_encoder_module :: "json \<Rightarrow> json \<Rightarrow> json \<Rightarrow> json \<Rightarrow> nn_module result"
  decoder_module :: "json \<Rightarrow> json \<Rightarrow> json \<Rightarrow> (string \<times> json) list \<Rightarrow> nn_module result"
  param_init :: "nat list \<Rightarrow> real list"

text \<open>The state of a constructed \<^verbatim>\<open>KModel\<close>: \<^verbatim>\<open>self.vocab\<close>, \<^verbatim>\<open>self.context_length\<close> and the
  attributes that hold the submodules.\<close>

record kmodel =
  vocab_json :: json
  context_length :: json
  attrs :: kmodel_attrs

section \<open>The constructor\<close>

text \<open>Lines 29--63. The keys are read in the order the arguments are evaluated; the
  repeated reads of \<^verbatim>\<open>hidden_dim\<close>, \<^verbatim>\<open>style_dim\<close>, \<^verbatim>\<open>n_layer\<close> and \<^verbatim>\<open>n_token\<close> find the
  value of the first.\<close>

definition kmodel_new ::
  "module_builders \<Rightarrow> environment \<Rightarrow> config_arg \<Rightarrow> string option \<Rightarrow> kmodel result" where
  "kmodel_new b env config model =
     rbind (resolve_config env config) (\<lambda>cfg.
     rbind (json_get cfg ''vocab'') (\<lambda>vocab.
     rbind (json_get cfg ''n_token'') (\<lambda>n_token.
     rbind (json_get cfg ''plbert'') (\<lambda>plbert.
     rbind (albert_config n_token plbert) (\<lambda>acfg.
     rbind (custom_albert b acfg) (\<lambda>bert_m.
     rbind (json_get cfg ''hidden_dim'') (\<lambda>hidden_dim.
     rbind (linear (param_init b) (config_attr acfg ''hidden_size'' (JInt 4096)) hidden_dim) (\<lambda>bert_encoder_m.
     rbind (json_get cfg ''style_dim'') (\<lambda>style_dim.
     rbind (json_get cfg ''n_layer'') (\<lambda>n_layer.
     rbind (json_get cfg ''max_dur'') (\<lambda>max_dur.
     rbind (json_get cfg ''dropout'') (\<lambda>dropout.
     rbind (prosody_predictor b style_dim hidden_dim n_layer max_dur dropout) (\<lambda>predictor_m.
     rbind (json_get cfg ''text_encoder_kernel_size'') (\<lambda>kernel_size.
     rbind (text_encoder_module b hidden_dim kernel_size n_layer n_token) (\<lambda>text_encoder_m.
     rbind (json_get cfg ''n_mels'') (\<lambda>n_mels.
     rbind (json_get cfg ''istftnet'') (\<lambda>istftnet.
     rbind (json_kwargs istftnet) (\<lambda>istftnet_kw.
     rbind (decoder_module b hidden_dim style_dim n_mels istftnet_kw) (\<lambda>decoder_m.
     rbind (torch_load env (resolve_model env model)) (\<lambda>checkpoint.
     rbind (load_checkpoint (kmodel_attrs_init bert_m bert_encoder_m predictor_m text_encoder_m decoder_m)
              checkpoint) (\<lambda>loaded.
     Inr \<lparr>vocab_json = vocab,
          context_length = config_attr acfg ''max_position_embeddings'' (JInt 512),
          attrs = loaded\<rparr>)))))))))))))))))))))"

text \<open>The keys the constructor reads, in the order it reads them.\<close>

definition config_keys :: "string list" where
  "config_keys = [''vocab'', ''n_token'', ''plbert'', ''hidden_dim'', ''style_dim'', ''n_layer'',
                  ''max_dur'', ''dropout'', ''text_encoder_kernel_size'', ''n_mels'', ''istftnet'']"

text \<open>\<^verbatim>\<open>self.vocab.get(p)\<close> as \<open>vocab_ids\<close> uses it, for a vocabulary of integer ids.\<close>

definition vocab_of :: "json \<Rightarrow> vocab" where
  "vocab_of v p = (case json_get v p of Inr (JInt i) \<Rightarrow> Some i | _ \<Rightarrow> None)"

text \<open>A configuration of the reference's form (with small dimensions), builders that
  return a fixed module, and an environment holding the configuration and an empty
  checkpoint, for the examples.\<close>

abbreviation toy_config :: json where
  "toy_config \<equiv> JObject [(''vocab'', JObject [(''a'', JInt 5)]), (''n_token'', JInt 178),
     (''plbert'', JObject [(''hidden_size'', JInt 4)]), (''hidden_dim'', JInt 2), (''style_dim'', JInt 128),
     (''n_layer'', JInt 3), (''max_dur'', JInt 50), (''dropout'', JFloat (1/5)),
     (''text_encoder_kernel_size'', JInt 5), (''n_mels'', JInt 80), (''istftnet'', JObject [])]"

abbreviation toy_builders :: module_builders where
  "toy_builders \<equiv> \<lparr>custom_albert = (\<lambda>_. Inr toy_module), prosody_predictor = (\<lambda>_ _ _ _ _. Inr toy_module),
     text_encoder_module = (\<lambda>_ _ _ _. Inr toy_module), decoder_module = (\<lambda>_ _ _ _. Inr toy_module),
     param_init = (\<lambda>s. replicate (prod_list s) 0)\<rparr>"

abbreviation toy_env :: environment where
  "toy_env \<equiv> \<lparr>download = (\<lambda>repo f. ''cache/'' @ f), json_files = [''cache/config.json'' \<mapsto> toy_config],
     torch_files = [''cache/kokoro-v1_0.pth'' \<mapsto> []]\<rparr>"

section \<open>Lemmas\<close>

lemmas construct_eval = kmodel_new_def resolve_config_def read_json_def json_get_def albert_config_def
  json_kwargs_def linear_def json_dim_def config_attr_def torch_load_def resolve_model_def

lemma albert_config_Inr:
  "albert_config n_token plbert = Inr acfg \<Longrightarrow>
   \<exists>kw. plbert = JObject kw \<and> ''vocab_size'' \<notin> set (map fst kw) \<and> acfg = (''vocab_size'', n_token) # kw"
  by (auto simp: albert_config_def json_kwargs_def split: json.splits if_splits)

lemma config_attr_Cons_other [simp]:
  "k' \<noteq> k \<Longrightarrow> config_attr ((k', v) # kw) k d = config_attr kw k d"
  by (simp add: config_attr_def)

lemma kmodel_new_Inr:
  assumes "kmodel_new b env config model = Inr km"
  obtains cfg vocab n_token kw hidden_dim bert_m bert_encoder_m predictor_m text_encoder_m decoder_m
      checkpoint loaded
  where "resolve_config env config = Inr cfg"
    and "list_all (\<lambda>k. \<exists>v. json_get cfg k = Inr v) config_keys"
    and "json_get cfg ''vocab'' = Inr vocab"
    and "json_get cfg ''plbert'' = Inr (JObject kw)" and "''vocab_size'' \<notin> set (map fst kw)"
    and "json_get cfg ''hidden_dim'' = Inr hidden_dim"
    and "linear (param_init b) (config_attr kw ''hidden_size'' (JInt 4096)) hidden_dim = Inr bert_encoder_m"
    and "torch_load env (resolve_model env model) = Inr checkpoint"
    and "load_checkpoint (kmodel_attrs_init bert_m bert_encoder_m predictor_m text_encoder_m decoder_m) checkpoint
         = Inr loaded"
    and "km = \<lparr>vocab_json = vocab, context_length = config_attr kw ''max_position_embeddings'' (JInt 512),
               attrs = loaded\<rparr>"
  using assms unfolding kmodel_new_def rbind_eq_Inr
  apply (elim exE conjE)
  apply (drule albert_config_Inr)
  apply (elim exE conjE)
  apply (rule that)
           apply (assumption | simp add: config_keys_def; fail)+
  done

lemma linear_Inr:
  "linear init in_f out_f = Inr m \<Longrightarrow> in_f = JInt i \<Longrightarrow> out_f = JInt o' \<Longrightarrow>
   attr_shape (Module m) = Some [(''weight'', [nat o', nat i]), (''bias'', [nat o'])]"
  by (auto simp: linear_def json_dim_def attr_shape_def rbind_eq_Inr split: if_splits)

lemma kmodel_attrs_init_bert_encoder [simp]:
  "kmodel_attrs_init b1 b2 b3 b4 b5 ''bert_encoder'' = Some (Module b2)"
  by (simp add: kmodel_attrs_init_def)

section \<open>Properties of construction\<close>

text \<open>C33. A model is constructed only from a configuration that has every key the
  constructor reads; the first one missing raises \<^verbatim>\<open>KeyError\<close> with its name.\<close>

theorem kmodel_new_reads_config_keys:
  assumes "kmodel_new b env config model = Inr km" and "resolve_config env config = Inr cfg"
  shows "list_all (\<lambda>k. \<exists>v. json_get cfg k = Inr v) config_keys"
  using assms(1)
proof (rule kmodel_new_Inr)
  fix cfg'
  assume "resolve_config env config = Inr cfg'" "list_all (\<lambda>k. \<exists>v. json_get cfg' k = Inr v) config_keys"
  with assms(2) show ?thesis by simp
qed

theorem kmodel_new_reads_config_keys_witness:
  "kmodel_new toy_builders toy_env NoConfig None = Inr \<lparr>vocab_json = JObject [(''a'', JInt 5)], context_length = JInt 512,
            attrs = kmodel_attrs_init toy_module
                      \<lparr>params = [(''weight'', ([2, 4], replicate 8 0)), (''bias'', ([2], [0, 0]))]\<rparr>
                      toy_module toy_module toy_module\<rparr> \<and>
   resolve_config toy_env NoConfig = Inr toy_config \<and>
   list_all (\<lambda>k. \<exists>v. json_get toy_config k = Inr v) config_keys \<and>
   kmodel_new toy_builders toy_env (ConfigDict [(''vocab'', JObject []), (''n_token'', JInt 178)]) None
     = Inl (KeyError ''plbert'')"
proof -
  have k: "kmodel_new toy_builders toy_env NoConfig None = Inr \<lparr>vocab_json = JObject [(''a'', JInt 5)], context_length = JInt 512,
            attrs = kmodel_attrs_init toy_module
                      \<lparr>params = [(''weight'', ([2, 4], replicate 8 0)), (''bias'', ([2], [0, 0]))]\<rparr>
                      toy_module toy_module toy_module\<rparr>"
    by (simp add: construct_eval numeral_eq_Suc)
  have r: "resolve_config toy_env NoConfig = Inr toy_config"
    by (simp add: construct_eval)
  have "kmodel_new toy_builders toy_env (ConfigDict [(''vocab'', JObject []), (''n_token'', JInt 178)]) None
     = Inl (KeyError ''plbert'')"
    by (simp add: construct_eval)
  then show ?thesis
    using kmodel_new_reads_config_keys [OF k r] k r by simp
qed

text \<open>C34. The \<^verbatim>\<open>bert_encoder\<close> of a constructed model is a linear map from the ALBERT
  hidden size to \<^verbatim>\<open>hidden_dim\<close>: its weight has shape \<open>[hidden_dim, hidden_size]\<close> and its
  bias \<open>[hidden_dim]\<close>, whatever checkpoint was loaded into it.\<close>

theorem kmodel_bert_encoder_shape:
  assumes "kmodel_new b env config model = Inr km" and "resolve_config env config = Inr cfg"
    and "json_get cfg ''hidden_dim'' = Inr (JInt h)"
    and "json_get cfg ''plbert'' = Inr (JObject kw)" and "map_of kw ''hidden_size'' = Some (JInt s)"
  shows "map_option attr_shape (attrs km ''bert_encoder'')
         = Some (Some [(''weight'', [nat h, nat s]), (''bias'', [nat h])])"
  using assms(1)
proof (rule kmodel_new_Inr)
  fix cfg' kw' hidden_dim bert_m bert_encoder_m predictor_m text_encoder_m decoder_m checkpoint loaded vocab
  assume cfg': "resolve_config env config = Inr cfg'" and pl: "json_get cfg' ''plbert'' = Inr (JObject kw')"
    and hd: "json_get cfg' ''hidden_dim'' = Inr hidden_dim"
    and lin: "linear (param_init b) (config_attr kw' ''hidden_size'' (JInt 4096)) hidden_dim = Inr bert_encoder_m"
    and ld: "load_checkpoint (kmodel_attrs_init bert_m bert_encoder_m predictor_m text_encoder_m decoder_m) checkpoint
         = Inr loaded"
    and km: "km = \<lparr>vocab_json = vocab, context_length = config_attr kw' ''max_position_embeddings'' (JInt 512),
               attrs = loaded\<rparr>"
  from cfg' pl hd assms(2-4) have "kw' = kw" and "hidden_dim = JInt h" by simp_all
  with assms(5) lin have "attr_shape (Module bert_encoder_m) = Some [(''weight'', [nat h, nat s]), (''bias'', [nat h])]"
    by (intro linear_Inr [where init = "param_init b"]) (simp_all add: config_attr_def)
  with load_checkpoint_attr_shape [OF ld, of "''bert_encoder''"] km show ?thesis
    by simp
qed

theorem kmodel_bert_encoder_shape_witness:
  "kmodel_new toy_builders toy_env NoConfig None = Inr \<lparr>vocab_json = JObject [(''a'', JInt 5)], context_length = JInt 512,
            attrs = kmodel_attrs_init toy_module
                      \<lparr>params = [(''weight'', ([2, 4], replicate 8 0)), (''bias'', ([2], [0, 0]))]\<rparr>
                      toy_module toy_module toy_module\<rparr> \<and>
   resolve_config toy_env NoConfig = Inr toy_config \<and>
   json_get toy_config ''hidden_dim'' = Inr (JInt 2) \<and>
   json_get toy_config ''plbert'' = Inr (JObject [(''hidden_size'', JInt 4)]) \<and>
   map_of [(''hidden_size'', JInt 4)] ''hidden_size'' = Some (JInt 4) \<and>
   map_option attr_shape (attrs \<lparr>vocab_json = JObject [(''a'', JInt 5)], context_length = JInt 512,
            attrs = kmodel_attrs_init toy_module
                      \<lparr>params = [(''weight'', ([2, 4], replicate 8 0)), (''bias'', ([2], [0, 0]))]\<rparr>
                      toy_module toy_module toy_module\<rparr> ''bert_encoder'') = Some (Some [(''weight'', [2, 4]), (''bias'', [2])])"
proof -
  have k: "kmodel_new toy_builders toy_env NoConfig None = Inr \<lparr>vocab_json = JObject [(''a'', JInt 5)], context_length = JInt 512,
            attrs = kmodel_attrs_init toy_module
                      \<lparr>params = [(''weight'', ([2, 4], replicate 8 0)), (''bias'', ([2], [0, 0]))]\<rparr>
                      toy_module toy_module toy_module\<rparr>"
    by (simp add: construct_eval numeral_eq_Suc)
  have r: "resolve_config toy_env NoConfig = Inr toy_config"
    by (simp add: construct_eval)
  have h: "json_get toy_config ''hidden_dim'' = Inr (JInt 2)"
    and p: "json_get toy_config ''plbert'' = Inr (JObject [(''hidden_size'', JInt 4)])"
    by (simp_all add: construct_eval)
  have s: "map_of [(''hidden_size'', JInt 4)] ''hidden_size'' = Some (JInt 4)"
    by simp
  show ?thesis
    using kmodel_bert_encoder_shape [OF k r h p s] k r h p s by simp
qed

end
