(* ===== verification/Cli.thy ===== *)
theory Cli
  imports Export Config
begin

text \<open>
  The main block of src/export.py (lines 149--179): build the \<^verbatim>\<open>KModel\<close> from the
  configuration and checkpoint given on the command line, wrap it in \<^verbatim>\<open>Model\<close>, and
  export it, check it, or run the exported graph. Runs of the script share the file
  system through the exported graph \<^verbatim>\<open><output_dir>/kokoro.onnx\<close>: an export run writes
  it, an \<^verbatim>\<open>--inference\<close> run reads it. The files of exported graphs are the state passed
  from run to run; a graph file holds the input signature and the function the graph
  computes, which for a graph written by \<^verbatim>\<open>export_onnx\<close> is \<^verbatim>\<open>Model.forward\<close> of the
  exported model. What a constructed model computes is given by \<open>realise\<close>, as the
  neural modules are not part of the sources; the sample text's tokens and the voice
  pack are the inputs of \<^verbatim>\<open>load_sample\<close>.
\<close>

record cli_args =
  inference_flag :: bool
  check_flag :: bool
  config_file :: string
  checkpoint_path :: string
  output_dir :: string

type_synonym onnx_store = "string \<rightharpoonup> signature \<times> onnx_graph"

datatype run_outcome = Played "real list" | Exported

text \<open>Lines 29 and 115: where the graph is written and read.\<close>

definition onnx_path :: "string \<Rightarrow> string" where
  "onnx_path output = output @ ''/kokoro.onnx''"

text \<open>Lines 28--56, \<^verbatim>\<open>export_onnx\<close>: \<^verbatim>\<open>torch.onnx.export\<close> writes the graph traced from
  the model at the example ids to \<^verbatim>\<open><output>/kokoro.onnx\<close>; then the file is loaded
  back and \<^verbatim>\<open>onnx.checker.check_model\<close> validates it, raising \<^verbatim>\<open>ValidationError\<close>
  when it rejects it. The checker is the predicate \<open>checker\<close>. The file system after
  the call is returned beside the outcome, since the file stays written when the
  checker raises.\<close>

definition export_onnx ::
  "(signature \<times> onnx_graph \<Rightarrow> bool) \<Rightarrow> int list \<Rightarrow> backend \<Rightarrow> string \<Rightarrow> onnx_store \<Rightarrow>
   onnx_store \<times> unit result" where
  "export_onnx checker example_ids m output store =
     (let onnx_file = onnx_path output;
          store' = store(onnx_file \<mapsto> (export_signature example_ids, model_forward m))
      in (store', case store' onnx_file of
                    None \<Rightarrow> Inl (FileNotFoundError onnx_file)
                  | Some g \<Rightarrow> if checker g then Inr () else Inl (ValidationError onnx_file)))"

text \<open>Lines 161--179: build the model (an error of the construction ends the run
  before anything is written), then run \<^verbatim>\<open>inference_onnx\<close> on the graph file (a missing
  file raises), \<^verbatim>\<open>check_model\<close> on the model, or \<^verbatim>\<open>export_onnx\<close>; the samples are built
  with the vocabulary of the constructed model (\<^verbatim>\<open>KPipeline(model=model.model)\<close>). The
  run returns the file system it leaves and its outcome.\<close>

definition export_main ::
  "(signature \<times> onnx_graph \<Rightarrow> bool) \<Rightarrow> module_builders \<Rightarrow> environment \<Rightarrow> (kmodel \<Rightarrow> backend) \<Rightarrow>
   int list \<Rightarrow> (string \<times> string \<times> 'tk) list \<Rightarrow> real list list \<Rightarrow> cli_args \<Rightarrow> onnx_store \<Rightarrow>
   onnx_store \<times> run_outcome result" where
  "export_main checker b env realise example_ids en_chunks pack args store =
     (case kmodel_new b env (ConfigPath (config_file args)) (Some (checkpoint_path args)) of
        Inl e \<Rightarrow> (store, Inl e)
      | Inr km \<Rightarrow>
          (let m = realise km; vocab = vocab_of (vocab_json km); path = onnx_path (output_dir args)
           in case cli_dispatch (inference_flag args) (check_flag args) of
               RunOnnx \<Rightarrow>
                 (store, case store path of
                           None \<Rightarrow> Inl (FileNotFoundError path)
                         | Some (sig, graph) \<Rightarrow>
                             map_sum id Played (inference_onnx sig graph vocab en_chunks pack))
             | CheckModel \<Rightarrow> (store, map_sum id Played (check_model m vocab en_chunks pack))
             | ExportOnnx \<Rightarrow>
                 (case export_onnx checker example_ids m (output_dir args) store of
                    (store', r) \<Rightarrow> (store', map_sum id (\<lambda>_. Exported) r))))"

section \<open>Lemmas\<close>

text \<open>The file system an export run leaves: the graph of the constructed model at the
  output path, whatever the checker decides; any other run leaves it unchanged.\<close>

lemma export_main_store:
  "fst (export_main checker b env realise example_ids en_chunks pack args store) =
     (case kmodel_new b env (ConfigPath (config_file args)) (Some (checkpoint_path args)) of
        Inr km \<Rightarrow> (if cli_dispatch (inference_flag args) (check_flag args) = ExportOnnx
                   then store(onnx_path (output_dir args) \<mapsto> (export_signature example_ids, model_forward (realise km)))
                   else store)
      | Inl e \<Rightarrow> store)"
  by (simp add: export_main_def export_onnx_def Let_def split: sum.split cli_action.split)

text \<open>The vocabulary of a constructed model is the configuration's \<^verbatim>\<open>vocab\<close>: two
  constructions from one configuration, with builders that may initialise the
  submodules differently, agree on it.\<close>

lemma kmodel_new_vocab:
  assumes "kmodel_new b1 env config model = Inr km1" and "kmodel_new b2 env config model = Inr km2"
  shows "vocab_json km2 = vocab_json km1"
proof -
  obtain cfg1 v1 where c1: "resolve_config env config = Inr cfg1" "json_get cfg1 ''vocab'' = Inr v1"
    and k1: "vocab_json km1 = v1"
    using assms(1) by (rule kmodel_new_Inr) simp
  obtain cfg2 v2 where c2: "resolve_config env config = Inr cfg2" "json_get cfg2 ''vocab'' = Inr v2"
    and k2: "vocab_json km2 = v2"
    using assms(2) by (rule kmodel_new_Inr) simp
  from c1 c2 k1 k2 show ?thesis
    by simp
qed

section \<open>Runs of the script\<close>

text \<open>C36. Runs of the script compose: after an export run whose model \<open>km1\<close> could be
  built, an \<^verbatim>\<open>--inference\<close> run on the same configuration, checkpoint and output
  directory plays exactly what \<^verbatim>\<open>check_model\<close> plays for \<open>km1\<close>, and fails exactly when it
  fails, for every voice pack of 256-wide styles; unless its own construction of a
  model raises. The two runs build their models with their own builders
  \<open>b_exp\<close> and \<open>b_inf\<close> (each run initialises the submodules afresh), and the inference run
  plays the graph of the first model with the vocabulary of the second, which is the
  same. The export run need not succeed: the graph file is written before
  \<^verbatim>\<open>onnx.checker\<close> runs, so it is there even when the checker rejects it, and
  \<^verbatim>\<open>--inference\<close> does not validate it again.\<close>

theorem export_then_inference_plays_export_model:
  assumes exp: "cli_dispatch (inference_flag args) (check_flag args) = ExportOnnx"
    and pack: "list_all (\<lambda>r. length r = 256) pack"
    and km1: "kmodel_new b_exp env (ConfigPath (config_file args)) (Some (checkpoint_path args)) = Inr km1"
  shows "export_main checker b_inf env realise example_ids en_chunks pack (args\<lparr>inference_flag := True\<rparr>)
           (fst (export_main checker b_exp env realise example_ids en_chunks pack args store))
         = (fst (export_main checker b_exp env realise example_ids en_chunks pack args store),
            case kmodel_new b_inf env (ConfigPath (config_file args)) (Some (checkpoint_path args)) of
              Inl e \<Rightarrow> Inl e
            | Inr km2 \<Rightarrow> map_sum id Played (check_model (realise km1) (vocab_of (vocab_json km1)) en_chunks pack))"
proof -
  have st: "fst (export_main checker b_exp env realise example_ids en_chunks pack args store) =
      store(onnx_path (output_dir args) \<mapsto> (export_signature example_ids, model_forward (realise km1)))"
    using km1 exp by (simp only: export_main_store) simp
  show ?thesis
  proof (cases "kmodel_new b_inf env (ConfigPath (config_file args)) (Some (checkpoint_path args))")
    case (Inl e)
    then show ?thesis
      by (simp add: export_main_def)
  next
    case (Inr km2)
    have "vocab_json km2 = vocab_json km1"
      using km1 Inr by (rule kmodel_new_vocab)
    then show ?thesis
      unfolding st
      using Inr exp onnx_check_agree [OF pack, of example_ids "realise km1" "vocab_of (vocab_json km1)" en_chunks]
      by (simp add: export_main_def Let_def cli_dispatch_def)
  qed
qed

theorem export_then_inference_plays_export_model_witness:
  "cli_dispatch False False = ExportOnnx \<and>
   list_all (\<lambda>r. length r = 256) [replicate 256 (0::real)] \<and>
   kmodel_new toy_builders toy_env (ConfigPath ''cache/config.json'') (Some ''cache/kokoro-v1_0.pth'') =
     Inr \<lparr>vocab_json = JObject [(''a'', JInt 5)], context_length = JInt 512,
          attrs = kmodel_attrs_init toy_module \<lparr>params = [(''weight'', [2, 4], replicate 8 0), (''bias'', [2], [0, 0])]\<rparr>
            toy_module toy_module toy_module\<rparr> \<and>
   export_main (\<lambda>_. False) (toy_builders\<lparr>param_init := (\<lambda>s. replicate (prod_list s) 1)\<rparr>) toy_env
     (\<lambda>_. constant_backend) (replicate 48 1) [(''x'', ''a'', ())] [replicate 256 0]
     \<lparr>inference_flag = True, check_flag = False, config_file = ''cache/config.json'',
        checkpoint_path = ''cache/kokoro-v1_0.pth'', output_dir = ''outputs''\<rparr>
     (fst (export_main (\<lambda>_. False) toy_builders toy_env (\<lambda>_. constant_backend) (replicate 48 1) [(''x'', ''a'', ())]
        [replicate 256 0] \<lparr>inference_flag = False, check_flag = False, config_file = ''cache/config.json'',
        checkpoint_path = ''cache/kokoro-v1_0.pth'', output_dir = ''outputs''\<rparr> Map.empty))
   = ([''outputs/kokoro.onnx'' \<mapsto> (export_signature (replicate 48 1), model_forward constant_backend)],
      map_sum id Played (check_model constant_backend (vocab_of (JObject [(''a'', JInt 5)])) [(''x'', ''a'', ())]
        [replicate 256 0]))"
proof -
  let ?args = "\<lparr>inference_flag = False, check_flag = False, config_file = ''cache/config.json'',
        checkpoint_path = ''cache/kokoro-v1_0.pth'', output_dir = ''outputs''\<rparr>"
  let ?km1 = "\<lparr>vocab_json = JObject [(''a'', JInt 5)], context_length = JInt 512,
          attrs = kmodel_attrs_init toy_module \<lparr>params = [(''weight'', [2, 4], replicate 8 0), (''bias'', [2], [0, 0])]\<rparr>
            toy_module toy_module toy_module\<rparr>"
  have d: "cli_dispatch (inference_flag ?args) (check_flag ?args) = ExportOnnx"
    by (simp add: cli_dispatch_def)
  have p: "list_all (\<lambda>r. length r = 256) [replicate 256 (0::real)]"
    by simp
  have k1: "kmodel_new toy_builders toy_env (ConfigPath (config_file ?args)) (Some (checkpoint_path ?args)) = Inr ?km1"
    by (simp add: construct_eval numeral_eq_Suc)
  have k2: "\<exists>km2. kmodel_new (toy_builders\<lparr>param_init := (\<lambda>s. replicate (prod_list s) 1)\<rparr>) toy_env
      (ConfigPath (config_file ?args)) (Some (checkpoint_path ?args)) = Inr km2"
    by (simp add: construct_eval numeral_eq_Suc)
  have e: "fst (export_main (\<lambda>_. False) toy_builders toy_env (\<lambda>_. constant_backend) (replicate 48 1) [(''x'', ''a'', ())]
     [replicate 256 0] ?args Map.empty) =
     [''outputs/kokoro.onnx'' \<mapsto> (export_signature (replicate 48 1), model_forward constant_backend)]"
    by (simp add: export_main_def export_onnx_def construct_eval numeral_eq_Suc cli_dispatch_def onnx_path_def Let_def)
  show ?thesis
    using export_then_inference_plays_export_model [OF d p k1, where checker = "\<lambda>_. False"
        and b_inf = "toy_builders\<lparr>param_init := (\<lambda>s. replicate (prod_list s) 1)\<rparr>"
        and realise = "\<lambda>_. constant_backend" and example_ids = "replicate 48 1"
        and en_chunks = "[(''x'', ''a'', ())]" and store = Map.empty] d p k1 k2 e
    by (auto simp: cli_dispatch_def)
qed


end
