(* ===== verification/Ids.thy ===== *)
theory Ids
  imports Config
begin

text \<open>
  The script src/ids.py: parse the arguments (the configuration and checkpoint paths
  default to the files under \<^verbatim>\<open>checkpoints/\<close>), build the \<^verbatim>\<open>KModel\<close> from them, and print
  the ids of the phonemes of the last English chunk with the model's vocabulary. The
  loop over the chunks and the lookup are \<open>Tokens.ids_script\<close>; the tokenizer's chunks
  are an input, as for the export script.
\<close>

record ids_args =
  ids_text :: string
  ids_config_file :: string
  ids_checkpoint_path :: string

text \<open>Lines 5--10: \<^verbatim>\<open>--text\<close> is required, the two paths have defaults.\<close>

definition ids_defaults :: "string \<Rightarrow> ids_args" where
  "ids_defaults t =
     \<lparr>ids_text = t, ids_config_file = ''checkpoints/config.json'',
      ids_checkpoint_path = ''checkpoints/kokoro-v1_0.pth''\<rparr>"

text \<open>Lines 12--31: \<^verbatim>\<open>KModel(config_file, checkpoint_path)\<close> (the checkpoint is the
  positional \<^verbatim>\<open>model\<close> argument), then the chunk loop and \<^verbatim>\<open>model.vocab.get\<close>.
  \<^verbatim>\<open>KPipeline(lang_code='a', model=model)\<close> only supplies the chunks.\<close>

definition ids_main ::
  "module_builders \<Rightarrow> environment \<Rightarrow> (string \<times> string \<times> 'tk) list \<Rightarrow> ids_args \<Rightarrow> int list result" where
  "ids_main b env en_chunks args =
     rbind (kmodel_new b env (ConfigPath (ids_config_file args)) (Some (ids_checkpoint_path args)))
       (\<lambda>km. ids_script (vocab_of (vocab_json km)) en_chunks)"

section \<open>The script against the export script\<close>

text \<open>C31. src/ids.py prints exactly the ids that \<^verbatim>\<open>load_input_ids\<close> of the export
  script feeds to the model built from the same configuration and checkpoint, without
  the two zero markers: it fails as the construction of that model fails, and with the
  same unbound \<^verbatim>\<open>ps\<close> when the tokenizer yields no chunk.\<close>

theorem ids_main_matches_export:
  "map_sum id wrap_ids (ids_main b env en_chunks args)
   = rbind (kmodel_new b env (ConfigPath (ids_config_file args)) (Some (ids_checkpoint_path args)))
       (\<lambda>km. map_sum id snd (load_input_ids (vocab_of (vocab_json km)) ''a'' en_chunks other_ps))"
proof (cases "kmodel_new b env (ConfigPath (ids_config_file args)) (Some (ids_checkpoint_path args))")
  case (Inl e)
  then show ?thesis
    by (simp add: ids_main_def)
next
  case (Inr km)
  then show ?thesis
    using ids_script_matches_export [of "vocab_of (vocab_json km)" en_chunks other_ps]
    by (simp add: ids_main_def)
qed

end
