(* ===== verification/Spec2Isabelle.thy ===== *)
theory Spec2Isabelle
  imports Pipeline Spectral Fourier Weights Export Config Cli Ids
begin

text \<open>
  \<^bold>\<open>A verification development of the Kokoro ONNX export\<close> (src/kokoro/model.py,
  src/export.py, src/ids.py).

  \<^bold>\<open>The program.\<close> \<^verbatim>\<open>KModel\<close> (model.py) loads its weights (\<^verbatim>\<open>__init__\<close>), encodes a
  phoneme string into token ids, runs the ALBERT context encoder, the prosody predictor
  (durations, pitch, energy), expands the per-token features to frames with an
  alignment matrix and decodes a waveform; \<^verbatim>\<open>forward\<close> starts from phonemes,
  \<^verbatim>\<open>inference\<close> from token ids and is the function the export traces. export.py wraps
  \<^verbatim>\<open>inference\<close> in \<^verbatim>\<open>Model\<close>, exports it to ONNX with a dynamic sequence axis, builds
  sample inputs (\<^verbatim>\<open>load_sample\<close>: phonemes to ids, voice pack to style), runs the PyTorch
  model or the ONNX graph, low-pass filters the result (\<^verbatim>\<open>post_process\<close>) and plays it.
  Its main block builds the model from a configuration and a checkpoint and, by its
  flags, exports it, checks it, or runs the exported graph written by an earlier run.
  ids.py builds the model from its own (defaulted) paths and repeats the token step of
  \<^verbatim>\<open>load_input_ids\<close>.

  \<^bold>\<open>Theories.\<close> Floats are reals (rounding error is not modelled), tensors lists or
  lists of rows with the batch axis of size one dropped, exceptions values of
  \<open>py_error\<close> returned as \<open>Inl\<close> of an \<open>'a result\<close>, sequenced by \<open>rbind\<close>. Integer
  tensors are int64: the cast \<^verbatim>\<open>.long()\<close> and the cumulative sum are written out with
  their overflow (\<open>int64_min\<close>, \<open>wrap64\<close>, \<open>cumsum64\<close>).
  \<^item> Prelude: the error type, \<open>rbind\<close>/\<open>rmap\<close>, Python indexing \<open>py_index\<close> (negative
    indices, \<^verbatim>\<open>IndexError\<close>), \<open>cumsum\<close> and its int64 version \<open>cumsum64\<close>, \<open>zeros\<close>,
    the shape-checked \<open>matmul\<close>, and the shared list and prefix-sum lemmas.
  \<^item> Alignment: the two constructions of the alignment matrix, \<open>scatter_alignment\<close>
    (\<^verbatim>\<open>forward\<close>, lines 99--102: \<open>repeat_interleave\<close> and the scatter \<open>index_put\<close>) and
    \<open>boundary_alignment\<close> (\<^verbatim>\<open>inference\<close>, lines 130--135: cumulative boundaries and a
    mask), an abstract \<open>alignment_spec\<close> from the spec, refinement lemmas for both, and
    the int64 construction \<open>inference_alignment\<close>. C1--C4: the constructions agree,
    every frame has one token and token \<open>i\<close> has \<open>dur[i]\<close> frames, the int64
    construction is the exact one whenever the durations are non-negative and their
    total is below \<open>2^63\<close> (\<open>durations_fit\<close>), and the product with the matrix repeats
    feature columns.
  \<^item> Duration: the duration policy (lines 96--97, 127--129) as \<open>pred_dur\<close>, with
    \<open>torch_round\<close> rounding half to even and \<open>frames_of\<close> the clamp and the cast to
    int64 (a value of at least \<open>2^63\<close>, and the infinity or NaN of speed zero, become
    \<open>INT64_MIN\<close>). C5--C8: at least one frame per token and monotone in a positive speed
    when no cast overflows (\<open>no_cast_overflow\<close>: the number of logits of a row is at
    most \<open>(2^63 - 1) * |speed|\<close>), bounded by the number of logits at speed at least one,
    and one frame per token at a negative speed.
  \<^item> Tokens: the phoneme encoder of \<^verbatim>\<open>forward\<close> (lines 82--85) with its context
    assertion, \<^verbatim>\<open>load_input_ids\<close> and \<^verbatim>\<open>load_voice\<close> of export.py (lines 58--77), and
    C9--C12, including that only the last tokenizer chunk is kept; the loop of ids.py is
    \<open>ids_script\<close>.
  \<^item> Pipeline: \<^verbatim>\<open>KModel.forward\<close> and \<^verbatim>\<open>KModel.inference\<close> composed from a record
    \<open>backend\<close> of the neural modules, which live outside the sources; \<open>backend_contract\<close>
    is what the export assumes of them, \<open>backend_shapes\<close> the shapes they give, and
    \<open>logits_fit\<close> says the clamped duration logits of an utterance number fewer than
    \<open>2^63\<close>, which every tensor torch can hold satisfies. C13: under these the two paths
    give the same waveform at any nonzero speed; C15 (progress): with modules of those
    shapes, \<^verbatim>\<open>inference\<close> always returns one waveform, none of its products failing;
    C18: at speed zero the paths part, \<^verbatim>\<open>forward\<close> raising in \<^verbatim>\<open>repeat_interleave\<close>
    while \<^verbatim>\<open>inference\<close> returns a waveform for an even number of tokens (the wrapped
    sum of the \<open>INT64_MIN\<close> durations is zero) and raises in \<^verbatim>\<open>arange\<close> otherwise.
  \<^item> Spectral: \<^verbatim>\<open>post_process\<close> (export.py lines 98--112) with torch's \<open>stft\<close> and
    \<open>istft\<close> at n_fft 100, hop 25, centred reflect padding and the periodic Hann window;
    C14, C16, C17: it is a fixed low-pass filter on the spectrum, short or unbatched
    inputs raise, and longer batches always succeed with \<open>25 * (T div 25)\<close> samples.
  \<^item> Fourier: the discrete Fourier transform behind \<open>stft\<close> and \<open>istft\<close> (orthogonality of
    the roots of unity, inversion, Hermitian symmetry, overlap-add); C32: \<open>istft\<close> of
    \<open>stft\<close> gives the signal back.
  \<^item> Weights: the checkpoint loop of \<^verbatim>\<open>KModel.__init__\<close> (lines 55--63) with torch's
    \<^verbatim>\<open>load_state_dict\<close> (copies first, raises after), the bare \<^verbatim>\<open>except\<close> and the
    \<^verbatim>\<open>k[7:]\<close> retry; C19--C25: shapes are invariant, exact checkpoints load fully,
    \<^verbatim>\<open>DataParallel\<close> prefixes round-trip, the errors the fallback swallows, that a
    checkpoint leaving submodules out loads without an error and leaves them at their
    initial weights, and that every key of a loaded checkpoint names a submodule.
  \<^item> Export: the \<^verbatim>\<open>Model\<close> wrapper, the input signature of the exported graph, the
    input check of onnxruntime, \<^verbatim>\<open>load_sample\<close>, \<^verbatim>\<open>check_model\<close>, \<^verbatim>\<open>inference_onnx\<close> and
    the command-line dispatch; C26--C29: the signature, that samples are always accepted,
    that the ONNX check plays what the PyTorch check plays, and the length of the audio.
  \<^item> Config: the rest of \<^verbatim>\<open>KModel.__init__\<close> (lines 29--63): the configuration
    argument, the \<^verbatim>\<open>config.json\<close> lookups in evaluation order, \<^verbatim>\<open>AlbertConfig\<close> and its
    defaults, \<^verbatim>\<open>torch.nn.Linear\<close>, the checkpoint path and the loading of Weights, as
    \<open>kmodel_new\<close> over a record \<open>module_builders\<close> of the submodule constructors (each
    with its own random initialisation) and an \<open>environment\<close> of files and downloads
    from the repository \<open>repo_id\<close> (line 27); C33, C34: the keys the configuration must
    have, and the shape of \<^verbatim>\<open>bert_encoder\<close>.
  \<^item> Cli: \<^verbatim>\<open>export_onnx\<close> (export.py lines 28--56: write the graph, then validate it with
    \<^verbatim>\<open>onnx.checker\<close>, a predicate parameter) and the main block (lines 161--179) as
    \<open>export_main\<close>, one run of the script returning the graph files it leaves beside its
    outcome, so that a file written before a raise persists. Each run builds its model
    with its own builders, since a new process initialises the submodules afresh. C36:
    after an export run, even one whose validation raised, an \<^verbatim>\<open>--inference\<close> run plays
    what \<^verbatim>\<open>check_model\<close> plays for the model of the export run.
  \<^item> Ids: the script ids.py as \<open>ids_main\<close> (its default paths \<open>ids_defaults\<close>, the
    construction of the model by \<open>kmodel_new\<close>, the loop \<open>ids_script\<close>); C31: it prints the
    ids the export feeds to the model built from the same files.
  The theorems below compose the components: C30 (Tokens, Pipeline, Spectral and
  Export: the ONNX path plays the post-processed \<^verbatim>\<open>KModel.forward\<close>) and C35 (Config
  and Tokens: the export's truncation fits the constructed model's context).

  \<^bold>\<open>Bounds.\<close> No definition needs fuel, and there is no termination claim: every
  loop of the code is over a finite list (chunks, checkpoint entries, tokens, frames) and
  is structural recursion or a \<open>map\<close>, so every definition is total by construction; the
  liveness the code can lack is a raise, and C15, C17, C27 and C29 show when it cannot.
  The int64 side conditions (\<open>no_cast_overflow\<close>, \<open>logits_fit\<close>, rows of fewer than
  \<open>2^63\<close> logits) bound the number of elements of the logits tensor, which torch's int64
  sizes already bound; speed one, the export's, meets the cast bound for every tensor.
  C30 takes the context of 512, and C35 shows the truncation to 510 phonemes keeps every
  sample within the assertion for any context of at least 512. The only numeric side
  condition of the code, the window-envelope check of \<^verbatim>\<open>torch.istft\<close> (at least
  \<open>10^-11\<close>), is discharged by the bound \<open>1/4\<close> on the envelope proved in Spectral, for
  every signal longer than 50.

  \<^bold>\<open>Not modelled.\<close> The neural modules themselves (in files of the package outside
  the sources; their constructors, shapes and the contract enter as parameters), G2P and
  the English tokenizer (their output is a parameter), the bytes of files (a file is its
  parsed content; a download is the path it returns), ONNX serialisation (the traced
  graph is taken to compute \<^verbatim>\<open>Model.forward\<close>) and the rules of \<^verbatim>\<open>onnx.checker\<close> (a
  parameter), the parsing of argparse (the parsed arguments are records),
  \<^verbatim>\<open>os.makedirs\<close>, printing, the random example inputs of the export (a parameter), the
  \<^verbatim>\<open>device\<close> property (it only reads the device of a module's weights), audio playback,
  and memory limits (\<^verbatim>\<open>repeat_interleave\<close> in \<^verbatim>\<open>forward\<close> builds a frame axis of
  any length in the model, where torch would fail to allocate it).
\<close>

section \<open>Properties across components\<close>

text \<open>C30. The deployed path computes the original one: for the English sample of
  \<^verbatim>\<open>load_sample\<close> and a voice pack of 256-wide styles, running the exported graph in
  onnxruntime and post-processing plays exactly the post-processed waveform of
  \<^verbatim>\<open>KModel.forward\<close> on the truncated phonemes, with the reference context of 512 and
  the script's speed of one, and fails exactly when that fails, whenever the duration
  logits of the predictor fit (fewer than \<open>2^63\<close> frames in total).\<close>

theorem onnx_path_plays_forward:
  assumes contract: "backend_contract m"
    and pack: "list_all (\<lambda>r. length r = 256) pack"
    and ids: "load_input_ids vocab ''a'' en_chunks [] = Inr (ps, input_ids)"
    and style: "load_voice pack ps = Inr style"
    and fit: "logits_fit (snd (inference_prosody m input_ids style))"
  shows "inference_onnx (export_signature example_ids) (model_forward m) vocab en_chunks pack
         = rbind (kmodel_forward m vocab 512 ps style 1 False)
             (\<lambda>out. rbind (post_process (Batch [output_audio out])) (\<lambda>output. py_index output 0))"
proof -
  from load_input_ids_Inr [OF ids] have len: "length ps \<le> 510"
    and ids_eq: "input_ids = wrap_ids (vocab_ids vocab ps)"
    by simp_all
  have "length (vocab_ids vocab ps) + 2 \<le> 512"
    using len length_vocab_ids [of vocab ps] by simp
  with ids_eq have enc: "encode_phonemes vocab 512 ps = Inr input_ids"
    by (simp add: encode_phonemes_def)
  have fwd: "map_sum id (\<lambda>out. [output_audio out]) (kmodel_forward m vocab 512 ps style (of_int 1) False)
             = kmodel_inference m input_ids style 1"
    using pred_dur_fit [OF _ fit, of "of_int 1"] by (intro forward_inference_agree [OF contract enc]) simp
  have "check_model m vocab en_chunks pack
        = rbind (kmodel_inference m input_ids style 1)
            (\<lambda>output. rbind (post_process (Batch output)) (\<lambda>output. py_index output 0))"
    using ids style by (simp add: check_model_def load_sample_def model_forward_def)
  also have "\<dots> = rbind (kmodel_forward m vocab 512 ps style 1 False)
             (\<lambda>out. rbind (post_process (Batch [output_audio out])) (\<lambda>output. py_index output 0))"
    using fwd [symmetric] by (simp add: rbind_map_sum)
  finally have cm: "check_model m vocab en_chunks pack
      = rbind (kmodel_forward m vocab 512 ps style 1 False)
          (\<lambda>out. rbind (post_process (Batch [output_audio out])) (\<lambda>output. py_index output 0))" .
  show ?thesis
    using onnx_check_agree [OF pack, of example_ids m vocab en_chunks] cm by (rule trans)
qed

theorem onnx_path_plays_forward_witness:
  "backend_contract constant_backend \<and> list_all (\<lambda>r. length r = 256) [replicate 256 (0::real)] \<and>
   load_input_ids [[CHR ''a''] \<mapsto> 5] ''a'' [(''x'', ''a'', ())] [] = Inr (''a'', [0, 5, 0]) \<and>
   load_voice [replicate 256 (0::real)] ''a'' = Inr (replicate 256 0) \<and>
   logits_fit (snd (inference_prosody constant_backend [0, 5, 0] (replicate 256 0))) \<and>
   inference_onnx (export_signature (replicate 48 1)) (model_forward constant_backend)
     [[CHR ''a''] \<mapsto> 5] [(''x'', ''a'', ())] [replicate 256 0]
   = rbind (kmodel_forward constant_backend [[CHR ''a''] \<mapsto> 5] 512 ''a'' (replicate 256 0) 1 False)
       (\<lambda>out. rbind (post_process (Batch [output_audio out])) (\<lambda>output. py_index output 0))"
proof -
  have c: "backend_contract constant_backend"
    by (simp add: backend_contract_def)
  have p: "list_all (\<lambda>r. length r = 256) [replicate 256 (0::real)]"
    by simp
  have i: "load_input_ids [[CHR ''a''] \<mapsto> 5] ''a'' [(''x'', ''a'', ())] [] = Inr (''a'', [0, 5, 0])"
    by (simp add: load_input_ids_def sublist_Cons_right truncate_phonemes_def vocab_ids_def wrap_ids_def)
  have s: "load_voice [replicate 256 (0::real)] ''a'' = Inr (replicate 256 0)"
    by (simp add: load_voice_def py_index_def)
  have f: "logits_fit (snd (inference_prosody constant_backend [0, 5, 0] (replicate 256 0)))"
    by (simp add: inference_prosody_def logits_fit_def Let_def)
  show ?thesis
    using onnx_path_plays_forward [OF c p i s f, of "replicate 48 1"] c p i s f by simp
qed

text \<open>C35. The truncation of the export script fits every model whose configuration
  keeps the default context or a longer one: for a model constructed from a
  configuration whose \<^verbatim>\<open>plbert\<close> leaves \<^verbatim>\<open>max_position_embeddings\<close> unset or sets it to
  at least 512, the ids \<^verbatim>\<open>load_input_ids\<close> builds with the model's vocabulary pass the
  context assertion of \<^verbatim>\<open>KModel.forward\<close> for that model.\<close>

theorem export_sample_fits_context:
  assumes km: "kmodel_new b env config model = Inr km"
    and cfg: "resolve_config env config = Inr cfg" and pl: "json_get cfg ''plbert'' = Inr (JObject kw)"
    and mpe: "case map_of kw ''max_position_embeddings'' of None \<Rightarrow> True | Some (JInt c) \<Rightarrow> 512 \<le> c | Some _ \<Rightarrow> False"
    and ids: "load_input_ids (vocab_of (vocab_json km)) ''a'' en_chunks [] = Inr (ps, input_ids)"
  shows "\<exists>c. context_length km = JInt c \<and> 512 \<le> c \<and>
             encode_phonemes (vocab_of (vocab_json km)) (nat c) ps = Inr input_ids"
proof -
  obtain c where ctx: "context_length km = JInt c" and c: "512 \<le> c"
  proof (rule kmodel_new_Inr [OF km])
    fix cfg' kw' loaded vocab
    assume "resolve_config env config = Inr cfg'" "json_get cfg' ''plbert'' = Inr (JObject kw')"
      and k: "km = \<lparr>vocab_json = vocab, context_length = config_attr kw' ''max_position_embeddings'' (JInt 512),
               attrs = loaded\<rparr>"
    with cfg pl have "kw' = kw" by simp
    with k mpe show thesis
      by (auto simp: config_attr_def intro: that split: option.splits json.splits)
  qed
  from load_input_ids_Inr [OF ids] have len: "length ps \<le> 510"
    and eq: "input_ids = wrap_ids (vocab_ids (vocab_of (vocab_json km)) ps)"
    by simp_all
  have "length (vocab_ids (vocab_of (vocab_json km)) ps) + 2 \<le> nat c"
    using len length_vocab_ids [of "vocab_of (vocab_json km)" ps] c by linarith
  with eq have "encode_phonemes (vocab_of (vocab_json km)) (nat c) ps = Inr input_ids"
    by (simp add: encode_phonemes_def)
  with ctx c show ?thesis by blast
qed

theorem export_sample_fits_context_witness:
  "kmodel_new toy_builders toy_env NoConfig None = Inr \<lparr>vocab_json = JObject [(''a'', JInt 5)], context_length = JInt 512,
            attrs = kmodel_attrs_init toy_module
                      \<lparr>params = [(''weight'', ([2, 4], replicate 8 0)), (''bias'', ([2], [0, 0]))]\<rparr>
                      toy_module toy_module toy_module\<rparr> \<and>
   resolve_config toy_env NoConfig = Inr toy_config \<and>
   json_get toy_config ''plbert'' = Inr (JObject [(''hidden_size'', JInt 4)]) \<and>
   load_input_ids (vocab_of (JObject [(''a'', JInt 5)])) ''a'' [(''x'', ''a'', ())] [] = Inr (''a'', [0, 5, 0]) \<and>
   (\<exists>c. context_length \<lparr>vocab_json = JObject [(''a'', JInt 5)], context_length = JInt 512,
            attrs = kmodel_attrs_init toy_module
                      \<lparr>params = [(''weight'', ([2, 4], replicate 8 0)), (''bias'', ([2], [0, 0]))]\<rparr>
                      toy_module toy_module toy_module\<rparr> = JInt c \<and> 512 \<le> c \<and>
        encode_phonemes (vocab_of (JObject [(''a'', JInt 5)])) (nat c) ''a'' = Inr [0, 5, 0])"
proof -
  have k: "kmodel_new toy_builders toy_env NoConfig None = Inr \<lparr>vocab_json = JObject [(''a'', JInt 5)], context_length = JInt 512,
            attrs = kmodel_attrs_init toy_module
                      \<lparr>params = [(''weight'', ([2, 4], replicate 8 0)), (''bias'', ([2], [0, 0]))]\<rparr>
                      toy_module toy_module toy_module\<rparr>"
    by (simp add: construct_eval numeral_eq_Suc)
  have r: "resolve_config toy_env NoConfig = Inr toy_config"
    by (simp add: construct_eval)
  have p: "json_get toy_config ''plbert'' = Inr (JObject [(''hidden_size'', JInt 4)])"
    by (simp add: construct_eval)
  have m: "case map_of [(''hidden_size'', JInt 4)] ''max_position_embeddings'' of None \<Rightarrow> True
             | Some (JInt c) \<Rightarrow> 512 \<le> c | Some _ \<Rightarrow> False"
    by simp
  have i: "load_input_ids (vocab_of (vocab_json \<lparr>vocab_json = JObject [(''a'', JInt 5)], context_length = JInt 512,
            attrs = kmodel_attrs_init toy_module
                      \<lparr>params = [(''weight'', ([2, 4], replicate 8 0)), (''bias'', ([2], [0, 0]))]\<rparr>
                      toy_module toy_module toy_module\<rparr>)) ''a'' [(''x'', ''a'', ())] [] = Inr (''a'', [0, 5, 0])"
    by (simp add: load_input_ids_def sublist_Cons_right truncate_phonemes_def vocab_ids_def wrap_ids_def
        vocab_of_def json_get_def)
  show ?thesis
    using export_sample_fits_context [OF k r p m i] k r p i by simp
qed

end
